theory Spec2Isabelle
  imports Main "HOL-Library.Sublist"
begin

unbundle bit_operations_syntax

section \<open>Strings\<close>

text \<open>
  Source strings are modelled as \<^typ>\<open>string\<close>: a list of code units below 256. The
  functions of this section are the JavaScript string operations the extraction code calls.
\<close>

definition substring :: "string \<Rightarrow> nat \<Rightarrow> nat \<Rightarrow> string" where
  \<comment> \<open>\<open>s.substring(a, b)\<close>: both indices are clamped to the length and swapped when \<open>a > b\<close>\<close>
  "substring s a b =
     (let a' = min a (length s); b' = min b (length s)
      in take (max a' b' - min a' b') (drop (min a' b') s))"

fun str_includes :: "string \<Rightarrow> string \<Rightarrow> bool" where
  \<comment> \<open>\<open>s.includes(sub)\<close>\<close>
  "str_includes [] sub = (sub = [])"
| "str_includes (c # cs) sub = (prefix sub (c # cs) \<or> str_includes cs sub)"

definition stripQuotes :: "string \<Rightarrow> string" where
  \<comment> \<open>\<open>s.replace(/['"]/g, '')\<close>\<close>
  "stripQuotes s = filter (\<lambda>c. c \<noteq> CHR 0x27 \<and> c \<noteq> CHR 0x22) s"

fun join :: "string \<Rightarrow> string list \<Rightarrow> string" where
  \<comment> \<open>\<open>parts.join(sep)\<close>\<close>
  "join sep [] = []"
| "join sep [p] = p"
| "join sep (p # q # ps) = p @ sep @ join sep (q # ps)"

definition digit_char :: "nat \<Rightarrow> char" where
  "digit_char d = ''0123456789'' ! d"

function show_nat :: "nat \<Rightarrow> string" where
  \<comment> \<open>the decimal numeral a template literal prints for a non-negative integer\<close>
  "show_nat n = (if n < 10 then [digit_char n] else show_nat (n div 10) @ [digit_char (n mod 10)])"
  by pat_completeness auto
termination
  by (relation "measure id") auto

declare show_nat.simps [simp del]

section \<open>SHA-256\<close>

text \<open>
  \<open>crypto.createHash('sha256').update(s).digest('hex')\<close> of the Node.js runtime: the
  SHA-256 function of FIPS 180-4 on the UTF-8 bytes of \<open>s\<close>, printed as 64 lower-case
  hexadecimal digits. The 32-bit words are natural numbers with the wrap-around written out.
\<close>

definition add32 :: "nat \<Rightarrow> nat \<Rightarrow> nat" where
  "add32 x y = (x + y) mod 4294967296"

definition rotr :: "nat \<Rightarrow> nat \<Rightarrow> nat" where
  "rotr n x = x div 2 ^ n + (x mod 2 ^ n) * 2 ^ (32 - n)"

definition sha_K :: "nat list" where
  "sha_K = [
  1116352408, 1899447441, 3049323471, 3921009573, 961987163, 1508970993, 2453635748, 2870763221,
  3624381080, 310598401, 607225278, 1426881987, 1925078388, 2162078206, 2614888103, 3248222580,
  3835390401, 4022224774, 264347078, 604807628, 770255983, 1249150122, 1555081692, 1996064986,
  2554220882, 2821834349, 2952996808, 3210313671, 3336571891, 3584528711, 113926993, 338241895,
  666307205, 773529912, 1294757372, 1396182291, 1695183700, 1986661051, 2177026350, 2456956037,
  2730485921, 2820302411, 3259730800, 3345764771, 3516065817, 3600352804, 4094571909, 275423344,
  430227734, 506948616, 659060556, 883997877, 958139571, 1322822218, 1537002063, 1747873779,
  1955562222, 2024104815, 2227730452, 2361852424, 2428436474, 2756734187, 3204031479, 3329325298]"

definition sha_H0 :: "nat list" where
  "sha_H0 = [1779033703, 3144134277, 1013904242, 2773480762,
             1359893119, 2600822924, 528734635, 1541459225]"

definition ssig0 :: "nat \<Rightarrow> nat" where
  "ssig0 x = rotr 7 x XOR rotr 18 x XOR x div 2 ^ 3"

definition ssig1 :: "nat \<Rightarrow> nat" where
  "ssig1 x = rotr 17 x XOR rotr 19 x XOR x div 2 ^ 10"

definition bsig0 :: "nat \<Rightarrow> nat" where
  "bsig0 x = rotr 2 x XOR rotr 13 x XOR rotr 22 x"

definition bsig1 :: "nat \<Rightarrow> nat" where
  "bsig1 x = rotr 6 x XOR rotr 11 x XOR rotr 25 x"

definition ch :: "nat \<Rightarrow> nat \<Rightarrow> nat \<Rightarrow> nat" where
  "ch e f g = (e AND f) XOR ((4294967295 - e) AND g)"

definition maj :: "nat \<Rightarrow> nat \<Rightarrow> nat \<Rightarrow> nat" where
  "maj a b c = (a AND b) XOR (a AND c) XOR (b AND c)"

fun next_w :: "nat list \<Rightarrow> nat" where
  \<comment> \<open>the next word of the message schedule, from the sixteen latest words, oldest first\<close>
  "next_w [w0, w1, w2, w3, w4, w5, w6, w7, w8, w9, w10, w11, w12, w13, w14, w15] =
     add32 (add32 (add32 w0 (ssig0 w1)) w9) (ssig1 w14)"
| "next_w ws = 0"

definition round_out :: "nat \<Rightarrow> nat \<Rightarrow> nat list \<Rightarrow> nat list" where
  "round_out t1 t2 st =
     (case st of [a, b, c, d, e, f, g, h] \<Rightarrow> [add32 t1 t2, a, b, c, add32 d t1, e, f, g]
      | _ \<Rightarrow> st)"

fun sha_round :: "nat \<Rightarrow> nat \<Rightarrow> nat list \<Rightarrow> nat list" where
  "sha_round k w [a, b, c, d, e, f, g, h] =
     round_out (add32 (add32 (add32 (add32 h (bsig1 e)) (ch e f g)) k) w)
       (add32 (bsig0 a) (maj a b c)) [a, b, c, d, e, f, g, h]"
| "sha_round k w st = st"

fun rounds :: "nat list \<Rightarrow> nat list \<Rightarrow> nat list \<Rightarrow> nat list" where
  "rounds [] ws st = st"
| "rounds (k # ks) ws st = rounds ks (tl ws @ [next_w ws]) (sha_round k (hd ws) st)"

definition compress :: "nat list \<Rightarrow> nat list \<Rightarrow> nat list" where
  "compress hs block = map2 add32 hs (rounds sha_K block hs)"

fun be_words :: "nat list \<Rightarrow> nat list" where
  "be_words (a # b # c # d # r) = (((a * 256 + b) * 256 + c) * 256 + d) # be_words r"
| "be_words r = []"

definition be64 :: "nat \<Rightarrow> nat list" where
  "be64 n = map (\<lambda>i. (n div 256 ^ i) mod 256) [7, 6, 5, 4, 3, 2, 1, 0]"

definition sha_pad :: "nat list \<Rightarrow> nat list" where
  "sha_pad m = m @ [128] @ replicate ((119 - length m mod 64) mod 64) 0 @ be64 (8 * length m)"

fun sha_blocks :: "nat list \<Rightarrow> nat list \<Rightarrow> nat list" where
  "sha_blocks hs (w0 # w1 # w2 # w3 # w4 # w5 # w6 # w7 # w8 # w9 # w10 # w11 # w12 # w13 # w14 # w15 # r) =
     sha_blocks (compress hs [w0, w1, w2, w3, w4, w5, w6, w7, w8, w9, w10, w11, w12, w13, w14, w15]) r"
| "sha_blocks hs r = hs"

definition hex_char :: "nat \<Rightarrow> char" where
  "hex_char d = ''0123456789abcdef'' ! d"

definition hex32 :: "nat \<Rightarrow> string" where
  "hex32 w = map (\<lambda>i. hex_char ((w div 16 ^ i) mod 16)) [7, 6, 5, 4, 3, 2, 1, 0]"

definition utf8 :: "string \<Rightarrow> nat list" where
  "utf8 s = concat (map (\<lambda>c. let n = of_char c in
                              if n < 128 then [n] else [192 + n div 64, 128 + n mod 64]) s)"

definition sha256hex :: "string \<Rightarrow> string" where
  "sha256hex s = concat (map hex32 (sha_blocks sha_H0 (be_words (sha_pad (utf8 s)))))"

section \<open>Data model\<close>

text \<open>
  The closed sets of \<open>../types\<close>: language tags, node kinds, edge and reference kinds.
\<close>

datatype Language = TypeScript | Tsx | JavaScript | Jsx | Python | Go | Rust | Java | C | Cpp
  | CSharp | Php | Ruby | Swift | Kotlin | Liquid | Unknown

fun language_tag :: "Language \<Rightarrow> string" where
  "language_tag TypeScript = ''typescript''"
| "language_tag Tsx = ''tsx''"
| "language_tag JavaScript = ''javascript''"
| "language_tag Jsx = ''jsx''"
| "language_tag Python = ''python''"
| "language_tag Go = ''go''"
| "language_tag Rust = ''rust''"
| "language_tag Java = ''java''"
| "language_tag C = ''c''"
| "language_tag Cpp = ''cpp''"
| "language_tag CSharp = ''csharp''"
| "language_tag Php = ''php''"
| "language_tag Ruby = ''ruby''"
| "language_tag Swift = ''swift''"
| "language_tag Kotlin = ''kotlin''"
| "language_tag Liquid = ''liquid''"
| "language_tag Unknown = ''unknown''"

datatype NodeKind = KFile | KFunction | KMethod | KClass | KStruct | KInterface | KTrait | KEnum
  | KEnumMember | KProperty | KConstant | KVariable | KTypeAlias | KComponent | KRoute

fun kind_tag :: "NodeKind \<Rightarrow> string" where
  "kind_tag KFile = ''file''"
| "kind_tag KFunction = ''function''"
| "kind_tag KMethod = ''method''"
| "kind_tag KClass = ''class''"
| "kind_tag KStruct = ''struct''"
| "kind_tag KInterface = ''interface''"
| "kind_tag KTrait = ''trait''"
| "kind_tag KEnum = ''enum''"
| "kind_tag KEnumMember = ''enum_member''"
| "kind_tag KProperty = ''property''"
| "kind_tag KConstant = ''constant''"
| "kind_tag KVariable = ''variable''"
| "kind_tag KTypeAlias = ''type_alias''"
| "kind_tag KComponent = ''component''"
| "kind_tag KRoute = ''route''"

datatype EdgeKind = Contains | Calls | Imports | Extends | Implements | References

datatype Visibility = Public | Private | Protected | Internal

datatype Severity = SevError | SevWarning

text \<open>
  A node carries the eleven mandatory fields. The optional attributes of the source
  (\<open>docstring\<close>, \<open>signature\<close>, \<open>visibility\<close>, \<open>isExported\<close>, \<open>isAsync\<close>, \<open>isStatic\<close>,
  \<open>isAbstract\<close>, \<open>decorators\<close>) are computed from the syntax node and the source text
  alone, are stored in the node and are never read again by the extractors; they are left
  out of the record. The visibility extractors are modelled on their own further down.
\<close>

record Node =
  node_id :: string
  kind :: NodeKind
  name :: string
  qualifiedName :: string
  filePath :: string
  language :: Language
  startLine :: nat
  endLine :: nat
  startColumn :: nat
  endColumn :: nat
  updatedAt :: int

record Edge =
  source :: string
  target :: string
  edge_kind :: EdgeKind

record UnresolvedReference =
  fromNodeId :: string
  referenceName :: string
  referenceKind :: EdgeKind
  line :: nat
  column :: nat

record ExtractionError =
  message :: string
  severity :: Severity

record Output =
  nodes :: "Node list"
  edges :: "Edge list"
  unresolvedReferences :: "UnresolvedReference list"
  errors :: "ExtractionError list"

record ExtractionResult = Output +
  durationMs :: int

section \<open>Node identity\<close>

definition generateNodeId :: "string \<Rightarrow> NodeKind \<Rightarrow> string \<Rightarrow> nat \<Rightarrow> string" where
  "generateNodeId fp k nm ln =
     kind_tag k @ '':'' @
     substring (sha256hex (fp @ '':'' @ kind_tag k @ '':'' @ nm @ '':'' @ show_nat ln)) 0 32"

section \<open>Concrete syntax trees\<close>

text \<open>
  A node of the tree-sitter tree: its type, whether it is a named node, the field name under
  which its parent holds it, its extent in the source (indices, and row and column of both
  ends), and all its children in order.
\<close>

datatype SyntaxNode = SyntaxNode
  (nodeType: string) (isNamed: bool) (fieldName: "string option")
  (startIndex: nat) (endIndex: nat)
  (startPosition: "nat \<times> nat") (endPosition: "nat \<times> nat")
  (children: "SyntaxNode list")

definition namedChildren :: "SyntaxNode \<Rightarrow> SyntaxNode list" where
  "namedChildren n = filter isNamed (children n)"

definition namedChild :: "SyntaxNode \<Rightarrow> nat \<Rightarrow> SyntaxNode option" where
  "namedChild n i = (if i < length (namedChildren n) then Some (namedChildren n ! i) else None)"

definition childForFieldName :: "SyntaxNode \<Rightarrow> string \<Rightarrow> SyntaxNode option" where
  "childForFieldName n f = find (\<lambda>c. fieldName c = Some f) (children n)"

definition orElse :: "'a option \<Rightarrow> 'a option \<Rightarrow> 'a option" where
  \<comment> \<open>\<open>a || b\<close> on values that are an object or null\<close>
  "orElse a b = (case a of Some x \<Rightarrow> Some x | None \<Rightarrow> b)"

definition getNodeText :: "SyntaxNode \<Rightarrow> string \<Rightarrow> string" where
  "getNodeText node src = substring src (startIndex node) (endIndex node)"

definition getChildByField :: "SyntaxNode \<Rightarrow> string \<Rightarrow> SyntaxNode option" where
  "getChildByField node fname =
     orElse (childForFieldName node fname)
            (find (\<lambda>c. nodeType c = fname) (namedChildren node))"

definition row1 :: "nat \<times> nat \<Rightarrow> nat" where
  \<comment> \<open>\<open>position.row + 1\<close>\<close>
  "row1 p = fst p + 1"

section \<open>The policy table\<close>

record LanguageExtractor =
  functionTypes :: "string list"
  classTypes :: "string list"
  methodTypes :: "string list"
  interfaceTypes :: "string list"
  structTypes :: "string list"
  enumTypes :: "string list"
  importTypes :: "string list"
  callTypes :: "string list"
  nameField :: string
  bodyField :: string
  paramsField :: string
  returnField :: "string option"

definition typescript_extractor :: LanguageExtractor where
  "typescript_extractor = \<lparr>
     functionTypes = [''function_declaration'', ''arrow_function'', ''function_expression''],
     classTypes = [''class_declaration''],
     methodTypes = [''method_definition'', ''public_field_definition''],
     interfaceTypes = [''interface_declaration''],
     structTypes = [],
     enumTypes = [''enum_declaration''],
     importTypes = [''import_statement''],
     callTypes = [''call_expression''],
     nameField = ''name'', bodyField = ''body'', paramsField = ''parameters'',
     returnField = Some ''return_type'' \<rparr>"

definition javascript_extractor :: LanguageExtractor where
  "javascript_extractor = \<lparr>
     functionTypes = [''function_declaration'', ''arrow_function'', ''function_expression''],
     classTypes = [''class_declaration''],
     methodTypes = [''method_definition'', ''field_definition''],
     interfaceTypes = [],
     structTypes = [],
     enumTypes = [],
     importTypes = [''import_statement''],
     callTypes = [''call_expression''],
     nameField = ''name'', bodyField = ''body'', paramsField = ''parameters'',
     returnField = None \<rparr>"

definition python_extractor :: LanguageExtractor where
  "python_extractor = \<lparr>
     functionTypes = [''function_definition''],
     classTypes = [''class_definition''],
     methodTypes = [''function_definition''],
     interfaceTypes = [],
     structTypes = [],
     enumTypes = [],
     importTypes = [''import_statement'', ''import_from_statement''],
     callTypes = [''call''],
     nameField = ''name'', bodyField = ''body'', paramsField = ''parameters'',
     returnField = Some ''return_type'' \<rparr>"

definition go_extractor :: LanguageExtractor where
  "go_extractor = \<lparr>
     functionTypes = [''function_declaration''],
     classTypes = [],
     methodTypes = [''method_declaration''],
     interfaceTypes = [''interface_type''],
     structTypes = [''struct_type''],
     enumTypes = [],
     importTypes = [''import_declaration''],
     callTypes = [''call_expression''],
     nameField = ''name'', bodyField = ''body'', paramsField = ''parameters'',
     returnField = Some ''result'' \<rparr>"

definition rust_extractor :: LanguageExtractor where
  "rust_extractor = \<lparr>
     functionTypes = [''function_item''],
     classTypes = [],
     methodTypes = [''function_item''],
     interfaceTypes = [''trait_item''],
     structTypes = [''struct_item''],
     enumTypes = [''enum_item''],
     importTypes = [''use_declaration''],
     callTypes = [''call_expression''],
     nameField = ''name'', bodyField = ''body'', paramsField = ''parameters'',
     returnField = Some ''return_type'' \<rparr>"

definition java_extractor :: LanguageExtractor where
  "java_extractor = \<lparr>
     functionTypes = [],
     classTypes = [''class_declaration''],
     methodTypes = [''method_declaration'', ''constructor_declaration''],
     interfaceTypes = [''interface_declaration''],
     structTypes = [],
     enumTypes = [''enum_declaration''],
     importTypes = [''import_declaration''],
     callTypes = [''method_invocation''],
     nameField = ''name'', bodyField = ''body'', paramsField = ''parameters'',
     returnField = Some ''type'' \<rparr>"

definition c_extractor :: LanguageExtractor where
  "c_extractor = \<lparr>
     functionTypes = [''function_definition''],
     classTypes = [],
     methodTypes = [],
     interfaceTypes = [],
     structTypes = [''struct_specifier''],
     enumTypes = [''enum_specifier''],
     importTypes = [''preproc_include''],
     callTypes = [''call_expression''],
     nameField = ''declarator'', bodyField = ''body'', paramsField = ''parameters'',
     returnField = None \<rparr>"

definition cpp_extractor :: LanguageExtractor where
  "cpp_extractor = \<lparr>
     functionTypes = [''function_definition''],
     classTypes = [''class_specifier''],
     methodTypes = [''function_definition''],
     interfaceTypes = [],
     structTypes = [''struct_specifier''],
     enumTypes = [''enum_specifier''],
     importTypes = [''preproc_include''],
     callTypes = [''call_expression''],
     nameField = ''declarator'', bodyField = ''body'', paramsField = ''parameters'',
     returnField = None \<rparr>"

definition csharp_extractor :: LanguageExtractor where
  "csharp_extractor = \<lparr>
     functionTypes = [],
     classTypes = [''class_declaration''],
     methodTypes = [''method_declaration'', ''constructor_declaration''],
     interfaceTypes = [''interface_declaration''],
     structTypes = [''struct_declaration''],
     enumTypes = [''enum_declaration''],
     importTypes = [''using_directive''],
     callTypes = [''invocation_expression''],
     nameField = ''name'', bodyField = ''body'', paramsField = ''parameter_list'',
     returnField = None \<rparr>"

definition php_extractor :: LanguageExtractor where
  "php_extractor = \<lparr>
     functionTypes = [''function_definition''],
     classTypes = [''class_declaration''],
     methodTypes = [''method_declaration''],
     interfaceTypes = [''interface_declaration''],
     structTypes = [],
     enumTypes = [''enum_declaration''],
     importTypes = [''namespace_use_declaration''],
     callTypes = [''function_call_expression'', ''member_call_expression'',
                  ''scoped_call_expression''],
     nameField = ''name'', bodyField = ''body'', paramsField = ''parameters'',
     returnField = Some ''return_type'' \<rparr>"

definition ruby_extractor :: LanguageExtractor where
  "ruby_extractor = \<lparr>
     functionTypes = [''method''],
     classTypes = [''class''],
     methodTypes = [''method'', ''singleton_method''],
     interfaceTypes = [],
     structTypes = [],
     enumTypes = [],
     importTypes = [''call''],
     callTypes = [''call'', ''method_call''],
     nameField = ''name'', bodyField = ''body'', paramsField = ''parameters'',
     returnField = None \<rparr>"

definition swift_extractor :: LanguageExtractor where
  "swift_extractor = \<lparr>
     functionTypes = [''function_declaration''],
     classTypes = [''class_declaration''],
     methodTypes = [''function_declaration''],
     interfaceTypes = [''protocol_declaration''],
     structTypes = [''struct_declaration''],
     enumTypes = [''enum_declaration''],
     importTypes = [''import_declaration''],
     callTypes = [''call_expression''],
     nameField = ''name'', bodyField = ''body'', paramsField = ''parameter'',
     returnField = Some ''return_type'' \<rparr>"

definition kotlin_extractor :: LanguageExtractor where
  "kotlin_extractor = \<lparr>
     functionTypes = [''function_declaration''],
     classTypes = [''class_declaration'', ''object_declaration''],
     methodTypes = [''function_declaration''],
     interfaceTypes = [''class_declaration''],
     structTypes = [],
     enumTypes = [''class_declaration''],
     importTypes = [''import_header''],
     callTypes = [''call_expression''],
     nameField = ''simple_identifier'', bodyField = ''function_body'',
     paramsField = ''function_value_parameters'',
     returnField = Some ''type'' \<rparr>"

fun EXTRACTORS :: "Language \<Rightarrow> LanguageExtractor option" where
  "EXTRACTORS TypeScript = Some typescript_extractor"
| "EXTRACTORS Tsx = Some typescript_extractor"
| "EXTRACTORS JavaScript = Some javascript_extractor"
| "EXTRACTORS Jsx = Some javascript_extractor"
| "EXTRACTORS Python = Some python_extractor"
| "EXTRACTORS Go = Some go_extractor"
| "EXTRACTORS Rust = Some rust_extractor"
| "EXTRACTORS Java = Some java_extractor"
| "EXTRACTORS C = Some c_extractor"
| "EXTRACTORS Cpp = Some cpp_extractor"
| "EXTRACTORS CSharp = Some csharp_extractor"
| "EXTRACTORS Php = Some php_extractor"
| "EXTRACTORS Ruby = Some ruby_extractor"
| "EXTRACTORS Swift = Some swift_extractor"
| "EXTRACTORS Kotlin = Some kotlin_extractor"
| "EXTRACTORS Liquid = None"
| "EXTRACTORS Unknown = None"

subsection \<open>Visibility extractors\<close>

definition modifierTexts :: "string \<Rightarrow> string \<Rightarrow> SyntaxNode \<Rightarrow> string list" where
  \<comment> \<open>the texts of the children (named or not) of the given type, in order\<close>
  "modifierTexts ty src node =
     map (\<lambda>c. getNodeText c src) (filter (\<lambda>c. nodeType c = ty) (children node))"

fun rust_visibility :: "string list \<Rightarrow> Visibility option" where
  "rust_visibility [] = Some Private"
| "rust_visibility (t # ts) = (if str_includes t ''pub'' then Some Public else Some Private)"

definition rust_getVisibility :: "string \<Rightarrow> SyntaxNode \<Rightarrow> Visibility option" where
  "rust_getVisibility src node = rust_visibility (modifierTexts ''visibility_modifier'' src node)"

fun csharp_visibility :: "string list \<Rightarrow> Visibility option" where
  "csharp_visibility [] = Some Private"
| "csharp_visibility (t # ts) =
     (if t = ''public'' then Some Public
      else if t = ''private'' then Some Private
      else if t = ''protected'' then Some Protected
      else if t = ''internal'' then Some Internal
      else csharp_visibility ts)"

definition csharp_getVisibility :: "string \<Rightarrow> SyntaxNode \<Rightarrow> Visibility option" where
  "csharp_getVisibility src node = csharp_visibility (modifierTexts ''modifier'' src node)"

fun php_visibility :: "string list \<Rightarrow> Visibility option" where
  "php_visibility [] = Some Public"
| "php_visibility (t # ts) =
     (if t = ''public'' then Some Public
      else if t = ''private'' then Some Private
      else if t = ''protected'' then Some Protected
      else php_visibility ts)"

definition php_getVisibility :: "string \<Rightarrow> SyntaxNode \<Rightarrow> Visibility option" where
  "php_getVisibility src node = php_visibility (modifierTexts ''visibility_modifier'' src node)"

fun swift_visibility :: "string list \<Rightarrow> Visibility option" where
  "swift_visibility [] = Some Internal"
| "swift_visibility (t # ts) =
     (if str_includes t ''public'' then Some Public
      else if str_includes t ''private'' then Some Private
      else if str_includes t ''internal'' then Some Internal
      else if str_includes t ''fileprivate'' then Some Private
      else swift_visibility ts)"

definition swift_getVisibility :: "string \<Rightarrow> SyntaxNode \<Rightarrow> Visibility option" where
  "swift_getVisibility src node = swift_visibility (modifierTexts ''modifiers'' src node)"

fun kotlin_visibility :: "string list \<Rightarrow> Visibility option" where
  "kotlin_visibility [] = Some Public"
| "kotlin_visibility (t # ts) =
     (if str_includes t ''public'' then Some Public
      else if str_includes t ''private'' then Some Private
      else if str_includes t ''protected'' then Some Protected
      else if str_includes t ''internal'' then Some Internal
      else kotlin_visibility ts)"

definition kotlin_getVisibility :: "string \<Rightarrow> SyntaxNode \<Rightarrow> Visibility option" where
  "kotlin_getVisibility src node = kotlin_visibility (modifierTexts ''modifiers'' src node)"

section \<open>The tree-sitter extractor\<close>

text \<open>
  The fields of a \<open>TreeSitterExtractor\<close> that never change after construction, and the
  clock: \<open>dateNow k\<close> is what the \<open>k\<close>-th call of \<open>Date.now()\<close> made by this extractor
  returns (counted from 0).
\<close>

record This =
  this_filePath :: string
  this_language :: Language
  this_source :: string
  this_extractor :: "LanguageExtractor option"
  dateNow :: "nat \<Rightarrow> int"

text \<open>
  The mutable fields of an extractor: the output lists and the number of clock readings made
  so far; for the tree-sitter extractor also the stack of parent node ids (top at the end).
\<close>

record Extraction = Output +
  clockReads :: nat

record Walker = Extraction +
  nodeStack :: "string list"

definition addReference :: "UnresolvedReference \<Rightarrow> Walker \<Rightarrow> Walker" where
  \<comment> \<open>\<open>this.unresolvedReferences.push(r)\<close>\<close>
  "addReference r s = s\<lparr>unresolvedReferences := unresolvedReferences s @ [r]\<rparr>"

definition pushScope :: "string \<Rightarrow> Walker \<Rightarrow> Walker" where
  \<comment> \<open>\<open>this.nodeStack.push(id)\<close>\<close>
  "pushScope i s = s\<lparr>nodeStack := nodeStack s @ [i]\<rparr>"

definition popScope :: "Walker \<Rightarrow> Walker" where
  \<comment> \<open>\<open>this.nodeStack.pop()\<close>\<close>
  "popScope s = s\<lparr>nodeStack := butlast (nodeStack s)\<rparr>"

definition extractName :: "SyntaxNode \<Rightarrow> string \<Rightarrow> LanguageExtractor \<Rightarrow> string" where
  "extractName node src ex =
     (case getChildByField node (nameField ex) of
        Some nameNode \<Rightarrow>
          if nodeType nameNode = ''function_declarator'' \<or> nodeType nameNode = ''declarator''
          then (case orElse (getChildByField nameNode ''declarator'') (namedChild nameNode 0) of
                  Some innerName \<Rightarrow> getNodeText innerName src
                | None \<Rightarrow> getNodeText nameNode src)
          else getNodeText nameNode src
      | None \<Rightarrow>
          (case find (\<lambda>child. nodeType child = ''identifier'' \<or> nodeType child = ''type_identifier''
                         \<or> nodeType child = ''simple_identifier'' \<or> nodeType child = ''constant'')
                     (namedChildren node) of
             Some child \<Rightarrow> getNodeText child src
           | None \<Rightarrow> ''<anonymous>''))"

definition buildQualifiedName :: "This \<Rightarrow> string \<Rightarrow> Walker \<Rightarrow> string" where
  "buildQualifiedName env nm s =
     join ''::''
       ([this_filePath env] @
        concat (map (\<lambda>nodeId. case find (\<lambda>n. node_id n = nodeId) (nodes s) of
                                 Some n \<Rightarrow> [name n] | None \<Rightarrow> [])
                    (nodeStack s)) @
        [nm])"

definition createNode :: "This \<Rightarrow> NodeKind \<Rightarrow> string \<Rightarrow> SyntaxNode \<Rightarrow> Walker \<Rightarrow> Node \<times> Walker" where
  "createNode env k nm node s =
     (let newNode = \<lparr> node_id = generateNodeId (this_filePath env) k nm (row1 (startPosition node)),
                       kind = k,
                       name = nm,
                       qualifiedName = buildQualifiedName env nm s,
                       filePath = this_filePath env,
                       language = this_language env,
                       startLine = row1 (startPosition node),
                       endLine = row1 (endPosition node),
                       startColumn = snd (startPosition node),
                       endColumn = snd (endPosition node),
                       updatedAt = dateNow env (clockReads s) \<rparr>;
          s1 = s\<lparr>nodes := nodes s @ [newNode], clockReads := Suc (clockReads s)\<rparr>
      in (newNode,
          if nodeStack s1 \<noteq> [] \<and> last (nodeStack s1) \<noteq> []
          then s1\<lparr>edges := edges s1 @
                 [\<lparr>source = last (nodeStack s1), target = node_id newNode, edge_kind = Contains\<rparr>]\<rparr>
          else s1))"

definition extractCall :: "This \<Rightarrow> SyntaxNode \<Rightarrow> Walker \<Rightarrow> Walker" where
  "extractCall env node s =
     (if nodeStack s = [] then s
      else if last (nodeStack s) = [] then s
      else
        (let calleeName =
               (case orElse (getChildByField node ''function'') (namedChild node 0) of
                  None \<Rightarrow> []
                | Some func \<Rightarrow>
                    if nodeType func = ''member_expression'' \<or> nodeType func = ''attribute''
                    then (case orElse (getChildByField func ''property'') (namedChild func 1) of
                            Some property \<Rightarrow> getNodeText property (this_source env)
                          | None \<Rightarrow> [])
                    else getNodeText func (this_source env))
         in if calleeName \<noteq> []
            then addReference \<lparr> fromNodeId = last (nodeStack s), referenceName = calleeName,
                                referenceKind = Calls, line = row1 (startPosition node),
                                column = snd (startPosition node) \<rparr> s
            else s))"

fun visitForCalls :: "This \<Rightarrow> string list \<Rightarrow> SyntaxNode \<Rightarrow> Walker \<Rightarrow> Walker" where
  "visitForCalls env cts (SyntaxNode ty nmd fld si ei sp ep cs) s =
     fold (visitForCalls env cts) (filter isNamed cs)
       (if ty \<in> set cts then extractCall env (SyntaxNode ty nmd fld si ei sp ep cs) s else s)"

definition visitFunctionBody :: "This \<Rightarrow> SyntaxNode \<Rightarrow> Walker \<Rightarrow> Walker" where
  "visitFunctionBody env body s =
     (case this_extractor env of
        None \<Rightarrow> s
      | Some ex \<Rightarrow> visitForCalls env (callTypes ex) body s)"

definition extractFunction :: "This \<Rightarrow> SyntaxNode \<Rightarrow> Walker \<Rightarrow> Walker" where
  "extractFunction env node s =
     (case this_extractor env of
        None \<Rightarrow> s
      | Some ex \<Rightarrow>
          (let nm = extractName node (this_source env) ex
           in if nm = ''<anonymous>'' then s
              else
                (let (funcNode, s1) = createNode env KFunction nm node s;
                     s2 = pushScope (node_id funcNode) s1;
                     s3 = (case getChildByField node (bodyField ex) of
                             Some body \<Rightarrow> visitFunctionBody env body s2
                           | None \<Rightarrow> s2)
                 in popScope s3)))"

definition extractMethod :: "This \<Rightarrow> SyntaxNode \<Rightarrow> Walker \<Rightarrow> Walker" where
  "extractMethod env node s =
     (case this_extractor env of
        None \<Rightarrow> s
      | Some ex \<Rightarrow>
          if nodeStack s = [] \<and> this_language env \<noteq> Go then extractFunction env node s
          else
            (let nm = extractName node (this_source env) ex;
                 (methodNode, s1) = createNode env KMethod nm node s;
                 s2 = pushScope (node_id methodNode) s1;
                 s3 = (case getChildByField node (bodyField ex) of
                         Some body \<Rightarrow> visitFunctionBody env body s2
                       | None \<Rightarrow> s2)
             in popScope s3))"

definition extractInterface :: "This \<Rightarrow> SyntaxNode \<Rightarrow> Walker \<Rightarrow> Walker" where
  "extractInterface env node s =
     (case this_extractor env of
        None \<Rightarrow> s
      | Some ex \<Rightarrow>
          snd (createNode env (if this_language env = Rust then KTrait else KInterface)
                 (extractName node (this_source env) ex) node s))"

definition extractEnum :: "This \<Rightarrow> SyntaxNode \<Rightarrow> Walker \<Rightarrow> Walker" where
  "extractEnum env node s =
     (case this_extractor env of
        None \<Rightarrow> s
      | Some ex \<Rightarrow> snd (createNode env KEnum (extractName node (this_source env) ex) node s))"

definition importModuleName :: "This \<Rightarrow> SyntaxNode \<Rightarrow> string" where
  \<comment> \<open>the value of \<open>moduleName\<close> in \<open>extractImport\<close>\<close>
  "importModuleName env node =
     (if this_language env = TypeScript \<or> this_language env = JavaScript then
        (case getChildByField node ''source'' of
           Some sourceNode \<Rightarrow> stripQuotes (getNodeText sourceNode (this_source env))
         | None \<Rightarrow> [])
      else if this_language env = Python then
        (case orElse (getChildByField node ''module_name'') (namedChild node 0) of
           Some moduleNode \<Rightarrow> getNodeText moduleNode (this_source env)
         | None \<Rightarrow> [])
      else if this_language env = Go then
        (case namedChild node 0 of
           Some path \<Rightarrow> stripQuotes (getNodeText path (this_source env))
         | None \<Rightarrow> [])
      else getNodeText node (this_source env))"

definition extractImport :: "This \<Rightarrow> SyntaxNode \<Rightarrow> Walker \<Rightarrow> Walker" where
  "extractImport env node s =
     (let moduleName = importModuleName env node
      in if moduleName \<noteq> [] \<and> nodeStack s \<noteq> [] then
           (if last (nodeStack s) \<noteq> [] then
              addReference \<lparr> fromNodeId = last (nodeStack s), referenceName = moduleName,
                              referenceKind = Imports, line = row1 (startPosition node),
                              column = snd (startPosition node) \<rparr> s
            else s)
         else s)"

definition referenceAt :: "string \<Rightarrow> string \<Rightarrow> EdgeKind \<Rightarrow> SyntaxNode \<Rightarrow> UnresolvedReference" where
  \<comment> \<open>the reference record pushed by the inheritance extractors, located at \<open>at\<close>\<close>
  "referenceAt fromId nm k at =
     \<lparr> fromNodeId = fromId, referenceName = nm, referenceKind = k,
       line = row1 (startPosition at), column = snd (startPosition at) \<rparr>"

definition extractInheritance :: "This \<Rightarrow> SyntaxNode \<Rightarrow> string \<Rightarrow> Walker \<Rightarrow> Walker" where
  "extractInheritance env node classId s =
     fold (\<lambda>child s.
             (let s1 = (if nodeType child = ''extends_clause'' \<or> nodeType child = ''class_heritage''
                           \<or> nodeType child = ''superclass''
                        then (case namedChild child 0 of
                                Some superclass \<Rightarrow>
                                  addReference (referenceAt classId
                                    (getNodeText superclass (this_source env)) Extends child) s
                              | None \<Rightarrow> s)
                        else s)
              in if nodeType child = ''implements_clause''
                    \<or> nodeType child = ''class_interface_clause''
                 then fold (\<lambda>iface. addReference (referenceAt classId
                                (getNodeText iface (this_source env)) Implements iface))
                        (namedChildren child) s1
                 else s1))
          (namedChildren node) s"

subsection \<open>Kotlin\<close>

definition kotlinHasModifier :: "string \<Rightarrow> SyntaxNode \<Rightarrow> string \<Rightarrow> bool" where
  "kotlinHasModifier src node modifier =
     list_ex (\<lambda>child. nodeType child = ''modifiers'' \<and> str_includes (getNodeText child src) modifier)
       (children node)"

definition isKotlinInterface :: "SyntaxNode \<Rightarrow> bool" where
  "isKotlinInterface node = list_ex (\<lambda>child. nodeType child = ''interface'') (children node)"

definition isKotlinEnum :: "SyntaxNode \<Rightarrow> bool" where
  "isKotlinEnum node = list_ex (\<lambda>child. nodeType child = ''enum'') (children node)"

definition firstNamedText :: "string \<Rightarrow> string \<Rightarrow> SyntaxNode \<Rightarrow> string \<Rightarrow> string" where
  \<comment> \<open>the loop that starts from a default name and takes the text of the first named child of
      the given type\<close>
  "firstNamedText ty dflt node src =
     (case find (\<lambda>child. nodeType child = ty) (namedChildren node) of
        Some child \<Rightarrow> getNodeText child src
      | None \<Rightarrow> dflt)"

definition extractKotlinInheritance :: "This \<Rightarrow> SyntaxNode \<Rightarrow> string \<Rightarrow> Walker \<Rightarrow> Walker" where
  "extractKotlinInheritance env node classId s =
     snd (fold (\<lambda>child acc.
            if nodeType child = ''delegation_specifier'' then
              fold (\<lambda>specChild (isFirst, s).
                      if nodeType specChild = ''constructor_invocation'' then
                        (case find (\<lambda>ciChild. nodeType ciChild = ''user_type'')
                                (namedChildren specChild) of
                           Some ciChild \<Rightarrow>
                             (False, addReference (referenceAt classId
                                        (getNodeText ciChild (this_source env))
                                        (if isFirst then Extends else Implements) specChild) s)
                         | None \<Rightarrow> (isFirst, s))
                      else if nodeType specChild = ''user_type'' then
                        (False, addReference (referenceAt classId
                                   (getNodeText specChild (this_source env)) Implements specChild) s)
                      else (isFirst, s))
                   (namedChildren child) acc
            else acc)
          (namedChildren node) (True, s))"

definition visitBodies :: "string list \<Rightarrow> (SyntaxNode \<Rightarrow> Walker \<Rightarrow> Walker) \<Rightarrow> SyntaxNode \<Rightarrow> Walker \<Rightarrow> Walker" where
  \<comment> \<open>the double loop over the named children of every named child whose type is one of the
      given body types\<close>
  "visitBodies bodyTypes each node s =
     fold (\<lambda>child s. if nodeType child \<in> set bodyTypes then fold each (namedChildren child) s else s)
       (namedChildren node) s"

definition extractKotlinClass :: "This \<Rightarrow> (SyntaxNode \<Rightarrow> Walker \<Rightarrow> Walker) \<Rightarrow> SyntaxNode \<Rightarrow> Walker \<Rightarrow> Walker" where
  "extractKotlinClass env visit node s =
     (case this_extractor env of
        None \<Rightarrow> s
      | Some ex \<Rightarrow>
          (let (classNode, s1) = createNode env KClass (extractName node (this_source env) ex) node s;
               s2 = extractKotlinInheritance env node (node_id classNode) s1;
               s3 = pushScope (node_id classNode) s2;
               s4 = visitBodies [''class_body'', ''enum_class_body''] visit node s3
           in popScope s4))"

definition extractKotlinEnumEntry :: "This \<Rightarrow> SyntaxNode \<Rightarrow> Walker \<Rightarrow> Walker" where
  "extractKotlinEnumEntry env node s =
     snd (createNode env KEnumMember
            (firstNamedText ''simple_identifier'' ''<unknown>'' node (this_source env)) node s)"

definition extractKotlinEnum :: "This \<Rightarrow> (SyntaxNode \<Rightarrow> Walker \<Rightarrow> Walker) \<Rightarrow> SyntaxNode \<Rightarrow> Walker \<Rightarrow> Walker" where
  "extractKotlinEnum env visit node s =
     (case this_extractor env of
        None \<Rightarrow> s
      | Some ex \<Rightarrow>
          (let (enumNode, s1) = createNode env KEnum (extractName node (this_source env) ex) node s;
               s2 = extractKotlinInheritance env node (node_id enumNode) s1;
               s3 = pushScope (node_id enumNode) s2;
               s4 = visitBodies [''enum_class_body'']
                      (\<lambda>bodyChild. if nodeType bodyChild = ''enum_entry''
                                    then extractKotlinEnumEntry env bodyChild
                                    else visit bodyChild) node s3
           in popScope s4))"

definition extractKotlinObject :: "This \<Rightarrow> (SyntaxNode \<Rightarrow> Walker \<Rightarrow> Walker) \<Rightarrow> SyntaxNode \<Rightarrow> Walker \<Rightarrow> Walker" where
  "extractKotlinObject env visit node s =
     (case this_extractor env of
        None \<Rightarrow> s
      | Some ex \<Rightarrow>
          (let (objectNode, s1) = createNode env KClass (extractName node (this_source env) ex) node s;
               s2 = extractKotlinInheritance env node (node_id objectNode) s1;
               s3 = pushScope (node_id objectNode) s2;
               s4 = visitBodies [''class_body''] visit node s3
           in popScope s4))"

definition extractKotlinCompanionObject :: "This \<Rightarrow> (SyntaxNode \<Rightarrow> Walker \<Rightarrow> Walker) \<Rightarrow> SyntaxNode \<Rightarrow> Walker \<Rightarrow> Walker" where
  "extractKotlinCompanionObject env visit node s =
     (case this_extractor env of
        None \<Rightarrow> s
      | Some ex \<Rightarrow>
          (let (companionNode, s1) =
                 createNode env KClass
                   (firstNamedText ''simple_identifier'' ''Companion'' node (this_source env)) node s;
               s2 = pushScope (node_id companionNode) s1;
               s3 = visitBodies [''class_body''] visit node s2
           in popScope s3))"

definition kotlinPropertyName :: "SyntaxNode \<Rightarrow> string \<Rightarrow> string" where
  \<comment> \<open>the name loop of \<open>extractKotlinProperty\<close>: only the first \<open>variable_declaration\<close> is looked at\<close>
  "kotlinPropertyName node src =
     (case find (\<lambda>child. nodeType child = ''variable_declaration'') (namedChildren node) of
        Some child \<Rightarrow> firstNamedText ''simple_identifier'' ''<unknown>'' child src
      | None \<Rightarrow> ''<unknown>'')"

definition extractKotlinProperty :: "This \<Rightarrow> SyntaxNode \<Rightarrow> Walker \<Rightarrow> Walker" where
  "extractKotlinProperty env node s =
     (case this_extractor env of
        None \<Rightarrow> s
      | Some ex \<Rightarrow>
          snd (createNode env
                 (if kotlinHasModifier (this_source env) node ''const'' then KConstant else KProperty)
                 (kotlinPropertyName node (this_source env)) node s))"

definition extractKotlinTypeAlias :: "This \<Rightarrow> SyntaxNode \<Rightarrow> Walker \<Rightarrow> Walker" where
  "extractKotlinTypeAlias env node s =
     (case this_extractor env of
        None \<Rightarrow> s
      | Some ex \<Rightarrow>
          snd (createNode env KTypeAlias
                 (firstNamedText ''type_identifier'' ''<unknown>'' node (this_source env)) node s))"

subsection \<open>Swift\<close>

definition getSwiftDeclarationKind :: "SyntaxNode \<Rightarrow> string option" where
  "getSwiftDeclarationKind node =
     map_option nodeType
       (find (\<lambda>child. nodeType child = ''class'' \<or> nodeType child = ''struct''
                     \<or> nodeType child = ''actor'' \<or> nodeType child = ''extension''
                     \<or> nodeType child = ''enum'')
             (children node))"

definition getSwiftClassName :: "SyntaxNode \<Rightarrow> string \<Rightarrow> string" where
  "getSwiftClassName node src =
     (let (nm, constraints) =
            fold (\<lambda>child (nm, constraints).
                    (let nm1 = (if nodeType child = ''type_identifier'' then getNodeText child src else nm);
                         nm2 = (if nodeType child = ''user_type'' then getNodeText child src else nm1)
                     in (nm2, if nodeType child = ''type_constraints''
                              then '' '' @ getNodeText child src else constraints)))
                 (namedChildren node) (''<unknown>'', [])
      in nm @ constraints)"

definition getSwiftPropertyName :: "SyntaxNode \<Rightarrow> string \<Rightarrow> string" where
  "getSwiftPropertyName node src =
     (case concat (map (\<lambda>child. filter (\<lambda>patternChild. nodeType patternChild = ''simple_identifier'')
                                  (namedChildren child))
                       (filter (\<lambda>child. nodeType child = ''pattern'') (namedChildren node))) of
        patternChild # rest \<Rightarrow> getNodeText patternChild src
      | [] \<Rightarrow> ''<unknown>'')"

definition isSwiftConstant :: "SyntaxNode \<Rightarrow> bool" where
  "isSwiftConstant node =
     list_ex (\<lambda>child. nodeType child = ''value_binding_pattern''
                \<and> list_ex (\<lambda>bindingChild. nodeType bindingChild = ''let'') (children child))
       (namedChildren node)"

definition extractSwiftInheritance :: "This \<Rightarrow> SyntaxNode \<Rightarrow> string \<Rightarrow> Walker \<Rightarrow> Walker" where
  "extractSwiftInheritance env node classId s =
     snd (fold (\<lambda>child acc.
            if nodeType child = ''inheritance_specifier'' then
              fold (\<lambda>specChild (isFirst, s).
                      if nodeType specChild = ''user_type'' then
                        (False, addReference (referenceAt classId
                                   (getNodeText specChild (this_source env))
                                   (if isFirst then Extends else Implements) specChild) s)
                      else (isFirst, s))
                   (namedChildren child) acc
            else acc)
          (namedChildren node) (True, s))"

definition extractSwiftEnumCase :: "This \<Rightarrow> SyntaxNode \<Rightarrow> Walker \<Rightarrow> Walker" where
  "extractSwiftEnumCase env node s =
     snd (createNode env KEnumMember
            (firstNamedText ''simple_identifier'' ''<unknown>'' node (this_source env)) node s)"

definition extractSwiftProperty :: "This \<Rightarrow> SyntaxNode \<Rightarrow> Walker \<Rightarrow> Walker" where
  "extractSwiftProperty env node s =
     (case this_extractor env of
        None \<Rightarrow> s
      | Some ex \<Rightarrow>
          snd (createNode env
                 (if isSwiftConstant node \<and> nodeStack s = [] then KConstant else KProperty)
                 (getSwiftPropertyName node (this_source env)) node s))"

definition extractSwiftSubscript :: "This \<Rightarrow> SyntaxNode \<Rightarrow> Walker \<Rightarrow> Walker" where
  "extractSwiftSubscript env node s =
     (case this_extractor env of
        None \<Rightarrow> s
      | Some ex \<Rightarrow> snd (createNode env KMethod ''subscript'' node s))"

definition extractSwiftTypealias :: "This \<Rightarrow> SyntaxNode \<Rightarrow> Walker \<Rightarrow> Walker" where
  "extractSwiftTypealias env node s =
     snd (createNode env KTypeAlias
            (firstNamedText ''type_identifier'' ''<unknown>'' node (this_source env)) node s)"

definition extractSwiftAssociatedType :: "This \<Rightarrow> SyntaxNode \<Rightarrow> Walker \<Rightarrow> Walker" where
  "extractSwiftAssociatedType env node s =
     snd (createNode env KTypeAlias
            (firstNamedText ''type_identifier'' ''<unknown>'' node (this_source env)) node s)"

definition swiftProtocolPropertyName :: "SyntaxNode \<Rightarrow> string \<Rightarrow> string" where
  \<comment> \<open>the name loop of \<open>extractSwiftProtocolProperty\<close>: every \<open>pattern\<close> child that holds a
      \<open>simple_identifier\<close> overwrites the name\<close>
  "swiftProtocolPropertyName node src =
     fold (\<lambda>child nm.
             if nodeType child = ''pattern'' then firstNamedText ''simple_identifier'' nm child src
             else nm)
          (namedChildren node) ''<unknown>''"

definition extractSwiftProtocolProperty :: "This \<Rightarrow> SyntaxNode \<Rightarrow> Walker \<Rightarrow> Walker" where
  "extractSwiftProtocolProperty env node s =
     snd (createNode env KProperty (swiftProtocolPropertyName node (this_source env)) node s)"

definition extractSwiftProtocolFunction :: "This \<Rightarrow> SyntaxNode \<Rightarrow> Walker \<Rightarrow> Walker" where
  "extractSwiftProtocolFunction env node s =
     snd (createNode env KMethod
            (firstNamedText ''simple_identifier'' ''<unknown>'' node (this_source env)) node s)"

definition visitSwiftFunctionBody :: "(SyntaxNode \<Rightarrow> Walker \<Rightarrow> Walker) \<Rightarrow> SyntaxNode \<Rightarrow> Walker \<Rightarrow> Walker" where
  "visitSwiftFunctionBody visit node s = visitBodies [''function_body''] visit node s"

definition extractSwiftInit :: "This \<Rightarrow> (SyntaxNode \<Rightarrow> Walker \<Rightarrow> Walker) \<Rightarrow> SyntaxNode \<Rightarrow> Walker \<Rightarrow> Walker" where
  "extractSwiftInit env visit node s =
     (case this_extractor env of
        None \<Rightarrow> s
      | Some ex \<Rightarrow>
          (let (initNode, s1) = createNode env KMethod ''init'' node s;
               s2 = pushScope (node_id initNode) s1;
               s3 = visitSwiftFunctionBody visit node s2
           in popScope s3))"

definition extractSwiftDeinit :: "This \<Rightarrow> (SyntaxNode \<Rightarrow> Walker \<Rightarrow> Walker) \<Rightarrow> SyntaxNode \<Rightarrow> Walker \<Rightarrow> Walker" where
  "extractSwiftDeinit env visit node s =
     (let (deinitNode, s1) = createNode env KMethod ''deinit'' node s;
          s2 = pushScope (node_id deinitNode) s1;
          s3 = visitSwiftFunctionBody visit node s2
      in popScope s3)"

definition swiftMember :: "This \<Rightarrow> (SyntaxNode \<Rightarrow> Walker \<Rightarrow> Walker) \<Rightarrow> SyntaxNode \<Rightarrow> Walker \<Rightarrow> Walker" where
  \<comment> \<open>the body of the inner loop of \<open>visitSwiftClassBody\<close>\<close>
  "swiftMember env visit bodyChild s =
     (if nodeType bodyChild = ''property_declaration'' then extractSwiftProperty env bodyChild s
      else if nodeType bodyChild = ''subscript_declaration'' then extractSwiftSubscript env bodyChild s
      else if nodeType bodyChild = ''init_declaration'' then extractSwiftInit env visit bodyChild s
      else if nodeType bodyChild = ''deinit_declaration'' then extractSwiftDeinit env visit bodyChild s
      else if nodeType bodyChild = ''typealias_declaration'' then extractSwiftTypealias env bodyChild s
      else visit bodyChild s)"

definition visitSwiftClassBody :: "This \<Rightarrow> (SyntaxNode \<Rightarrow> Walker \<Rightarrow> Walker) \<Rightarrow> SyntaxNode \<Rightarrow> Walker \<Rightarrow> Walker" where
  "visitSwiftClassBody env visit node s = visitBodies [''class_body''] (swiftMember env visit) node s"

definition extractSwiftType :: "NodeKind \<Rightarrow> This \<Rightarrow> (SyntaxNode \<Rightarrow> Walker \<Rightarrow> Walker) \<Rightarrow> SyntaxNode \<Rightarrow> Walker \<Rightarrow> Walker" where
  \<comment> \<open>the common body of \<open>extractSwiftClass\<close>, \<open>extractSwiftStruct\<close>, \<open>extractSwiftActor\<close> and
      \<open>extractSwiftExtension\<close>, which differ in the node kind only\<close>
  "extractSwiftType k env visit node s =
     (case this_extractor env of
        None \<Rightarrow> s
      | Some ex \<Rightarrow>
          (let (typeNode, s1) = createNode env k (getSwiftClassName node (this_source env)) node s;
               s2 = extractSwiftInheritance env node (node_id typeNode) s1;
               s3 = pushScope (node_id typeNode) s2;
               s4 = visitSwiftClassBody env visit node s3
           in popScope s4))"

definition extractSwiftClass :: "This \<Rightarrow> (SyntaxNode \<Rightarrow> Walker \<Rightarrow> Walker) \<Rightarrow> SyntaxNode \<Rightarrow> Walker \<Rightarrow> Walker" where
  "extractSwiftClass = extractSwiftType KClass"

definition extractSwiftStruct :: "This \<Rightarrow> (SyntaxNode \<Rightarrow> Walker \<Rightarrow> Walker) \<Rightarrow> SyntaxNode \<Rightarrow> Walker \<Rightarrow> Walker" where
  "extractSwiftStruct = extractSwiftType KStruct"

definition extractSwiftActor :: "This \<Rightarrow> (SyntaxNode \<Rightarrow> Walker \<Rightarrow> Walker) \<Rightarrow> SyntaxNode \<Rightarrow> Walker \<Rightarrow> Walker" where
  "extractSwiftActor = extractSwiftType KClass"

definition extractSwiftExtension :: "This \<Rightarrow> (SyntaxNode \<Rightarrow> Walker \<Rightarrow> Walker) \<Rightarrow> SyntaxNode \<Rightarrow> Walker \<Rightarrow> Walker" where
  "extractSwiftExtension = extractSwiftType KClass"

definition extractSwiftEnum :: "This \<Rightarrow> (SyntaxNode \<Rightarrow> Walker \<Rightarrow> Walker) \<Rightarrow> SyntaxNode \<Rightarrow> Walker \<Rightarrow> Walker" where
  "extractSwiftEnum env visit node s =
     (case this_extractor env of
        None \<Rightarrow> s
      | Some ex \<Rightarrow>
          (let (enumNode, s1) = createNode env KEnum (getSwiftClassName node (this_source env)) node s;
               s2 = extractSwiftInheritance env node (node_id enumNode) s1;
               s3 = pushScope (node_id enumNode) s2;
               s4 = visitBodies [''enum_class_body'']
                      (\<lambda>bodyChild. if nodeType bodyChild = ''enum_entry''
                                    then extractSwiftEnumCase env bodyChild
                                    else visit bodyChild) node s3
           in popScope s4))"

definition extractSwiftProtocol :: "This \<Rightarrow> (SyntaxNode \<Rightarrow> Walker \<Rightarrow> Walker) \<Rightarrow> SyntaxNode \<Rightarrow> Walker \<Rightarrow> Walker" where
  "extractSwiftProtocol env visit node s =
     (case this_extractor env of
        None \<Rightarrow> s
      | Some ex \<Rightarrow>
          (let (protocolNode, s1) =
                 createNode env KInterface
                   (firstNamedText ''type_identifier'' ''<unknown>'' node (this_source env)) node s;
               s2 = extractSwiftInheritance env node (node_id protocolNode) s1;
               s3 = pushScope (node_id protocolNode) s2;
               s4 = visitBodies [''protocol_body'']
                      (\<lambda>bodyChild.
                         if nodeType bodyChild = ''associatedtype_declaration''
                         then extractSwiftAssociatedType env bodyChild
                         else if nodeType bodyChild = ''protocol_property_declaration''
                         then extractSwiftProtocolProperty env bodyChild
                         else if nodeType bodyChild = ''protocol_function_declaration''
                         then extractSwiftProtocolFunction env bodyChild
                         else visit bodyChild) node s3
           in popScope s4))"

definition extractSwiftClassDeclaration :: "This \<Rightarrow> (SyntaxNode \<Rightarrow> Walker \<Rightarrow> Walker) \<Rightarrow> SyntaxNode \<Rightarrow> Walker \<Rightarrow> Walker" where
  "extractSwiftClassDeclaration env visit node s =
     (let declKind = getSwiftDeclarationKind node
      in if declKind = Some ''extension'' then extractSwiftExtension env visit node s
         else if declKind = Some ''actor'' then extractSwiftActor env visit node s
         else if declKind = Some ''enum'' then extractSwiftEnum env visit node s
         else if declKind = Some ''struct'' then extractSwiftStruct env visit node s
         else extractSwiftClass env visit node s)"

subsection \<open>The generic walker\<close>

definition extractClass :: "This \<Rightarrow> (SyntaxNode \<Rightarrow> Walker \<Rightarrow> Walker) \<Rightarrow> SyntaxNode \<Rightarrow> Walker \<Rightarrow> Walker" where
  "extractClass env visit node s =
     (case this_extractor env of
        None \<Rightarrow> s
      | Some ex \<Rightarrow>
          (let (classNode, s1) = createNode env KClass (extractName node (this_source env) ex) node s;
               s2 = extractInheritance env node (node_id classNode) s1;
               s3 = pushScope (node_id classNode) s2;
               body = (case getChildByField node (bodyField ex) of Some b \<Rightarrow> b | None \<Rightarrow> node);
               s4 = fold visit (namedChildren body) s3
           in popScope s4))"

definition extractStruct :: "This \<Rightarrow> (SyntaxNode \<Rightarrow> Walker \<Rightarrow> Walker) \<Rightarrow> SyntaxNode \<Rightarrow> Walker \<Rightarrow> Walker" where
  "extractStruct env visit node s =
     (case this_extractor env of
        None \<Rightarrow> s
      | Some ex \<Rightarrow>
          (let (structNode, s1) = createNode env KStruct (extractName node (this_source env) ex) node s;
               s2 = pushScope (node_id structNode) s1;
               body = (case getChildByField node (bodyField ex) of Some b \<Rightarrow> b | None \<Rightarrow> node);
               s3 = fold visit (namedChildren body) s2
           in popScope s3))"

text \<open>
  The chain of tests of \<open>visitNode\<close>. The result is the state after the extraction method
  chosen for the node, and the value of \<open>skipChildren\<close>.
\<close>

definition dispatchNode :: "This \<Rightarrow> LanguageExtractor \<Rightarrow> (SyntaxNode \<Rightarrow> Walker \<Rightarrow> Walker) \<Rightarrow> SyntaxNode \<Rightarrow> Walker \<Rightarrow> Walker \<times> bool" where
  "dispatchNode env ex visit node s =
     (let ty = nodeType node; lang = this_language env in
      if ty \<in> set (functionTypes ex) then
        (if nodeStack s \<noteq> [] \<and> ty \<in> set (methodTypes ex)
         then (extractMethod env node s, True)
         else (extractFunction env node s, True))
      else if ty \<in> set (classTypes ex) then
        (if lang = Swift \<and> ty = ''class_declaration''
         then (extractSwiftClassDeclaration env visit node s, True)
         else if lang = Kotlin \<and> ty = ''class_declaration''
         then (if isKotlinInterface node then (extractInterface env node s, True)
               else if isKotlinEnum node then (extractKotlinEnum env visit node s, True)
               else (extractKotlinClass env visit node s, True))
         else if lang = Kotlin \<and> ty = ''object_declaration''
         then (extractKotlinObject env visit node s, True)
         else (extractClass env visit node s, True))
      else if lang = Kotlin \<and> ty = ''companion_object''
      then (extractKotlinCompanionObject env visit node s, True)
      else if lang = Kotlin \<and> ty = ''property_declaration''
      then (extractKotlinProperty env node s, False)
      else if lang = Kotlin \<and> ty = ''type_alias''
      then (extractKotlinTypeAlias env node s, False)
      else if lang = Swift \<and> ty = ''property_declaration''
      then (extractSwiftProperty env node s, False)
      else if lang = Swift \<and> ty = ''protocol_property_declaration''
      then (extractSwiftProperty env node s, False)
      else if lang = Swift \<and> ty = ''subscript_declaration''
      then (extractSwiftSubscript env node s, True)
      else if lang = Swift \<and> ty = ''typealias_declaration''
      then (extractSwiftTypealias env node s, False)
      else if lang = Swift \<and> ty = ''associatedtype_declaration''
      then (extractSwiftAssociatedType env node s, False)
      else if lang = Swift \<and> ty = ''init_declaration''
      then (extractSwiftInit env visit node s, True)
      else if lang = Swift \<and> ty = ''deinit_declaration''
      then (extractSwiftDeinit env visit node s, True)
      else if ty \<in> set (methodTypes ex)
      then (extractMethod env node s, True)
      else if ty \<in> set (interfaceTypes ex) then
        (if lang = Swift \<and> ty = ''protocol_declaration''
         then (extractSwiftProtocol env visit node s, True)
         else (extractInterface env node s, True))
      else if ty \<in> set (structTypes ex)
      then (extractStruct env visit node s, True)
      else if ty \<in> set (enumTypes ex)
      then (extractEnum env node s, True)
      else if ty \<in> set (importTypes ex)
      then (extractImport env node s, False)
      else if ty \<in> set (callTypes ex)
      then (extractCall env node s, False)
      else (s, False))"


text \<open>
  \<open>visitNode\<close> passes itself to the extraction methods that walk a body. Each of them
  calls it on nodes strictly inside the node it was given; the congruence rules below say
  so, and the definition of \<open>visitNode\<close> terminates on the size of the node.
\<close>


lemma size_children: "c \<in> set (children n) \<Longrightarrow> size c < size n"
  by (cases n) (auto simp: less_Suc_eq_le dest: size_list_estimation')

lemma size_namedChildren: "c \<in> set (namedChildren n) \<Longrightarrow> size c < size n"
  by (simp add: namedChildren_def size_children)

lemma find_Some_set: "find P xs = Some x \<Longrightarrow> x \<in> set xs"
  by (induction xs) (auto split: if_splits)

lemma size_getChildByField: "getChildByField n f = Some b \<Longrightarrow> size b < size n"
  by (auto simp: getChildByField_def orElse_def childForFieldName_def
           split: option.splits dest!: find_Some_set intro: size_children size_namedChildren)

lemma fold_visit_cong:
  "(\<And>c. c \<in> set cs \<Longrightarrow> visit c = visit' c) \<Longrightarrow> fold visit cs s = fold visit' cs s"
  by (rule fold_cong) auto

lemma visitBodies_cong [fundef_cong]:
  assumes "node = node'" "s = s'" "tys = tys'"
    and "\<And>c. size c < size node' \<Longrightarrow> each c = each' c"
  shows "visitBodies tys each node s = visitBodies tys' each' node' s'"
proof -
  have "fold each (namedChildren child) t = fold each' (namedChildren child) t"
    if "child \<in> set (namedChildren node')" for child t
    using that assms(4) by (intro fold_visit_cong) (meson size_namedChildren less_trans)
  then show ?thesis
    unfolding visitBodies_def assms(1,2,3) by (intro fold_cong) auto
qed


lemma visitSwiftFunctionBody_cong [fundef_cong]:
  assumes "node = node'" "s = s'"
    and "\<And>c. size c < size node' \<Longrightarrow> visit c = visit' c"
  shows "visitSwiftFunctionBody visit node s = visitSwiftFunctionBody visit' node' s'"
  unfolding visitSwiftFunctionBody_def using assms by (intro visitBodies_cong) auto

lemma extractSwiftInit_cong [fundef_cong]:
  assumes "env = env'" "node = node'" "s = s'"
    and "\<And>c. size c < size node' \<Longrightarrow> visit c = visit' c"
  shows "extractSwiftInit env visit node s = extractSwiftInit env' visit' node' s'"
proof -
  have "visitSwiftFunctionBody visit node' t = visitSwiftFunctionBody visit' node' t" for t
    using assms(4) by (intro visitSwiftFunctionBody_cong) auto
  then show ?thesis
    unfolding extractSwiftInit_def assms(1,2,3) by (simp add: Let_def split: option.split prod.split)
qed

lemma extractSwiftDeinit_cong [fundef_cong]:
  assumes "env = env'" "node = node'" "s = s'"
    and "\<And>c. size c < size node' \<Longrightarrow> visit c = visit' c"
  shows "extractSwiftDeinit env visit node s = extractSwiftDeinit env' visit' node' s'"
proof -
  have "visitSwiftFunctionBody visit node' t = visitSwiftFunctionBody visit' node' t" for t
    using assms(4) by (intro visitSwiftFunctionBody_cong) auto
  then show ?thesis
    unfolding extractSwiftDeinit_def assms(1,2,3) by (simp add: Let_def split: option.split prod.split)
qed

lemma swiftMember_agree:
  assumes "\<And>c. size c \<le> size bodyChild \<Longrightarrow> visit c = visit' c"
  shows "swiftMember env visit bodyChild = swiftMember env visit' bodyChild"
proof -
  have 1: "extractSwiftInit env visit bodyChild t = extractSwiftInit env visit' bodyChild t" for t
    using assms by (intro extractSwiftInit_cong) auto
  have 2: "extractSwiftDeinit env visit bodyChild t = extractSwiftDeinit env visit' bodyChild t" for t
    using assms by (intro extractSwiftDeinit_cong) auto
  have 3: "visit bodyChild = visit' bodyChild"
    using assms by simp
  show ?thesis
    unfolding swiftMember_def by (rule ext) (simp add: 1 2 3)
qed

lemma visitSwiftClassBody_cong [fundef_cong]:
  assumes "env = env'" "node = node'" "s = s'"
    and "\<And>c. size c < size node' \<Longrightarrow> visit c = visit' c"
  shows "visitSwiftClassBody env visit node s = visitSwiftClassBody env' visit' node' s'"
  unfolding visitSwiftClassBody_def assms(1,2,3)
  using assms(4) by (intro visitBodies_cong refl swiftMember_agree) auto

lemma extractSwiftType_cong [fundef_cong]:
  assumes "env = env'" "node = node'" "s = s'" "k = k'"
    and "\<And>c. size c < size node' \<Longrightarrow> visit c = visit' c"
  shows "extractSwiftType k env visit node s = extractSwiftType k' env' visit' node' s'"
proof -
  have "visitSwiftClassBody env' visit node' t = visitSwiftClassBody env' visit' node' t" for t
    using assms(5) by (intro visitSwiftClassBody_cong) auto
  then show ?thesis
    unfolding extractSwiftType_def assms(1,2,3,4) by (simp add: Let_def split: option.split prod.split)
qed

lemma visitBodies_agree:
  assumes "\<And>c. size c < size node \<Longrightarrow> each c = each' c"
  shows "visitBodies tys each node = visitBodies tys each' node"
  using assms by (intro ext visitBodies_cong) auto

lemma extractSwiftEnum_cong [fundef_cong]:
  assumes "env = env'" "node = node'" "s = s'"
    and "\<And>c. size c < size node' \<Longrightarrow> visit c = visit' c"
  shows "extractSwiftEnum env visit node s = extractSwiftEnum env' visit' node' s'"
proof -
  have "visitBodies tys (\<lambda>bodyChild. if nodeType bodyChild = ''enum_entry'' then extractSwiftEnumCase env' bodyChild else visit bodyChild) node' = visitBodies tys (\<lambda>bodyChild. if nodeType bodyChild = ''enum_entry'' then extractSwiftEnumCase env' bodyChild else visit' bodyChild) node'" for tys
    by (rule visitBodies_agree) (simp add: assms(4))
  then show ?thesis
    unfolding extractSwiftEnum_def assms(1,2,3) by (simp add: Let_def split: option.split prod.split)
qed

lemma extractSwiftProtocol_cong [fundef_cong]:
  assumes "env = env'" "node = node'" "s = s'"
    and "\<And>c. size c < size node' \<Longrightarrow> visit c = visit' c"
  shows "extractSwiftProtocol env visit node s = extractSwiftProtocol env' visit' node' s'"
proof -
  have "visitBodies tys (\<lambda>bodyChild. if nodeType bodyChild = ''associatedtype_declaration'' then extractSwiftAssociatedType env' bodyChild else if nodeType bodyChild = ''protocol_property_declaration'' then extractSwiftProtocolProperty env' bodyChild else if nodeType bodyChild = ''protocol_function_declaration'' then extractSwiftProtocolFunction env' bodyChild else visit bodyChild) node' = visitBodies tys (\<lambda>bodyChild. if nodeType bodyChild = ''associatedtype_declaration'' then extractSwiftAssociatedType env' bodyChild else if nodeType bodyChild = ''protocol_property_declaration'' then extractSwiftProtocolProperty env' bodyChild else if nodeType bodyChild = ''protocol_function_declaration'' then extractSwiftProtocolFunction env' bodyChild else visit' bodyChild) node'" for tys
    by (rule visitBodies_agree) (simp add: assms(4))
  then show ?thesis
    unfolding extractSwiftProtocol_def assms(1,2,3) by (simp add: Let_def split: option.split prod.split)
qed

lemma extractSwiftClassDeclaration_cong [fundef_cong]:
  assumes "env = env'" "node = node'" "s = s'"
    and "\<And>c. size c < size node' \<Longrightarrow> visit c = visit' c"
  shows "extractSwiftClassDeclaration env visit node s = extractSwiftClassDeclaration env' visit' node' s'"
proof -
  have 1: "extractSwiftType k env' visit node' t = extractSwiftType k env' visit' node' t" for t k
    using assms(4) by (intro extractSwiftType_cong) auto
  have 2: "extractSwiftEnum env' visit node' t = extractSwiftEnum env' visit' node' t" for t
    using assms(4) by (intro extractSwiftEnum_cong) auto
  show ?thesis
    unfolding extractSwiftClassDeclaration_def assms(1,2,3) extractSwiftClass_def
      extractSwiftStruct_def extractSwiftActor_def extractSwiftExtension_def
    by (simp add: 1 2 Let_def)
qed

lemma extractKotlinClass_cong [fundef_cong]:
  assumes "env = env'" "node = node'" "s = s'"
    and "\<And>c. size c < size node' \<Longrightarrow> visit c = visit' c"
  shows "extractKotlinClass env visit node s = extractKotlinClass env' visit' node' s'"
proof -
  have "visitBodies tys visit node' = visitBodies tys visit' node'" for tys
    by (rule visitBodies_agree) (simp add: assms(4))
  then show ?thesis
    unfolding extractKotlinClass_def assms(1,2,3) by (simp add: Let_def split: option.split prod.split)
qed

lemma extractKotlinEnum_cong [fundef_cong]:
  assumes "env = env'" "node = node'" "s = s'"
    and "\<And>c. size c < size node' \<Longrightarrow> visit c = visit' c"
  shows "extractKotlinEnum env visit node s = extractKotlinEnum env' visit' node' s'"
proof -
  have "visitBodies tys (\<lambda>bodyChild. if nodeType bodyChild = ''enum_entry'' then extractKotlinEnumEntry env' bodyChild else visit bodyChild) node' = visitBodies tys (\<lambda>bodyChild. if nodeType bodyChild = ''enum_entry'' then extractKotlinEnumEntry env' bodyChild else visit' bodyChild) node'" for tys
    by (rule visitBodies_agree) (simp add: assms(4))
  then show ?thesis
    unfolding extractKotlinEnum_def assms(1,2,3) by (simp add: Let_def split: option.split prod.split)
qed

lemma extractKotlinObject_cong [fundef_cong]:
  assumes "env = env'" "node = node'" "s = s'"
    and "\<And>c. size c < size node' \<Longrightarrow> visit c = visit' c"
  shows "extractKotlinObject env visit node s = extractKotlinObject env' visit' node' s'"
proof -
  have "visitBodies tys visit node' = visitBodies tys visit' node'" for tys
    by (rule visitBodies_agree) (simp add: assms(4))
  then show ?thesis
    unfolding extractKotlinObject_def assms(1,2,3) by (simp add: Let_def split: option.split prod.split)
qed

lemma extractKotlinCompanionObject_cong [fundef_cong]:
  assumes "env = env'" "node = node'" "s = s'"
    and "\<And>c. size c < size node' \<Longrightarrow> visit c = visit' c"
  shows "extractKotlinCompanionObject env visit node s = extractKotlinCompanionObject env' visit' node' s'"
proof -
  have "visitBodies tys visit node' = visitBodies tys visit' node'" for tys
    by (rule visitBodies_agree) (simp add: assms(4))
  then show ?thesis
    unfolding extractKotlinCompanionObject_def assms(1,2,3) by (simp add: Let_def split: option.split prod.split)
qed

lemma fold_body_agree:
  assumes "\<And>c. size c < size node \<Longrightarrow> visit c = visit' c"
  shows "fold visit (namedChildren (case getChildByField node f of Some b \<Rightarrow> b | None \<Rightarrow> node)) t
       = fold visit' (namedChildren (case getChildByField node f of Some b \<Rightarrow> b | None \<Rightarrow> node)) t"
proof (intro fold_visit_cong)
  fix c assume c: "c \<in> set (namedChildren (case getChildByField node f of Some b \<Rightarrow> b | None \<Rightarrow> node))"
  have "size c < size node"
  proof (cases "getChildByField node f")
    case None
    with c show ?thesis by (simp add: size_namedChildren)
  next
    case (Some b)
    with c have "size c < size b" by (simp add: size_namedChildren)
    with Some show ?thesis using size_getChildByField [of node f b] by simp
  qed
  then show "visit c = visit' c" by (rule assms)
qed

lemma extractClass_cong [fundef_cong]:
  assumes "env = env'" "node = node'" "s = s'"
    and "\<And>c. size c < size node' \<Longrightarrow> visit c = visit' c"
  shows "extractClass env visit node s = extractClass env' visit' node' s'"
  unfolding extractClass_def assms(1,2,3)
  by (simp add: fold_body_agree [of node' visit visit', OF assms(4)] Let_def split: option.split prod.split)

lemma extractStruct_cong [fundef_cong]:
  assumes "env = env'" "node = node'" "s = s'"
    and "\<And>c. size c < size node' \<Longrightarrow> visit c = visit' c"
  shows "extractStruct env visit node s = extractStruct env' visit' node' s'"
  unfolding extractStruct_def assms(1,2,3)
  by (simp add: fold_body_agree [of node' visit visit', OF assms(4)] Let_def split: option.split prod.split)

lemma dispatchNode_cong [fundef_cong]:
  assumes "env = env'" "ex = ex'" "node = node'" "s = s'"
    and "\<And>c. size c < size node' \<Longrightarrow> visit c = visit' c"
  shows "dispatchNode env ex visit node s = dispatchNode env' ex' visit' node' s'"
proof -
  note a = assms(5)
  have "extractSwiftClassDeclaration env' visit node' s' = extractSwiftClassDeclaration env' visit' node' s'"
    "extractKotlinEnum env' visit node' s' = extractKotlinEnum env' visit' node' s'"
    "extractKotlinClass env' visit node' s' = extractKotlinClass env' visit' node' s'"
    "extractKotlinObject env' visit node' s' = extractKotlinObject env' visit' node' s'"
    "extractClass env' visit node' s' = extractClass env' visit' node' s'"
    "extractKotlinCompanionObject env' visit node' s' = extractKotlinCompanionObject env' visit' node' s'"
    "extractSwiftInit env' visit node' s' = extractSwiftInit env' visit' node' s'"
    "extractSwiftDeinit env' visit node' s' = extractSwiftDeinit env' visit' node' s'"
    "extractSwiftProtocol env' visit node' s' = extractSwiftProtocol env' visit' node' s'"
    "extractStruct env' visit node' s' = extractStruct env' visit' node' s'"
    by (rule extractSwiftClassDeclaration_cong extractKotlinEnum_cong extractKotlinClass_cong
          extractKotlinObject_cong extractClass_cong extractKotlinCompanionObject_cong
          extractSwiftInit_cong extractSwiftDeinit_cong extractSwiftProtocol_cong
          extractStruct_cong, (rule refl a | assumption)+)+
  then show ?thesis
    unfolding dispatchNode_def assms(1,2,3,4) by (simp only:)
qed

function visitNode :: "This \<Rightarrow> SyntaxNode \<Rightarrow> Walker \<Rightarrow> Walker" where
  "visitNode env node s =
     (case this_extractor env of
        None \<Rightarrow> s
      | Some ex \<Rightarrow>
          (let (s1, skipChildren) = dispatchNode env ex (visitNode env) node s
           in if skipChildren then s1 else fold (visitNode env) (namedChildren node) s1))"
  by pat_completeness auto
termination
proof (relation "measure (\<lambda>(env, node, s). size node)")
  show "wf (measure (\<lambda>(env, node, s). size node))"
    by simp
next
  fix env :: This and node c :: SyntaxNode and s x :: Walker
  assume "size c < size node"
  then show "((env, c, x), env, node, s) \<in> measure (\<lambda>(env, node, s). size node)"
    by simp
next
  fix env :: This and node xb :: SyntaxNode and s xc :: Walker
  assume "xb \<in> set (namedChildren node)"
  then show "((env, xb, xc), env, node, s) \<in> measure (\<lambda>(env, node, s). size node)"
    by (simp add: size_namedChildren)
qed


declare visitNode.simps [simp del]


subsection \<open>The entry point of the tree-sitter extractor\<close>

text \<open>
  A parser maps the source text to the root of its tree, or throws (\<open>Inl\<close> holds the
  message of the exception). \<open>getParser\<close> of \<open>./grammars\<close> is a parameter: it says for
  which languages a grammar is loaded.
\<close>

type_synonym Parser = "string \<Rightarrow> string + SyntaxNode"

definition isLanguageSupported :: "(Language \<Rightarrow> Parser option) \<Rightarrow> Language \<Rightarrow> bool" where
  \<comment> \<open>Modelled from the spec: \<open>isLanguageSupported\<close> is defined in \<open>./grammars\<close>, which is
      missing. Spec 4.1: a language is supported iff it has a parser and a policy, or is the
      pattern-based Liquid.\<close>
  "isLanguageSupported getParser lang =
     (lang = Liquid \<or> (getParser lang \<noteq> None \<and> EXTRACTORS lang \<noteq> None))"

definition newExtractor :: "(nat \<Rightarrow> int) \<Rightarrow> string \<Rightarrow> string \<Rightarrow> Language \<Rightarrow> This" where
  \<comment> \<open>the constructor, for a given language\<close>
  "newExtractor now fp src lang =
     \<lparr> this_filePath = fp, this_language = lang, this_source = src,
       this_extractor = EXTRACTORS lang, dateNow = now \<rparr>"

definition initialWalker :: Walker where
  \<comment> \<open>the fields at the start of \<open>extract\<close>, after \<open>startTime\<close> has been read\<close>
  "initialWalker = \<lparr> nodes = [], edges = [], unresolvedReferences = [], errors = [],
                      clockReads = 1, nodeStack = [] \<rparr>"

definition errorResult :: "string \<Rightarrow> int \<Rightarrow> ExtractionResult" where
  "errorResult msg d = \<lparr> nodes = [], edges = [], unresolvedReferences = [],
                           errors = [\<lparr> message = msg, severity = SevError \<rparr>], durationMs = d \<rparr>"

definition finish :: "(nat \<Rightarrow> int) \<Rightarrow> 'a Extraction_scheme \<Rightarrow> ExtractionResult" where
  \<comment> \<open>the result record built at the end of \<open>extract\<close>\<close>
  "finish now s = \<lparr> nodes = nodes s, edges = edges s,
                      unresolvedReferences = unresolvedReferences s, errors = errors s,
                      durationMs = now (clockReads s) - now 0 \<rparr>"

definition TreeSitterExtractor_extract :: "(Language \<Rightarrow> Parser option) \<Rightarrow> (nat \<Rightarrow> int) \<Rightarrow> string \<Rightarrow> string \<Rightarrow> Language \<Rightarrow> ExtractionResult" where
  "TreeSitterExtractor_extract getParser now fp src lang =
     (if \<not> isLanguageSupported getParser lang
      then errorResult (''Unsupported language: '' @ language_tag lang) (now 1 - now 0)
      else case getParser lang of
             None \<Rightarrow> errorResult (''Failed to get parser for language: '' @ language_tag lang)
                       (now 1 - now 0)
           | Some parser \<Rightarrow>
               finish now
                 (case parser src of
                    Inr rootNode \<Rightarrow> visitNode (newExtractor now fp src lang) rootNode initialWalker
                  | Inl msg \<Rightarrow>
                      initialWalker\<lparr>errors := [\<lparr> message = ''Parse error: '' @ msg,
                                                 severity = SevError \<rparr>]\<rparr>))"

section \<open>The Liquid extractor\<close>

subsection \<open>The regular expressions\<close>

definition isSpace :: "char \<Rightarrow> bool" where
  \<comment> \<open>the class \<open>\s\<close>, on code units below 256\<close>
  "isSpace c = (of_char c \<in> {9, 10, 11, 12, 13, 32, 160 :: nat})"

definition isWord :: "char \<Rightarrow> bool" where
  \<comment> \<open>the class \<open>\w\<close>\<close>
  "isWord c = (let n = (of_char c :: nat)
               in (48 \<le> n \<and> n \<le> 57) \<or> (65 \<le> n \<and> n \<le> 90) \<or> n = 95 \<or> (97 \<le> n \<and> n \<le> 122))"

definition isQuote :: "char \<Rightarrow> bool" where
  \<comment> \<open>the class \<open>['"]\<close>\<close>
  "isQuote c = (c = CHR 0x27 \<or> c = CHR 0x22)"

text \<open>
  A matcher takes the text from the current position on and returns what is left after the
  match, or \<open>None\<close>. In every expression of the extractor the character that must follow a
  greedy repetition is outside the repeated class, so taking the longest repetition and never
  backtracking gives the match of the regular expression.
\<close>

definition lit :: "string \<Rightarrow> string \<Rightarrow> string option" where
  "lit p s = (if prefix p s then Some (drop (length p) s) else None)"

definition optDash :: "string \<Rightarrow> string" where
  \<comment> \<open>\<open>[-]?\<close>\<close>
  "optDash s = (case s of c # r \<Rightarrow> if c = CHR ''-'' then r else s | [] \<Rightarrow> s)"

definition spaces0 :: "string \<Rightarrow> string" where
  \<comment> \<open>\<open>\s*\<close>\<close>
  "spaces0 s = dropWhile isSpace s"

definition spaces1 :: "string \<Rightarrow> string option" where
  \<comment> \<open>\<open>\s+\<close>\<close>
  "spaces1 s = (case s of c # r \<Rightarrow> if isSpace c then Some (dropWhile isSpace r) else None
                | [] \<Rightarrow> None)"

definition tagOpen :: "string \<Rightarrow> string option" where
  \<comment> \<open>\<open>\{%[-]?\s*\<close>\<close>
  "tagOpen s = map_option (\<lambda>r. spaces0 (optDash r)) (lit ''{%'' s)"

definition quotedName :: "string \<Rightarrow> (string \<times> string) option" where
  \<comment> \<open>\<open>['"]([^'"]+)['"]\<close>: the captured name and the rest\<close>
  "quotedName s =
     (case s of
        [] \<Rightarrow> None
      | q # r \<Rightarrow>
          if \<not> isQuote q then None
          else (let nm = takeWhile (\<lambda>c. \<not> isQuote c) r; rest = dropWhile (\<lambda>c. \<not> isQuote c) r
                in if nm = [] \<or> rest = [] then None else Some (nm, tl rest)))"

definition matchRender :: "string \<Rightarrow> ((string \<times> string) \<times> string) option" where
  \<comment> \<open>\<open>/\{%[-]?\s*(render|include)\s+['"]([^'"]+)['"]/\<close> at the start of the text: the two
      groups and the rest\<close>
  "matchRender s =
     (case tagOpen s of
        None \<Rightarrow> None
      | Some s1 \<Rightarrow>
          (case (case lit ''render'' s1 of Some r \<Rightarrow> Some (''render'', r)
                 | None \<Rightarrow> map_option (Pair ''include'') (lit ''include'' s1)) of
             None \<Rightarrow> None
           | Some (tagType, s2) \<Rightarrow>
               (case spaces1 s2 of
                  None \<Rightarrow> None
                | Some s3 \<Rightarrow> map_option (\<lambda>(nm, rest). ((tagType, nm), rest)) (quotedName s3))))"

definition matchSection :: "string \<Rightarrow> (string \<times> string) option" where
  \<comment> \<open>\<open>/\{%[-]?\s*section\s+['"]([^'"]+)['"]/\<close>\<close>
  "matchSection s =
     (case tagOpen s of
        None \<Rightarrow> None
      | Some s1 \<Rightarrow>
          (case lit ''section'' s1 of
             None \<Rightarrow> None
           | Some s2 \<Rightarrow> (case spaces1 s2 of None \<Rightarrow> None | Some s3 \<Rightarrow> quotedName s3)))"

definition tagClose :: "string \<Rightarrow> string option" where
  \<comment> \<open>\<open>\s*[-]?%\}\<close>\<close>
  "tagClose s = lit ''%}'' (optDash (spaces0 s))"

definition wholeTag :: "string \<Rightarrow> string \<Rightarrow> string option" where
  \<comment> \<open>\<open>\{%[-]?\s*word\s*[-]?%\}\<close>\<close>
  "wholeTag word s =
     (case tagOpen s of
        None \<Rightarrow> None
      | Some s1 \<Rightarrow> (case lit word s1 of None \<Rightarrow> None | Some s2 \<Rightarrow> tagClose s2))"

fun lazyUntil :: "(string \<Rightarrow> string option) \<Rightarrow> string \<Rightarrow> (string \<times> string) option" where
  \<comment> \<open>\<open>([\s\S]*?)\<close> followed by the matcher \<open>m\<close>: the shortest text after which \<open>m\<close> matches\<close>
  "lazyUntil m [] = map_option (Pair []) (m [])"
| "lazyUntil m (c # cs) =
     (case m (c # cs) of
        Some rest \<Rightarrow> Some ([], rest)
      | None \<Rightarrow> map_option (\<lambda>(body, rest). (c # body, rest)) (lazyUntil m cs))"

definition matchSchema :: "string \<Rightarrow> (string \<times> string) option" where
  \<comment> \<open>\<open>/\{%[-]?\s*schema\s*[-]?%\}([\s\S]*?)\{%[-]?\s*endschema\s*[-]?%\}/\<close>\<close>
  "matchSchema s =
     (case wholeTag ''schema'' s of
        None \<Rightarrow> None
      | Some s1 \<Rightarrow> lazyUntil (wholeTag ''endschema'') s1)"

definition matchAssign :: "string \<Rightarrow> (string \<times> string) option" where
  \<comment> \<open>\<open>/\{%[-]?\s*assign\s+(\w+)\s*=/\<close>\<close>
  "matchAssign s =
     (case tagOpen s of
        None \<Rightarrow> None
      | Some s1 \<Rightarrow>
          (case lit ''assign'' s1 of
             None \<Rightarrow> None
           | Some s2 \<Rightarrow>
               (case spaces1 s2 of
                  None \<Rightarrow> None
                | Some s3 \<Rightarrow>
                    (let nm = takeWhile isWord s3
                     in if nm = [] then None
                        else map_option (Pair nm)
                               (lit ''='' (spaces0 (dropWhile isWord s3)))))))"

text \<open>
  The loop \<open>while ((match = regex.exec(source)) !== null)\<close> of a global regular expression:
  the matches from left to right, each search starting where the previous match ended. A
  match is recorded as its index, its groups and its length. \<open>skip\<close> counts the characters
  still covered by the previous match.
\<close>

fun execAll :: "(string \<Rightarrow> ('g \<times> string) option) \<Rightarrow> nat \<Rightarrow> nat \<Rightarrow> string \<Rightarrow> (nat \<times> 'g \<times> nat) list" where
  "execAll m skip idx [] = []"
| "execAll m skip idx (c # cs) =
     (if skip > 0 then execAll m (skip - 1) (idx + 1) cs
      else case m (c # cs) of
             None \<Rightarrow> execAll m 0 (idx + 1) cs
           | Some (g, rest) \<Rightarrow>
               (let len = length (c # cs) - length rest
                in (idx, g, len) # execAll m (len - 1) (idx + 1) cs))"

subsection \<open>The extractor\<close>

definition splitLines :: "string \<Rightarrow> string list" where
  \<comment> \<open>\<open>s.split('\n')\<close>\<close>
  "splitLines s = foldr (\<lambda>c ls. if c = CHR 0x0A then [] # ls else (c # hd ls) # tl ls) s [[]]"

definition getLineNumber :: "string \<Rightarrow> nat \<Rightarrow> nat" where
  "getLineNumber src idx = length (filter (\<lambda>c. c = CHR 0x0A) (substring src 0 idx)) + 1"

definition getLineStart :: "string \<Rightarrow> nat \<Rightarrow> nat" where
  "getLineStart src lineNumber =
     sum_list (map (\<lambda>l. length l + 1) (take (lineNumber - 1) (splitLines src)))"

definition lastSegment :: "string \<Rightarrow> string" where
  \<comment> \<open>\<open>filePath.split('/').pop() || filePath\<close>\<close>
  "lastSegment fp =
     (let seg = rev (takeWhile (\<lambda>c. c \<noteq> CHR ''/'') (rev fp)) in if seg = [] then fp else seg)"

record LiquidThis =
  liquid_filePath :: string
  liquid_source :: string
  liquid_now :: "nat \<Rightarrow> int"
  jsonName :: "string \<Rightarrow> string option"

text \<open>
  \<open>jsonName\<close> stands for the runtime's \<open>JSON.parse\<close> in \<open>extractSchema\<close>: the \<open>name\<close>
  property of the parsed schema when the text parses and the property is a non-empty string,
  \<open>None\<close> when the schema keeps its default name.
\<close>

definition createFileNode :: "LiquidThis \<Rightarrow> Extraction \<Rightarrow> Node \<times> Extraction" where
  "createFileNode env s =
     (let ls = splitLines (liquid_source env);
          fileNode = \<lparr> node_id = generateNodeId (liquid_filePath env) KFile (liquid_filePath env) 1,
                        kind = KFile,
                        name = lastSegment (liquid_filePath env),
                        qualifiedName = liquid_filePath env,
                        filePath = liquid_filePath env,
                        language = Liquid,
                        startLine = 1,
                        endLine = length ls,
                        startColumn = 0,
                        endColumn = length (last ls),
                        updatedAt = liquid_now env (clockReads s) \<rparr>
      in (fileNode, s\<lparr>nodes := nodes s @ [fileNode], clockReads := Suc (clockReads s)\<rparr>))"

definition pushContained :: "string \<Rightarrow> Node \<Rightarrow> Extraction \<Rightarrow> Extraction" where
  \<comment> \<open>\<open>this.nodes.push(node)\<close>, then the containment edge from the file; building the node
      has read the clock once\<close>
  "pushContained fileNodeId node s =
     s\<lparr>nodes := nodes s @ [node],
       edges := edges s @ [\<lparr> source = fileNodeId, target = node_id node, edge_kind = Contains \<rparr>],
       clockReads := Suc (clockReads s)\<rparr>"

definition pushReference :: "UnresolvedReference \<Rightarrow> Extraction \<Rightarrow> Extraction" where
  "pushReference r s = s\<lparr>unresolvedReferences := unresolvedReferences s @ [r]\<rparr>"

definition componentNode :: "LiquidThis \<Rightarrow> string \<Rightarrow> string \<Rightarrow> nat \<Rightarrow> nat \<Rightarrow> nat \<Rightarrow> Node" where
  \<comment> \<open>the node of a \<open>render\<close>, \<open>include\<close> or \<open>section\<close> tag matched at \<open>idx\<close> with length \<open>len\<close>\<close>
  "componentNode env tagType nm idx len clock =
     (let ln = getLineNumber (liquid_source env) idx
      in \<lparr> node_id = generateNodeId (liquid_filePath env) KComponent (tagType @ '':'' @ nm) ln,
           kind = KComponent,
           name = nm,
           qualifiedName = liquid_filePath env @ ''::'' @ tagType @ '':'' @ nm,
           filePath = liquid_filePath env,
           language = Liquid,
           startLine = ln,
           endLine = ln,
           startColumn = idx - getLineStart (liquid_source env) ln,
           endColumn = idx - getLineStart (liquid_source env) ln + len,
           updatedAt = liquid_now env clock \<rparr>)"

definition referenceFrom :: "LiquidThis \<Rightarrow> string \<Rightarrow> string \<Rightarrow> nat \<Rightarrow> UnresolvedReference" where
  "referenceFrom env fileNodeId refName idx =
     (let ln = getLineNumber (liquid_source env) idx
      in \<lparr> fromNodeId = fileNodeId, referenceName = refName, referenceKind = References,
           line = ln, column = idx - getLineStart (liquid_source env) ln \<rparr>)"

definition snippetStep :: "LiquidThis \<Rightarrow> string \<Rightarrow> nat \<times> (string \<times> string) \<times> nat \<Rightarrow> Extraction \<Rightarrow> Extraction" where
  \<comment> \<open>the body of the loop of \<open>extractSnippetReferences\<close>\<close>
  "snippetStep env fileNodeId m s =
     (case m of (idx, (tagType, snippetName), len) \<Rightarrow>
        pushReference (referenceFrom env fileNodeId (''snippets/'' @ snippetName @ ''.liquid'') idx)
          (pushContained fileNodeId (componentNode env tagType snippetName idx len (clockReads s)) s))"

definition extractSnippetReferences :: "LiquidThis \<Rightarrow> string \<Rightarrow> Extraction \<Rightarrow> Extraction" where
  "extractSnippetReferences env fileNodeId s =
     fold (snippetStep env fileNodeId) (execAll matchRender 0 0 (liquid_source env)) s"

definition sectionStep :: "LiquidThis \<Rightarrow> string \<Rightarrow> nat \<times> string \<times> nat \<Rightarrow> Extraction \<Rightarrow> Extraction" where
  "sectionStep env fileNodeId m s =
     (case m of (idx, sectionName, len) \<Rightarrow>
        pushReference (referenceFrom env fileNodeId (''sections/'' @ sectionName @ ''.liquid'') idx)
          (pushContained fileNodeId (componentNode env ''section'' sectionName idx len (clockReads s)) s))"

definition extractSectionReferences :: "LiquidThis \<Rightarrow> string \<Rightarrow> Extraction \<Rightarrow> Extraction" where
  "extractSectionReferences env fileNodeId s =
     fold (sectionStep env fileNodeId) (execAll matchSection 0 0 (liquid_source env)) s"

definition schemaStep :: "LiquidThis \<Rightarrow> string \<Rightarrow> nat \<times> string \<times> nat \<Rightarrow> Extraction \<Rightarrow> Extraction" where
  "schemaStep env fileNodeId m s =
     (case m of (idx, schemaContent, len) \<Rightarrow>
        (let startLn = getLineNumber (liquid_source env) idx;
             endLn = getLineNumber (liquid_source env) (idx + len);
             schemaName = (case jsonName env schemaContent of Some n \<Rightarrow> n | None \<Rightarrow> ''schema'')
         in pushContained fileNodeId
              \<lparr> node_id = generateNodeId (liquid_filePath env) KConstant
                            (''schema:'' @ schemaName) startLn,
                kind = KConstant,
                name = schemaName,
                qualifiedName = liquid_filePath env @ ''::schema:'' @ schemaName,
                filePath = liquid_filePath env,
                language = Liquid,
                startLine = startLn,
                endLine = endLn,
                startColumn = idx - getLineStart (liquid_source env) startLn,
                endColumn = 0,
                updatedAt = liquid_now env (clockReads s) \<rparr> s))"

definition extractSchema :: "LiquidThis \<Rightarrow> string \<Rightarrow> Extraction \<Rightarrow> Extraction" where
  "extractSchema env fileNodeId s =
     fold (schemaStep env fileNodeId) (execAll matchSchema 0 0 (liquid_source env)) s"

definition assignStep :: "LiquidThis \<Rightarrow> string \<Rightarrow> nat \<times> string \<times> nat \<Rightarrow> Extraction \<Rightarrow> Extraction" where
  "assignStep env fileNodeId m s =
     (case m of (idx, variableName, len) \<Rightarrow>
        (let ln = getLineNumber (liquid_source env) idx
         in pushContained fileNodeId
              \<lparr> node_id = generateNodeId (liquid_filePath env) KVariable variableName ln,
                kind = KVariable,
                name = variableName,
                qualifiedName = liquid_filePath env @ ''::'' @ variableName,
                filePath = liquid_filePath env,
                language = Liquid,
                startLine = ln,
                endLine = ln,
                startColumn = idx - getLineStart (liquid_source env) ln,
                endColumn = idx - getLineStart (liquid_source env) ln + len,
                updatedAt = liquid_now env (clockReads s) \<rparr> s))"

definition extractAssignments :: "LiquidThis \<Rightarrow> string \<Rightarrow> Extraction \<Rightarrow> Extraction" where
  "extractAssignments env fileNodeId s =
     fold (assignStep env fileNodeId) (execAll matchAssign 0 0 (liquid_source env)) s"

definition initialExtraction :: Extraction where
  "initialExtraction = \<lparr> nodes = [], edges = [], unresolvedReferences = [], errors = [],
                          clockReads = 1 \<rparr>"

definition LiquidExtractor_extract :: "(string \<Rightarrow> string option) \<Rightarrow> (nat \<Rightarrow> int) \<Rightarrow> string \<Rightarrow> string \<Rightarrow> ExtractionResult" where
  "LiquidExtractor_extract json now fp src =
     (let env = \<lparr> liquid_filePath = fp, liquid_source = src, liquid_now = now, jsonName = json \<rparr>;
          (fileNode, s1) = createFileNode env initialExtraction;
          s2 = extractSnippetReferences env (node_id fileNode) s1;
          s3 = extractSectionReferences env (node_id fileNode) s2;
          s4 = extractSchema env (node_id fileNode) s3;
          s5 = extractAssignments env (node_id fileNode) s4
      in finish now s5)"

section \<open>The entry point\<close>

definition extension :: "string \<Rightarrow> string option" where
  \<comment> \<open>the suffix after the final dot\<close>
  "extension fp =
     (if CHR ''.'' \<in> set fp then Some (rev (takeWhile (\<lambda>c. c \<noteq> CHR ''.'') (rev fp))) else None)"

definition detectLanguage :: "string \<Rightarrow> Language" where
  \<comment> \<open>Modelled from the spec: \<open>detectLanguage\<close> is defined in \<open>./grammars\<close>, which is missing.
      Spec 4.1: detection is by extension only, on the suffix after the final dot.\<close>
  "detectLanguage fp =
     (case extension fp of
        None \<Rightarrow> Unknown
      | Some e \<Rightarrow>
          if e = ''ts'' then TypeScript
          else if e = ''tsx'' then Tsx
          else if e \<in> set [''js'', ''mjs'', ''cjs''] then JavaScript
          else if e = ''jsx'' then Jsx
          else if e = ''py'' then Python
          else if e = ''go'' then Go
          else if e = ''rs'' then Rust
          else if e = ''java'' then Java
          else if e \<in> set [''c'', ''h''] then C
          else if e \<in> set [''cpp'', ''cc'', ''cxx'', ''hpp''] then Cpp
          else if e = ''cs'' then CSharp
          else if e = ''php'' then Php
          else if e = ''rb'' then Ruby
          else if e = ''swift'' then Swift
          else if e \<in> set [''kt'', ''kts''] then Kotlin
          else if e = ''liquid'' then Liquid
          else Unknown)"

text \<open>
  What \<open>extractFromSource\<close> is run with besides its arguments: the loaded grammars, the
  runtime's JSON parser (see \<open>jsonName\<close>) and the clock.
\<close>

record Runtime =
  getParser :: "Language \<Rightarrow> Parser option"
  parseJsonName :: "string \<Rightarrow> string option"

definition extractFromSource :: "Runtime \<Rightarrow> (nat \<Rightarrow> int) \<Rightarrow> string \<Rightarrow> string \<Rightarrow> Language option \<Rightarrow> ExtractionResult" where
  "extractFromSource rt now fp src lang =
     (let detectedLanguage = (case lang of Some l \<Rightarrow> l | None \<Rightarrow> detectLanguage fp)
      in if detectedLanguage = Liquid then LiquidExtractor_extract (parseJsonName rt) now fp src
         else TreeSitterExtractor_extract (getParser rt) now fp src detectedLanguage)"


section \<open>Evaluation and invariants\<close>

subsection \<open>Evaluation on concrete trees\<close>

lemmas cst_eval = namedChildren_def namedChild_def childForFieldName_def orElse_def
  getNodeText_def getChildByField_def row1_def substring_def

lemmas walker_eval = visitNode.simps dispatchNode_def Let_def
  extractFunction_def extractMethod_def extractInterface_def extractEnum_def extractImport_def
  importModuleName_def extractCall_def visitFunctionBody_def extractInheritance_def
  extractClass_def extractStruct_def extractName_def createNode_def buildQualifiedName_def
  addReference_def pushScope_def popScope_def referenceAt_def stripQuotes_def
  visitBodies_def firstNamedText_def newExtractor_def initialWalker_def

lemmas swift_eval = extractSwiftClassDeclaration_def getSwiftDeclarationKind_def
  extractSwiftType_def extractSwiftClass_def extractSwiftStruct_def extractSwiftActor_def
  extractSwiftExtension_def extractSwiftEnum_def extractSwiftProtocol_def
  extractSwiftInheritance_def getSwiftClassName_def visitSwiftClassBody_def swiftMember_def
  extractSwiftProperty_def extractSwiftSubscript_def extractSwiftInit_def extractSwiftDeinit_def
  extractSwiftTypealias_def extractSwiftAssociatedType_def extractSwiftEnumCase_def
  extractSwiftProtocolProperty_def extractSwiftProtocolFunction_def visitSwiftFunctionBody_def
  getSwiftPropertyName_def isSwiftConstant_def swiftProtocolPropertyName_def

lemmas extract_eval = TreeSitterExtractor_extract_def isLanguageSupported_def finish_def
  errorResult_def

subsection \<open>Calls inside function bodies\<close>

lemma extractCall_frame:
  "nodes (extractCall env node s) = nodes s \<and> edges (extractCall env node s) = edges s
   \<and> nodeStack (extractCall env node s) = nodeStack s
   \<and> clockReads (extractCall env node s) = clockReads s
   \<and> errors (extractCall env node s) = errors s"
  by (simp add: extractCall_def addReference_def Let_def)

lemma visitForCalls_frame:
  "nodes (visitForCalls env cts node s) = nodes s \<and> edges (visitForCalls env cts node s) = edges s
   \<and> nodeStack (visitForCalls env cts node s) = nodeStack s
   \<and> clockReads (visitForCalls env cts node s) = clockReads s
   \<and> errors (visitForCalls env cts node s) = errors s"
proof (induction env cts node s rule: visitForCalls.induct)
  case (1 env cts ty nmd fld si ei sp ep cs s)
  have "nodes (fold (visitForCalls env cts) xs t) = nodes t
      \<and> edges (fold (visitForCalls env cts) xs t) = edges t
      \<and> nodeStack (fold (visitForCalls env cts) xs t) = nodeStack t
      \<and> clockReads (fold (visitForCalls env cts) xs t) = clockReads t
      \<and> errors (fold (visitForCalls env cts) xs t) = errors t"
    if "set xs \<subseteq> set (filter isNamed cs)" for xs t
    using that
  proof (induction xs arbitrary: t)
    case Nil
    show ?case by simp
  next
    case (Cons x xs)
    then have "x \<in> set (filter isNamed cs)" by simp
    from 1 [OF this] Cons show ?case by simp
  qed
  from this [of "filter isNamed cs"] show ?case
    by (simp add: extractCall_frame)
qed

lemma visitFunctionBody_frame:
  "nodes (visitFunctionBody env body s) = nodes s \<and> edges (visitFunctionBody env body s) = edges s
   \<and> nodeStack (visitFunctionBody env body s) = nodeStack s
   \<and> clockReads (visitFunctionBody env body s) = clockReads s
   \<and> errors (visitFunctionBody env body s) = errors s"
  by (simp add: visitFunctionBody_def visitForCalls_frame split: option.split)

subsection \<open>Steps that only add references\<close>

definition addsReferences :: "Walker \<Rightarrow> Walker \<Rightarrow> bool" where
  \<comment> \<open>\<open>t\<close> is \<open>s\<close> with unresolved references appended\<close>
  "addsReferences s t = (\<exists>rs. t = s\<lparr>unresolvedReferences := unresolvedReferences s @ rs\<rparr>)"

lemma addsReferences_refl [simp]: "addsReferences s s"
  by (auto simp: addsReferences_def intro: exI [of _ "[]"])

lemma addsReferences_trans: "addsReferences s t \<Longrightarrow> addsReferences t u \<Longrightarrow> addsReferences s u"
  by (auto simp: addsReferences_def)

lemma addsReferences_addReference [simp]: "addsReferences s (addReference r s)"
  by (auto simp: addsReferences_def addReference_def)

lemma addsReferences_step: "addsReferences s t \<Longrightarrow> addsReferences s (addReference r t)"
  by (rule addsReferences_trans [OF _ addsReferences_addReference])

lemma addsReferences_fold:
  assumes "\<And>x t. x \<in> set xs \<Longrightarrow> addsReferences t (f x t)"
  shows "addsReferences s (fold f xs s)"
  using assms
proof (induction xs arbitrary: s)
  case Nil
  show ?case by simp
next
  case (Cons x xs)
  have "addsReferences s (f x s)" using Cons.prems by simp
  moreover have "addsReferences (f x s) (fold f xs (f x s))"
    using Cons.prems by (intro Cons.IH) simp
  ultimately have "addsReferences s (fold f xs (f x s))" by (rule addsReferences_trans)
  then show ?case by simp
qed

lemma addsReferences_frame:
  assumes "addsReferences s t"
  shows "nodes t = nodes s" "edges t = edges s" "nodeStack t = nodeStack s"
    "clockReads t = clockReads s" "errors t = errors s"
  using assms by (auto simp: addsReferences_def)

lemma addsReferences_extractCall: "addsReferences s (extractCall env node s)"
  by (simp add: extractCall_def Let_def)

lemma addsReferences_visitForCalls: "addsReferences s (visitForCalls env cts node s)"
proof (induction env cts node s rule: visitForCalls.induct)
  case (1 env cts ty nmd fld si ei sp ep cs s)
  let ?s1 = "if ty \<in> set cts then extractCall env (SyntaxNode ty nmd fld si ei sp ep cs) s else s"
  have "addsReferences s ?s1"
    by (simp add: addsReferences_extractCall)
  moreover have "addsReferences ?s1 (fold (visitForCalls env cts) (filter isNamed cs) ?s1)"
    by (rule addsReferences_fold) (rule 1)
  ultimately have "addsReferences s (fold (visitForCalls env cts) (filter isNamed cs) ?s1)"
    by (rule addsReferences_trans)
  then show ?case
    by simp
qed

lemma addsReferences_visitFunctionBody: "addsReferences s (visitFunctionBody env body s)"
  by (simp add: visitFunctionBody_def addsReferences_visitForCalls split: option.split)

lemma addsReferences_extractImport: "addsReferences s (extractImport env node s)"
  by (simp add: extractImport_def Let_def)

lemma addsReferences_extractInheritance: "addsReferences s (extractInheritance env node classId s)"
  unfolding extractInheritance_def
proof (rule addsReferences_fold)
  fix child :: SyntaxNode and t :: Walker
  define s1 where "s1 = (if nodeType child = ''extends_clause'' \<or> nodeType child = ''class_heritage''
                           \<or> nodeType child = ''superclass''
                        then (case namedChild child 0 of
                                Some superclass \<Rightarrow>
                                  addReference (referenceAt classId
                                    (getNodeText superclass (this_source env)) Extends child) t
                              | None \<Rightarrow> t)
                        else t)"
  have 1: "addsReferences t s1"
    by (simp add: s1_def split: option.split)
  have 2: "addsReferences s1 (fold (\<lambda>iface. addReference (referenceAt classId
                                (getNodeText iface (this_source env)) Implements iface))
                        (namedChildren child) s1)"
    by (rule addsReferences_fold) simp
  show "addsReferences t
          (let s1 = (if nodeType child = ''extends_clause'' \<or> nodeType child = ''class_heritage''
                           \<or> nodeType child = ''superclass''
                        then (case namedChild child 0 of
                                Some superclass \<Rightarrow>
                                  addReference (referenceAt classId
                                    (getNodeText superclass (this_source env)) Extends child) t
                              | None \<Rightarrow> t)
                        else t)
              in if nodeType child = ''implements_clause''
                    \<or> nodeType child = ''class_interface_clause''
                 then fold (\<lambda>iface. addReference (referenceAt classId
                                (getNodeText iface (this_source env)) Implements iface))
                        (namedChildren child) s1
                 else s1)"
    unfolding Let_def s1_def [symmetric]
    using 1 addsReferences_trans [OF 1 2] by simp
qed

lemma addsReferences_pair_fold:
  assumes "\<And>x b t. x \<in> set xs \<Longrightarrow> addsReferences t (snd (f x (b, t)))"
  shows "addsReferences s (snd (fold f xs (b, s)))"
  using assms
proof (induction xs arbitrary: b s)
  case Nil
  show ?case by simp
next
  case (Cons x xs)
  obtain b' s' where fx: "f x (b, s) = (b', s')" by (cases "f x (b, s)")
  have "addsReferences s (snd (f x (b, s)))" using Cons.prems by simp
  then have "addsReferences s s'" by (simp add: fx)
  moreover have "addsReferences s' (snd (fold f xs (b', s')))"
    using Cons.prems by (intro Cons.IH) simp
  ultimately have "addsReferences s (snd (fold f xs (b', s')))" by (rule addsReferences_trans)
  then show ?case by (simp add: fx)
qed

lemma addsReferences_extractSwiftInheritance:
  "addsReferences s (extractSwiftInheritance env node classId s)"
  unfolding extractSwiftInheritance_def
proof (rule addsReferences_pair_fold)
  fix child :: SyntaxNode and b :: bool and t :: Walker
  have "addsReferences t (snd (fold (\<lambda>specChild (isFirst, s).
                      if nodeType specChild = ''user_type'' then
                        (False, addReference (referenceAt classId
                                   (getNodeText specChild (this_source env))
                                   (if isFirst then Extends else Implements) specChild) s)
                      else (isFirst, s))
                   (namedChildren child) (b, t)))"
    by (rule addsReferences_pair_fold) simp
  then show "addsReferences t (snd (if nodeType child = ''inheritance_specifier'' then
              fold (\<lambda>specChild (isFirst, s).
                      if nodeType specChild = ''user_type'' then
                        (False, addReference (referenceAt classId
                                   (getNodeText specChild (this_source env))
                                   (if isFirst then Extends else Implements) specChild) s)
                      else (isFirst, s))
                   (namedChildren child) (b, t)
            else (b, t)))"
    by simp
qed


lemma addsReferences_extractKotlinInheritance:
  "addsReferences s (extractKotlinInheritance env node classId s)"
  unfolding extractKotlinInheritance_def
proof (rule addsReferences_pair_fold)
  fix child :: SyntaxNode and b :: bool and t :: Walker
  have "addsReferences t (snd (fold (\<lambda>specChild (isFirst, s).
                      if nodeType specChild = ''constructor_invocation'' then
                        (case find (\<lambda>ciChild. nodeType ciChild = ''user_type'')
                                (namedChildren specChild) of
                           Some ciChild \<Rightarrow>
                             (False, addReference (referenceAt classId
                                        (getNodeText ciChild (this_source env))
                                        (if isFirst then Extends else Implements) specChild) s)
                         | None \<Rightarrow> (isFirst, s))
                      else if nodeType specChild = ''user_type'' then
                        (False, addReference (referenceAt classId
                                   (getNodeText specChild (this_source env)) Implements specChild) s)
                      else (isFirst, s))
                   (namedChildren child) (b, t)))"
    by (rule addsReferences_pair_fold) (simp split: option.split)
  then show "addsReferences t (snd (if nodeType child = ''delegation_specifier'' then
              fold (\<lambda>specChild (isFirst, s).
                      if nodeType specChild = ''constructor_invocation'' then
                        (case find (\<lambda>ciChild. nodeType ciChild = ''user_type'')
                                (namedChildren specChild) of
                           Some ciChild \<Rightarrow>
                             (False, addReference (referenceAt classId
                                        (getNodeText ciChild (this_source env))
                                        (if isFirst then Extends else Implements) specChild) s)
                         | None \<Rightarrow> (isFirst, s))
                      else if nodeType specChild = ''user_type'' then
                        (False, addReference (referenceAt classId
                                   (getNodeText specChild (this_source env)) Implements specChild) s)
                      else (isFirst, s))
                   (namedChildren child) (b, t)
            else (b, t)))"
    by simp
qed

subsection \<open>Opening a scope\<close>

text \<open>
  Every extraction method that opens a scope has the same shape: create the node, add the
  inheritance references (if any), push the id of the node, handle the body, pop.
\<close>

definition scoped :: "This \<Rightarrow> NodeKind \<Rightarrow> string \<Rightarrow> SyntaxNode \<Rightarrow> (string \<Rightarrow> Walker \<Rightarrow> Walker) \<Rightarrow> (Walker \<Rightarrow> Walker) \<Rightarrow> Walker \<Rightarrow> Walker" where
  "scoped env k nm node inh body s =
     popScope (body (pushScope (node_id (fst (createNode env k nm node s)))
                       (inh (node_id (fst (createNode env k nm node s)))
                            (snd (createNode env k nm node s)))))"

definition optBody :: "This \<Rightarrow> SyntaxNode option \<Rightarrow> Walker \<Rightarrow> Walker" where
  "optBody env b s = (case b of Some body \<Rightarrow> visitFunctionBody env body s | None \<Rightarrow> s)"

lemma extractFunction_scoped:
  "extractFunction env node s =
     (case this_extractor env of
        None \<Rightarrow> s
      | Some ex \<Rightarrow>
          if extractName node (this_source env) ex = ''<anonymous>'' then s
          else scoped env KFunction (extractName node (this_source env) ex) node (\<lambda>i t. t)
                 (optBody env (getChildByField node (bodyField ex))) s)"
  by (simp add: extractFunction_def scoped_def optBody_def Let_def split_def split: option.split)

lemma extractMethod_scoped:
  "extractMethod env node s =
     (case this_extractor env of
        None \<Rightarrow> s
      | Some ex \<Rightarrow>
          if nodeStack s = [] \<and> this_language env \<noteq> Go then extractFunction env node s
          else scoped env KMethod (extractName node (this_source env) ex) node (\<lambda>i t. t)
                 (optBody env (getChildByField node (bodyField ex))) s)"
  by (simp add: extractMethod_def scoped_def optBody_def Let_def split_def split: option.split)

lemma extractClass_scoped:
  "extractClass env visit node s =
     (case this_extractor env of
        None \<Rightarrow> s
      | Some ex \<Rightarrow>
          scoped env KClass (extractName node (this_source env) ex) node (extractInheritance env node)
            (fold visit (namedChildren (case getChildByField node (bodyField ex) of
                                          Some b \<Rightarrow> b | None \<Rightarrow> node))) s)"
  by (simp add: extractClass_def scoped_def Let_def split_def split: option.split)

lemma extractStruct_scoped:
  "extractStruct env visit node s =
     (case this_extractor env of
        None \<Rightarrow> s
      | Some ex \<Rightarrow>
          scoped env KStruct (extractName node (this_source env) ex) node (\<lambda>i t. t)
            (fold visit (namedChildren (case getChildByField node (bodyField ex) of
                                          Some b \<Rightarrow> b | None \<Rightarrow> node))) s)"
  by (simp add: extractStruct_def scoped_def Let_def split_def split: option.split)

lemma extractKotlinClass_scoped:
  "extractKotlinClass env visit node s =
     (case this_extractor env of
        None \<Rightarrow> s
      | Some ex \<Rightarrow>
          scoped env KClass (extractName node (this_source env) ex) node
            (extractKotlinInheritance env node)
            (visitBodies [''class_body'', ''enum_class_body''] visit node) s)"
  by (simp add: extractKotlinClass_def scoped_def Let_def split_def split: option.split)

lemma extractKotlinEnum_scoped:
  "extractKotlinEnum env visit node s =
     (case this_extractor env of
        None \<Rightarrow> s
      | Some ex \<Rightarrow>
          scoped env KEnum (extractName node (this_source env) ex) node
            (extractKotlinInheritance env node)
            (visitBodies [''enum_class_body'']
               (\<lambda>bodyChild. if nodeType bodyChild = ''enum_entry''
                             then extractKotlinEnumEntry env bodyChild
                             else visit bodyChild) node) s)"
  by (simp add: extractKotlinEnum_def scoped_def Let_def split_def split: option.split)

lemma extractKotlinObject_scoped:
  "extractKotlinObject env visit node s =
     (case this_extractor env of
        None \<Rightarrow> s
      | Some ex \<Rightarrow>
          scoped env KClass (extractName node (this_source env) ex) node
            (extractKotlinInheritance env node)
            (visitBodies [''class_body''] visit node) s)"
  by (simp add: extractKotlinObject_def scoped_def Let_def split_def split: option.split)

lemma extractKotlinCompanionObject_scoped:
  "extractKotlinCompanionObject env visit node s =
     (case this_extractor env of
        None \<Rightarrow> s
      | Some ex \<Rightarrow>
          scoped env KClass (firstNamedText ''simple_identifier'' ''Companion'' node (this_source env))
            node (\<lambda>i t. t) (visitBodies [''class_body''] visit node) s)"
  by (simp add: extractKotlinCompanionObject_def scoped_def Let_def split_def split: option.split)

lemma extractSwiftInit_scoped:
  "extractSwiftInit env visit node s =
     (case this_extractor env of
        None \<Rightarrow> s
      | Some ex \<Rightarrow>
          scoped env KMethod ''init'' node (\<lambda>i t. t) (visitBodies [''function_body''] visit node) s)"
  by (simp add: extractSwiftInit_def visitSwiftFunctionBody_def scoped_def Let_def split_def
        split: option.split)

lemma extractSwiftDeinit_scoped:
  "extractSwiftDeinit env visit node s =
     scoped env KMethod ''deinit'' node (\<lambda>i t. t) (visitBodies [''function_body''] visit node) s"
  by (simp add: extractSwiftDeinit_def visitSwiftFunctionBody_def scoped_def Let_def split_def)

lemma extractSwiftType_scoped:
  "extractSwiftType k env visit node s =
     (case this_extractor env of
        None \<Rightarrow> s
      | Some ex \<Rightarrow>
          scoped env k (getSwiftClassName node (this_source env)) node
            (extractSwiftInheritance env node)
            (visitBodies [''class_body''] (swiftMember env visit) node) s)"
  by (simp add: extractSwiftType_def visitSwiftClassBody_def scoped_def Let_def split_def
        split: option.split)

lemma extractSwiftEnum_scoped:
  "extractSwiftEnum env visit node s =
     (case this_extractor env of
        None \<Rightarrow> s
      | Some ex \<Rightarrow>
          scoped env KEnum (getSwiftClassName node (this_source env)) node
            (extractSwiftInheritance env node)
            (visitBodies [''enum_class_body'']
               (\<lambda>bodyChild. if nodeType bodyChild = ''enum_entry''
                             then extractSwiftEnumCase env bodyChild
                             else visit bodyChild) node) s)"
  by (simp add: extractSwiftEnum_def scoped_def Let_def split_def split: option.split)

lemma extractSwiftProtocol_scoped:
  "extractSwiftProtocol env visit node s =
     (case this_extractor env of
        None \<Rightarrow> s
      | Some ex \<Rightarrow>
          scoped env KInterface (firstNamedText ''type_identifier'' ''<unknown>'' node (this_source env))
            node (extractSwiftInheritance env node)
            (visitBodies [''protocol_body'']
               (\<lambda>bodyChild.
                  if nodeType bodyChild = ''associatedtype_declaration''
                  then extractSwiftAssociatedType env bodyChild
                  else if nodeType bodyChild = ''protocol_property_declaration''
                  then extractSwiftProtocolProperty env bodyChild
                  else if nodeType bodyChild = ''protocol_function_declaration''
                  then extractSwiftProtocolFunction env bodyChild
                  else visit bodyChild) node) s)"
  by (simp add: extractSwiftProtocol_def scoped_def Let_def split_def split: option.split)


subsection \<open>Properties kept by every step of the walker\<close>

definition preserved :: "This \<Rightarrow> (Walker \<Rightarrow> bool) \<Rightarrow> bool" where
  \<comment> \<open>\<open>P\<close> is kept by the four ways in which the extraction methods change the state; an id
      is pushed only when it is the id of an emitted node\<close>
  "preserved env P =
     ((\<forall>k nm node s. P s \<longrightarrow> P (snd (createNode env k nm node s)))
      \<and> (\<forall>r s. P s \<longrightarrow> P (addReference r s))
      \<and> (\<forall>n s. P s \<longrightarrow> n \<in> set (nodes s) \<longrightarrow> P (pushScope (node_id n) s))
      \<and> (\<forall>s. P s \<longrightarrow> P (popScope s)))"

lemma pres_createNode: "preserved env P \<Longrightarrow> P s \<Longrightarrow> P (snd (createNode env k nm node s))"
  by (simp add: preserved_def)

lemma pres_pushScope:
  "preserved env P \<Longrightarrow> P s \<Longrightarrow> n \<in> set (nodes s) \<Longrightarrow> P (pushScope (node_id n) s)"
  by (simp add: preserved_def)

lemma pres_popScope: "preserved env P \<Longrightarrow> P s \<Longrightarrow> P (popScope s)"
  by (simp add: preserved_def)

lemma pres_addsReferences:
  assumes "preserved env P" "P s" "addsReferences s t"
  shows "P t"
proof -
  have step: "P (addReference r u)" if "P u" for r u
    using assms(1) that by (simp add: preserved_def)
  have "P (u\<lparr>unresolvedReferences := unresolvedReferences u @ rs\<rparr>)" if "P u" for rs u
    using that
  proof (induction rs arbitrary: u)
    case Nil
    then show ?case by simp
  next
    case (Cons r rs)
    have "P (addReference r u\<lparr>unresolvedReferences := unresolvedReferences (addReference r u) @ rs\<rparr>)"
      by (rule Cons.IH) (rule step, rule Cons.prems)
    then show ?case by (simp add: addReference_def)
  qed
  with assms(2,3) show ?thesis
    by (auto simp: addsReferences_def)
qed

lemma created_in_nodes:
  "fst (createNode env k nm node s) \<in> set (nodes (snd (createNode env k nm node s)))"
  by (simp add: createNode_def Let_def)

lemma pres_fold:
  assumes "\<And>x t. x \<in> set xs \<Longrightarrow> P t \<Longrightarrow> P (f x t)" "P s"
  shows "P (fold f xs s)"
  using assms by (induction xs arbitrary: s) simp_all

lemma pres_scoped:
  assumes "preserved env P" "P s"
    and inh: "\<And>i t. addsReferences t (inh i t)"
    and body: "\<And>t. P t \<Longrightarrow> P (body t)"
  shows "P (scoped env k nm node inh body s)"
proof -
  let ?n = "fst (createNode env k nm node s)"
  let ?s1 = "snd (createNode env k nm node s)"
  have 1: "P ?s1"
    using assms(1,2) by (rule pres_createNode)
  have 2: "P (inh (node_id ?n) ?s1)"
    using assms(1) 1 inh by (rule pres_addsReferences)
  have "nodes (inh (node_id ?n) ?s1) = nodes ?s1"
    by (rule addsReferences_frame(1)) (rule inh)
  then have 3: "?n \<in> set (nodes (inh (node_id ?n) ?s1))"
    using created_in_nodes [of env k nm node s] by simp
  have "P (pushScope (node_id ?n) (inh (node_id ?n) ?s1))"
    using assms(1) 2 3 by (rule pres_pushScope)
  then have "P (body (pushScope (node_id ?n) (inh (node_id ?n) ?s1)))"
    by (rule body)
  with assms(1) have "P (popScope (body (pushScope (node_id ?n) (inh (node_id ?n) ?s1))))"
    by (rule pres_popScope)
  then show ?thesis
    by (simp add: scoped_def)
qed

lemma pres_optBody:
  assumes "preserved env P" "P s"
  shows "P (optBody env b s)"
proof (cases b)
  case None
  with assms(2) show ?thesis by (simp add: optBody_def)
next
  case (Some body)
  have "P (visitFunctionBody env body s)"
    using assms addsReferences_visitFunctionBody by (rule pres_addsReferences)
  with Some show ?thesis by (simp add: optBody_def)
qed

lemma pres_function_scope:
  assumes "preserved env P" "P s"
  shows "P (scoped env k nm node (\<lambda>i t. t) (optBody env b) s)"
  using assms by (rule pres_scoped) (simp_all add: pres_optBody [OF assms(1)])

lemma pres_extractFunction:
  assumes "preserved env P" "P s"
  shows "P (extractFunction env node s)"
  using assms(2) pres_function_scope [OF assms]
  by (simp add: extractFunction_scoped split: option.split)

lemma pres_extractMethod:
  assumes "preserved env P" "P s"
  shows "P (extractMethod env node s)"
  using assms(2) pres_function_scope [OF assms] pres_extractFunction [OF assms]
  by (simp add: extractMethod_scoped split: option.split)

lemma pres_leaves:
  assumes "preserved env P" "P s"
  shows "P (extractInterface env node s)" "P (extractEnum env node s)"
    "P (extractKotlinEnumEntry env node s)" "P (extractKotlinProperty env node s)"
    "P (extractKotlinTypeAlias env node s)" "P (extractSwiftEnumCase env node s)"
    "P (extractSwiftProperty env node s)" "P (extractSwiftSubscript env node s)"
    "P (extractSwiftTypealias env node s)" "P (extractSwiftAssociatedType env node s)"
    "P (extractSwiftProtocolProperty env node s)" "P (extractSwiftProtocolFunction env node s)"
    "P (extractImport env node s)" "P (extractCall env node s)"
proof -
  note c = pres_createNode [OF assms]
  show "P (extractInterface env node s)" "P (extractEnum env node s)"
    "P (extractKotlinEnumEntry env node s)" "P (extractKotlinProperty env node s)"
    "P (extractKotlinTypeAlias env node s)" "P (extractSwiftEnumCase env node s)"
    "P (extractSwiftProperty env node s)" "P (extractSwiftSubscript env node s)"
    "P (extractSwiftTypealias env node s)" "P (extractSwiftAssociatedType env node s)"
    "P (extractSwiftProtocolProperty env node s)" "P (extractSwiftProtocolFunction env node s)"
    using assms(2)
    by (simp_all add: extractInterface_def extractEnum_def extractKotlinEnumEntry_def
        extractKotlinProperty_def extractKotlinTypeAlias_def extractSwiftEnumCase_def
        extractSwiftProperty_def extractSwiftSubscript_def extractSwiftTypealias_def
        extractSwiftAssociatedType_def extractSwiftProtocolProperty_def
        extractSwiftProtocolFunction_def c split: option.split)
  show "P (extractImport env node s)"
    using assms addsReferences_extractImport by (rule pres_addsReferences)
  show "P (extractCall env node s)"
    using assms addsReferences_extractCall by (rule pres_addsReferences)
qed

lemma pres_visitBodies:
  assumes "P s" and "\<And>c t. size c < size node \<Longrightarrow> P t \<Longrightarrow> P (each c t)"
  shows "P (visitBodies tys each node s)"
  unfolding visitBodies_def
proof (rule pres_fold [where P = P])
  fix child t
  assume child: "child \<in> set (namedChildren node)" and t: "P t"
  have "P (fold each (namedChildren child) t)"
  proof (rule pres_fold [where P = P])
    fix c u
    assume c: "c \<in> set (namedChildren child)" and u: "P u"
    have "size c < size node"
      using size_namedChildren [OF c] size_namedChildren [OF child] by simp
    then show "P (each c u)" using u by (rule assms(2))
  qed (rule t)
  with t show "P (if nodeType child \<in> set tys then fold each (namedChildren child) t else t)"
    by simp
qed (rule assms(1))

lemma pres_fold_body:
  assumes "P s" and "\<And>c t. size c < size node \<Longrightarrow> P t \<Longrightarrow> P (visit c t)"
  shows "P (fold visit (namedChildren (case getChildByField node f of Some b \<Rightarrow> b | None \<Rightarrow> node)) s)"
proof (rule pres_fold [where P = P])
  fix c t
  assume c: "c \<in> set (namedChildren (case getChildByField node f of Some b \<Rightarrow> b | None \<Rightarrow> node))"
    and t: "P t"
  have "size c < size node"
  proof (cases "getChildByField node f")
    case None
    with c show ?thesis by (simp add: size_namedChildren)
  next
    case (Some b)
    with c have "size c < size b" by (simp add: size_namedChildren)
    with Some show ?thesis using size_getChildByField [of node f b] by simp
  qed
  then show "P (visit c t)" using t by (rule assms(2))
qed (rule assms(1))

lemma pres_swiftMember:
  assumes "preserved env P" "P s"
    and "\<And>c t. size c \<le> size bodyChild \<Longrightarrow> P t \<Longrightarrow> P (visit c t)"
  shows "P (swiftMember env visit bodyChild s)"
proof -
  have body: "P (visitBodies [''function_body''] visit bodyChild t)" if "P t" for t
    using that by (rule pres_visitBodies) (simp add: assms(3))
  have sc: "P (scoped env k nm bodyChild (\<lambda>i t. t) (visitBodies [''function_body''] visit bodyChild) s)"
    for k nm
    using assms(1,2) by (rule pres_scoped) (simp_all add: body)
  have "P (extractSwiftInit env visit bodyChild s)"
    using assms(2) sc by (simp add: extractSwiftInit_scoped split: option.split)
  moreover have "P (extractSwiftDeinit env visit bodyChild s)"
    using sc by (simp add: extractSwiftDeinit_scoped)
  moreover have "P (visit bodyChild s)"
    using assms(2,3) by simp
  ultimately show ?thesis
    using pres_leaves [OF assms(1,2), of bodyChild] by (simp add: swiftMember_def)
qed

lemma pres_dispatchNode:
  assumes "preserved env P" "P s"
    and visit: "\<And>c t. size c < size node \<Longrightarrow> P t \<Longrightarrow> P (visit c t)"
  shows "P (fst (dispatchNode env ex visit node s))"
proof -
  note p = assms(1)
  have vb: "P (visitBodies tys visit node t)" if "P t" for tys t
    using that visit by (rule pres_visitBodies)
  have fb: "P (fold visit (namedChildren (case getChildByField node f of Some b \<Rightarrow> b | None \<Rightarrow> node)) t)"
    if "P t" for f t
    using that visit by (rule pres_fold_body)
  have kenum: "P (visitBodies tys (\<lambda>bodyChild. if nodeType bodyChild = ''enum_entry''
                             then extractKotlinEnumEntry env bodyChild
                             else visit bodyChild) node t)" if "P t" for tys t
    using that by (rule pres_visitBodies) (simp add: pres_leaves [OF p] visit)
  have senum: "P (visitBodies tys (\<lambda>bodyChild. if nodeType bodyChild = ''enum_entry''
                             then extractSwiftEnumCase env bodyChild
                             else visit bodyChild) node t)" if "P t" for tys t
    using that by (rule pres_visitBodies) (simp add: pres_leaves [OF p] visit)
  have sproto: "P (visitBodies tys (\<lambda>bodyChild.
                  if nodeType bodyChild = ''associatedtype_declaration''
                  then extractSwiftAssociatedType env bodyChild
                  else if nodeType bodyChild = ''protocol_property_declaration''
                  then extractSwiftProtocolProperty env bodyChild
                  else if nodeType bodyChild = ''protocol_function_declaration''
                  then extractSwiftProtocolFunction env bodyChild
                  else visit bodyChild) node t)" if "P t" for tys t
    using that by (rule pres_visitBodies) (simp add: pres_leaves [OF p] visit)
  have smember: "P (visitBodies tys (swiftMember env visit) node t)" if "P t" for tys t
    using that
  proof (rule pres_visitBodies)
    fix c :: SyntaxNode and u :: Walker
    assume c: "size c < size node" and u: "P u"
    show "P (swiftMember env visit c u)"
    proof (rule pres_swiftMember [OF p u])
      fix c' :: SyntaxNode and t :: Walker
      assume "size c' \<le> size c" and t: "P t"
      with c have "size c' < size node" by simp
      then show "P (visit c' t)" using t by (rule visit)
    qed
  qed
  have 1: "P (extractClass env visit node s)" "P (extractStruct env visit node s)"
    "P (extractKotlinClass env visit node s)" "P (extractKotlinEnum env visit node s)"
    "P (extractKotlinObject env visit node s)" "P (extractKotlinCompanionObject env visit node s)"
    "P (extractSwiftInit env visit node s)" "P (extractSwiftDeinit env visit node s)"
    "P (extractSwiftType k env visit node s)" "P (extractSwiftEnum env visit node s)"
    "P (extractSwiftProtocol env visit node s)" for k
  proof -
    have sc: "P (scoped env k' nm node inh body s)"
      if "\<And>i t. addsReferences t (inh i t)" "\<And>t. P t \<Longrightarrow> P (body t)" for k' nm inh body
      using p assms(2) that by (rule pres_scoped)
    note scs = sc [OF addsReferences_extractInheritance] sc [OF addsReferences_extractKotlinInheritance]
      sc [OF addsReferences_extractSwiftInheritance] sc [OF addsReferences_refl]
    show "P (extractClass env visit node s)" "P (extractStruct env visit node s)"
      "P (extractKotlinClass env visit node s)" "P (extractKotlinEnum env visit node s)"
      "P (extractKotlinObject env visit node s)" "P (extractKotlinCompanionObject env visit node s)"
      "P (extractSwiftInit env visit node s)" "P (extractSwiftDeinit env visit node s)"
      "P (extractSwiftType k env visit node s)" "P (extractSwiftEnum env visit node s)"
      "P (extractSwiftProtocol env visit node s)"
      using assms(2)
      by (simp_all add: extractClass_scoped extractStruct_scoped extractKotlinClass_scoped
          extractKotlinEnum_scoped extractKotlinObject_scoped extractKotlinCompanionObject_scoped
          extractSwiftInit_scoped extractSwiftDeinit_scoped extractSwiftType_scoped
          extractSwiftEnum_scoped extractSwiftProtocol_scoped
          scs vb fb kenum senum sproto smember split: option.split)
  qed
  have 2: "P (extractSwiftClassDeclaration env visit node s)"
    using 1 by (simp add: extractSwiftClassDeclaration_def extractSwiftClass_def
        extractSwiftStruct_def extractSwiftActor_def extractSwiftExtension_def Let_def)
  show ?thesis
    using 1 2 assms(2) pres_leaves [OF p assms(2), of node] pres_extractFunction [OF p assms(2), of node]
      pres_extractMethod [OF p assms(2), of node]
    by (simp add: dispatchNode_def Let_def)
qed

lemma pres_visitNode:
  assumes "preserved env P"
  shows "P s \<Longrightarrow> P (visitNode env node s)"
proof (induction node arbitrary: s rule: measure_induct_rule [where f = size])
  case (less node)
  show ?case
  proof (cases "this_extractor env")
    case None
    with less.prems show ?thesis by (subst visitNode.simps) simp
  next
    case (Some ex)
    have d: "P (fst (dispatchNode env ex (visitNode env) node s))"
      using assms less.prems by (rule pres_dispatchNode) (rule less.IH)
    have "P (fold (visitNode env) (namedChildren node) (fst (dispatchNode env ex (visitNode env) node s)))"
    proof (rule pres_fold [where P = P])
      fix c t assume "c \<in> set (namedChildren node)" "P t"
      then show "P (visitNode env c t)"
        by (intro less.IH) (simp_all add: size_namedChildren)
    qed (rule d)
    with d Some show ?thesis
      by (subst visitNode.simps) (simp add: split_def Let_def)
  qed
qed

section \<open>Properties\<close>

subsection \<open>Default visibility (C5)\<close>

text \<open>
  A declaration carries no explicit visibility modifier when none of its modifier children
  (\<open>visibility_modifier\<close> in Rust and PHP, \<open>modifier\<close> in C#, \<open>modifiers\<close> in Kotlin and
  Swift) has a text that contains a visibility keyword.
\<close>


definition visibilityKeywords :: "string list" where
  "visibilityKeywords = [''pub'', ''public'', ''private'', ''protected'', ''internal'', ''fileprivate'']"

definition noExplicitVisibility :: "string \<Rightarrow> SyntaxNode \<Rightarrow> bool" where
  "noExplicitVisibility src node =
     list_all (\<lambda>c. nodeType c \<in> set [''visibility_modifier'', ''modifier'', ''modifiers'']
                 \<longrightarrow> list_all (\<lambda>k. \<not> str_includes (getNodeText c src) k) visibilityKeywords)
       (children node)"

definition csharp_class_example :: SyntaxNode where
  "csharp_class_example =
     SyntaxNode ''class_declaration'' True None 0 10 (0, 0) (0, 10)
       [SyntaxNode ''class'' False None 0 5 (0, 0) (0, 5) [],
        SyntaxNode ''identifier'' True (Some ''name'') 6 7 (0, 6) (0, 7) [],
        SyntaxNode ''declaration_list'' True (Some ''body'') 8 10 (0, 8) (0, 10)
          [SyntaxNode ''{'' False None 8 9 (0, 8) (0, 9) [],
           SyntaxNode ''}'' False None 9 10 (0, 9) (0, 10) []]]"

lemma str_includes_refl: "str_includes s s"
  by (cases s) simp_all

lemma modifierTexts_clean:
  assumes "noExplicitVisibility src node" "ty \<in> set [''visibility_modifier'', ''modifier'', ''modifiers'']"
    and "t \<in> set (modifierTexts ty src node)" "k \<in> set visibilityKeywords"
  shows "\<not> str_includes t k"
  using assms by (auto simp: noExplicitVisibility_def modifierTexts_def list_all_iff)

lemma rust_visibility_default:
  "(\<And>t. t \<in> set ts \<Longrightarrow> \<not> str_includes t ''pub'') \<Longrightarrow> rust_visibility ts = Some Private"
  by (cases ts) auto

lemma csharp_visibility_default:
  "(\<And>t k. t \<in> set ts \<Longrightarrow> k \<in> set visibilityKeywords \<Longrightarrow> \<not> str_includes t k) \<Longrightarrow> csharp_visibility ts = Some Private"
proof (induction ts)
  case Nil
  show ?case by simp
next
  case (Cons t ts)
  have "\<not> str_includes t k" if "k \<in> set visibilityKeywords" for k
    using Cons.prems that by simp
  from this [of t] have "t \<notin> set visibilityKeywords"
    using str_includes_refl by blast
  then show ?case
    using Cons by (simp add: visibilityKeywords_def)
qed

lemma php_visibility_default:
  "(\<And>t k. t \<in> set ts \<Longrightarrow> k \<in> set visibilityKeywords \<Longrightarrow> \<not> str_includes t k) \<Longrightarrow> php_visibility ts = Some Public"
proof (induction ts)
  case Nil
  show ?case by simp
next
  case (Cons t ts)
  have "\<not> str_includes t k" if "k \<in> set visibilityKeywords" for k
    using Cons.prems that by simp
  from this [of t] have "t \<notin> set visibilityKeywords"
    using str_includes_refl by blast
  then show ?case
    using Cons by (simp add: visibilityKeywords_def)
qed

lemma swift_visibility_default:
  "(\<And>t k. t \<in> set ts \<Longrightarrow> k \<in> set visibilityKeywords \<Longrightarrow> \<not> str_includes t k) \<Longrightarrow> swift_visibility ts = Some Internal"
proof (induction ts)
  case Nil
  show ?case by simp
next
  case (Cons t ts)
  have "\<not> str_includes t k" if "k \<in> set visibilityKeywords" for k
    using Cons.prems that by simp
  then have "\<not> str_includes t ''public''" "\<not> str_includes t ''private''"
    "\<not> str_includes t ''internal''" "\<not> str_includes t ''fileprivate''"
    by (simp_all add: visibilityKeywords_def)
  then show ?case
    using Cons by simp
qed

lemma kotlin_visibility_default:
  "(\<And>t k. t \<in> set ts \<Longrightarrow> k \<in> set visibilityKeywords \<Longrightarrow> \<not> str_includes t k) \<Longrightarrow> kotlin_visibility ts = Some Public"
proof (induction ts)
  case Nil
  show ?case by simp
next
  case (Cons t ts)
  have "\<not> str_includes t k" if "k \<in> set visibilityKeywords" for k
    using Cons.prems that by simp
  then have "\<not> str_includes t ''public''" "\<not> str_includes t ''private''"
    "\<not> str_includes t ''internal''" "\<not> str_includes t ''protected''"
    by (simp_all add: visibilityKeywords_def)
  then show ?case
    using Cons by simp
qed

text \<open>
  Claim C5, as amended. A declaration that carries no explicit visibility modifier gets
  \<open>private\<close> from the Rust and the C# extractor, \<open>public\<close> from the PHP and the Kotlin
  extractor and \<open>internal\<close> from the Swift extractor. (The claim says \<open>internal\<close> for C#;
  the C# extractor ends with \<open>return 'private'\<close>.)
\<close>

theorem visibility_defaults:
  assumes "noExplicitVisibility src node"
  shows "rust_getVisibility src node = Some Private
       \<and> csharp_getVisibility src node = Some Private
       \<and> php_getVisibility src node = Some Public
       \<and> kotlin_getVisibility src node = Some Public
       \<and> swift_getVisibility src node = Some Internal"
proof -
  note clean = modifierTexts_clean [OF assms]
  have "rust_getVisibility src node = Some Private"
    unfolding rust_getVisibility_def
    by (rule rust_visibility_default) (rule clean, simp_all add: visibilityKeywords_def)
  moreover have "csharp_getVisibility src node = Some Private"
    unfolding csharp_getVisibility_def
    by (rule csharp_visibility_default) (rule clean, simp_all)
  moreover have "php_getVisibility src node = Some Public"
    unfolding php_getVisibility_def
    by (rule php_visibility_default) (rule clean, simp_all)
  moreover have "kotlin_getVisibility src node = Some Public"
    unfolding kotlin_getVisibility_def
    by (rule kotlin_visibility_default) (rule clean, simp_all)
  moreover have "swift_getVisibility src node = Some Internal"
    unfolding swift_getVisibility_def
    by (rule swift_visibility_default) (rule clean, simp_all)
  ultimately show ?thesis by simp
qed

lemma csharp_class_example_clean: "noExplicitVisibility ''class A {}'' csharp_class_example"
  by (simp add: noExplicitVisibility_def csharp_class_example_def)

theorem visibility_defaults_witness:
  "noExplicitVisibility ''class A {}'' csharp_class_example
   \<and> rust_getVisibility ''class A {}'' csharp_class_example = Some Private
   \<and> swift_getVisibility ''class A {}'' csharp_class_example = Some Internal"
  using visibility_defaults [OF csharp_class_example_clean] csharp_class_example_clean by simp

text \<open>
  The claim as stated fails for C#: the class \<open>class A {}\<close> has no modifier, and the C#
  extractor returns \<open>private\<close>, not \<open>internal\<close>.
\<close>

theorem csharp_default_counterexample:
  "noExplicitVisibility ''class A {}'' csharp_class_example
   \<and> csharp_getVisibility ''class A {}'' csharp_class_example \<noteq> Some Internal"
  by (simp add: noExplicitVisibility_def csharp_class_example_def csharp_getVisibility_def
        modifierTexts_def)

subsection \<open>Unsupported languages (C3)\<close>

definition emptyWithOneError :: "ExtractionResult \<Rightarrow> bool" where
  "emptyWithOneError r =
     (nodes r = [] \<and> edges r = [] \<and> unresolvedReferences r = []
      \<and> map severity (errors r) = [SevError])"

text \<open>
  Claim C3. When the language is \<open>unknown\<close>, is not supported, or has no parser, the
  extractor returns no node, no edge, no unresolved reference and exactly one error record,
  of severity \<open>error\<close>. The function returns this record: nothing is thrown. The same holds
  through \<open>extractFromSource\<close>, which sends every language but Liquid to this extractor.
\<close>

theorem unsupported_language_result:
  assumes "lang = Unknown \<or> \<not> isLanguageSupported gp lang \<or> gp lang = None"
  shows "emptyWithOneError (TreeSitterExtractor_extract gp now fp src lang)
       \<and> ((case arg of Some l \<Rightarrow> l | None \<Rightarrow> detectLanguage fp) = lang \<and> lang \<noteq> Liquid \<longrightarrow>
            emptyWithOneError
              (extractFromSource \<lparr>getParser = gp, parseJsonName = js\<rparr> now fp src arg))"
proof -
  have "\<not> isLanguageSupported gp Unknown"
    by (simp add: isLanguageSupported_def)
  with assms have "\<not> isLanguageSupported gp lang \<or> gp lang = None"
    by auto
  then have "emptyWithOneError (TreeSitterExtractor_extract gp now fp src lang)"
    by (auto simp: TreeSitterExtractor_extract_def errorResult_def emptyWithOneError_def)
  then show ?thesis
    by (simp add: extractFromSource_def)
qed

theorem unsupported_language_result_witness:
  "emptyWithOneError (TreeSitterExtractor_extract (\<lambda>l. None) (\<lambda>k. 0) ''styles.css'' ''a {}'' Unknown)
   \<and> emptyWithOneError (extractFromSource \<lparr>getParser = (\<lambda>l. None), parseJsonName = (\<lambda>t. None)\<rparr>
        (\<lambda>k. 0) ''styles.css'' ''a {}'' None)"
proof -
  have d: "detectLanguage ''styles.css'' = Unknown"
    by (simp add: detectLanguage_def extension_def)
  show ?thesis
    using unsupported_language_result [where lang = Unknown and gp = "\<lambda>l. None" and now = "\<lambda>k. 0"
        and fp = "''styles.css''" and src = "''a {}''" and arg = None and js = "\<lambda>t. None"] d
    by simp
qed

subsection \<open>Anonymous declarations (C7)\<close>

definition c_struct_source :: string where
  "c_struct_source = ''struct { int x; } p;''"

definition c_struct_tree :: SyntaxNode where
  \<comment> \<open>the C translation unit \<open>struct { int x; } p;\<close>\<close>
  "c_struct_tree =
     SyntaxNode ''translation_unit'' True None 0 20 (0, 0) (0, 20)
       [SyntaxNode ''declaration'' True None 0 20 (0, 0) (0, 20)
          [SyntaxNode ''struct_specifier'' True (Some ''type'') 0 17 (0, 0) (0, 17)
             [SyntaxNode ''struct'' False None 0 6 (0, 0) (0, 6) [],
              SyntaxNode ''field_declaration_list'' True (Some ''body'') 7 17 (0, 7) (0, 17)
                [SyntaxNode ''{'' False None 7 8 (0, 7) (0, 8) [],
                 SyntaxNode ''field_declaration'' True None 9 15 (0, 9) (0, 15)
                   [SyntaxNode ''primitive_type'' True (Some ''type'') 9 12 (0, 9) (0, 12) [],
                    SyntaxNode ''field_identifier'' True (Some ''declarator'') 13 14 (0, 13) (0, 14) [],
                    SyntaxNode '';'' False None 14 15 (0, 14) (0, 15) []],
                 SyntaxNode ''}'' False None 16 17 (0, 16) (0, 17) []]],
           SyntaxNode ''identifier'' True (Some ''declarator'') 18 19 (0, 18) (0, 19) [],
           SyntaxNode '';'' False None 19 20 (0, 19) (0, 20) []]]"

text \<open>
  Claim C7 fails on the code. Only \<open>extractFunction\<close> returns early on the name
  \<open><anonymous>\<close>; \<open>extractClass\<close>, \<open>extractMethod\<close>, \<open>extractInterface\<close>, \<open>extractStruct\<close>
  and \<open>extractEnum\<close> pass whatever \<open>extractName\<close> returns to \<open>createNode\<close>. The anonymous
  struct of the C translation unit \<open>struct { int x; } p;\<close> is emitted as a \<open>struct\<close> node
  named \<open><anonymous>\<close>.
\<close>

theorem anonymous_struct_emitted:
  "map (\<lambda>n. (kind n, name n))
     (nodes (TreeSitterExtractor_extract (\<lambda>l. Some (\<lambda>t. Inr c_struct_tree)) (\<lambda>k. 0)
        ''p.c'' c_struct_source C)) = [(KStruct, ''<anonymous>'')]"
  by (simp add: c_struct_tree_def c_struct_source_def c_extractor_def
        extract_eval cst_eval walker_eval)

subsection \<open>Swift inheritance (C9)\<close>


























subsection \<open>Functions and methods (C6)\<close>

definition createdNode :: "This \<Rightarrow> NodeKind \<Rightarrow> SyntaxNode \<Rightarrow> LanguageExtractor \<Rightarrow> Walker \<Rightarrow> Node" where
  \<comment> \<open>the node that \<open>createNode\<close> builds for a declaration named by \<open>extractName\<close>\<close>
  "createdNode env k node ex s = fst (createNode env k (extractName node (this_source env) ex) node s)"

lemma kind_createdNode: "kind (createdNode env k node ex s) = k"
  by (simp add: createdNode_def createNode_def Let_def)

lemma nodes_createNode:
  "nodes (snd (createNode env k nm node s)) = nodes s @ [fst (createNode env k nm node s)]"
  by (simp add: createNode_def Let_def)

lemma nodes_extractFunction:
  assumes "this_extractor env = Some ex"
  shows "nodes (extractFunction env node s) =
           (if extractName node (this_source env) ex = ''<anonymous>'' then nodes s
            else nodes s @ [createdNode env KFunction node ex s])"
  using assms
  by (simp add: extractFunction_def Let_def split_def popScope_def pushScope_def
        visitFunctionBody_frame nodes_createNode createdNode_def split: option.split)

lemma nodes_extractMethod:
  assumes "this_extractor env = Some ex" "nodeStack s \<noteq> [] \<or> this_language env = Go"
  shows "nodes (extractMethod env node s) = nodes s @ [createdNode env KMethod node ex s]"
  using assms
  by (auto simp: extractMethod_def Let_def split_def popScope_def pushScope_def
        visitFunctionBody_frame nodes_createNode createdNode_def split: option.split)

text \<open>
  Claim C6, as amended. Let \<open>visitNode\<close> be called on a node whose type is in
  \<open>functionTypes\<close>. If the scope stack is non-empty and the type is in \<open>methodTypes\<close> too,
  the call emits exactly one node, of kind \<open>method\<close>. Otherwise it emits exactly one node, of
  kind \<open>function\<close>, when the name of the node resolves, and it emits nothing and leaves the
  state as it was when the name is \<open><anonymous>\<close>. For Go, the call on a node of a method type
  (\<open>method_declaration\<close>) emits exactly one node, of kind \<open>method\<close>, with an empty stack as
  well. In each case the node emitted is the only one that the call adds for the whole subtree
  of the node: a declaration nested in a node handled as a function or as a method emits no
  node, whatever its type.
\<close>

theorem function_or_method:
  assumes "this_extractor env = Some ex"
  shows "(nodeType node \<in> set (functionTypes ex) \<longrightarrow>
           (if nodeStack s \<noteq> [] \<and> nodeType node \<in> set (methodTypes ex)
            then nodes (visitNode env node s) = nodes s @ [createdNode env KMethod node ex s]
            else if extractName node (this_source env) ex \<noteq> ''<anonymous>''
            then nodes (visitNode env node s) = nodes s @ [createdNode env KFunction node ex s]
            else visitNode env node s = s))
       \<and> (this_language env = Go \<and> ex = go_extractor \<and> nodeType node \<in> set (methodTypes ex) \<longrightarrow>
            nodes (visitNode env node s) = nodes s @ [createdNode env KMethod node ex s])
       \<and> kind (createdNode env KMethod node ex s) = KMethod
       \<and> kind (createdNode env KFunction node ex s) = KFunction"
proof -
  have 1: "nodes (visitNode env node s) = nodes s @ [createdNode env KMethod node ex s]"
    if "nodeType node \<in> set (functionTypes ex)" "nodeStack s \<noteq> []"
       "nodeType node \<in> set (methodTypes ex)"
    using that assms
    by (subst visitNode.simps) (simp add: dispatchNode_def nodes_extractMethod)
  have 2: "nodes (visitNode env node s) = nodes s @ [createdNode env KFunction node ex s]"
    if "nodeType node \<in> set (functionTypes ex)"
       "\<not> (nodeStack s \<noteq> [] \<and> nodeType node \<in> set (methodTypes ex))"
       "extractName node (this_source env) ex \<noteq> ''<anonymous>''"
    using that assms
    by (subst visitNode.simps) (auto simp: dispatchNode_def nodes_extractFunction)
  have 3: "visitNode env node s = s"
    if "nodeType node \<in> set (functionTypes ex)"
       "\<not> (nodeStack s \<noteq> [] \<and> nodeType node \<in> set (methodTypes ex))"
       "extractName node (this_source env) ex = ''<anonymous>''"
    using that assms
    by (subst visitNode.simps) (auto simp: dispatchNode_def extractFunction_def)
  have 4: "nodes (visitNode env node s) = nodes s @ [createdNode env KMethod node ex s]"
    if "this_language env = Go" "ex = go_extractor" "nodeType node \<in> set (methodTypes ex)"
    using that assms
    by (subst visitNode.simps)
       (simp add: dispatchNode_def nodes_extractMethod go_extractor_def)
  have a: "nodeType node \<in> set (functionTypes ex) \<longrightarrow>
           (if nodeStack s \<noteq> [] \<and> nodeType node \<in> set (methodTypes ex)
            then nodes (visitNode env node s) = nodes s @ [createdNode env KMethod node ex s]
            else if extractName node (this_source env) ex \<noteq> ''<anonymous>''
            then nodes (visitNode env node s) = nodes s @ [createdNode env KFunction node ex s]
            else visitNode env node s = s)"
    using 1 2 3 by auto
  have b: "this_language env = Go \<and> ex = go_extractor \<and> nodeType node \<in> set (methodTypes ex) \<longrightarrow>
            nodes (visitNode env node s) = nodes s @ [createdNode env KMethod node ex s]"
    using 4 by blast
  show ?thesis
    by (intro conjI a b) (simp_all add: kind_createdNode)
qed

definition go_method_source :: string where
  "go_method_source = ''func (r T) M() {}''"

definition go_method_tree :: SyntaxNode where
  \<comment> \<open>the \<open>method_declaration\<close> of the Go file \<open>func (r T) M() {}\<close>\<close>
  "go_method_tree =
     SyntaxNode ''method_declaration'' True None 0 17 (0, 0) (0, 17)
       [SyntaxNode ''func'' False None 0 4 (0, 0) (0, 4) [],
        SyntaxNode ''parameter_list'' True (Some ''receiver'') 5 10 (0, 5) (0, 10)
          [SyntaxNode ''('' False None 5 6 (0, 5) (0, 6) [],
           SyntaxNode ''parameter_declaration'' True None 6 9 (0, 6) (0, 9)
             [SyntaxNode ''identifier'' True (Some ''name'') 6 7 (0, 6) (0, 7) [],
              SyntaxNode ''type_identifier'' True (Some ''type'') 8 9 (0, 8) (0, 9) []],
           SyntaxNode '')'' False None 9 10 (0, 9) (0, 10) []],
        SyntaxNode ''field_identifier'' True (Some ''name'') 11 12 (0, 11) (0, 12) [],
        SyntaxNode ''parameter_list'' True (Some ''parameters'') 12 14 (0, 12) (0, 14)
          [SyntaxNode ''('' False None 12 13 (0, 12) (0, 13) [],
           SyntaxNode '')'' False None 13 14 (0, 13) (0, 14) []],
        SyntaxNode ''block'' True (Some ''body'') 15 17 (0, 15) (0, 17)
          [SyntaxNode ''{'' False None 15 16 (0, 15) (0, 16) [],
           SyntaxNode ''}'' False None 16 17 (0, 16) (0, 17) []]]"

definition go_function_source :: string where
  "go_function_source = ''func F() {}''"

definition go_function_tree :: SyntaxNode where
  \<comment> \<open>the \<open>function_declaration\<close> of the Go file \<open>func F() {}\<close>\<close>
  "go_function_tree =
     SyntaxNode ''function_declaration'' True None 0 11 (0, 0) (0, 11)
       [SyntaxNode ''func'' False None 0 4 (0, 0) (0, 4) [],
        SyntaxNode ''identifier'' True (Some ''name'') 5 6 (0, 5) (0, 6) [],
        SyntaxNode ''parameter_list'' True (Some ''parameters'') 6 8 (0, 6) (0, 8)
          [SyntaxNode ''('' False None 6 7 (0, 6) (0, 7) [],
           SyntaxNode '')'' False None 7 8 (0, 7) (0, 8) []],
        SyntaxNode ''block'' True (Some ''body'') 9 11 (0, 9) (0, 11)
          [SyntaxNode ''{'' False None 9 10 (0, 9) (0, 10) [],
           SyntaxNode ''}'' False None 10 11 (0, 10) (0, 11) []]]"

definition python_class_source :: string where
  \<comment> \<open>two lines: \<open>class A:\<close> and, indented by two spaces, \<open>def m(): pass\<close>\<close>
  "python_class_source = ''class A:'' @ [CHR 0x0A] @ ''  def m(): pass''"

definition python_method_tree :: SyntaxNode where
  \<comment> \<open>the \<open>function_definition\<close> on the second line\<close>
  "python_method_tree =
     SyntaxNode ''function_definition'' True None 11 24 (1, 2) (1, 15)
       [SyntaxNode ''def'' False None 11 14 (1, 2) (1, 5) [],
        SyntaxNode ''identifier'' True (Some ''name'') 15 16 (1, 6) (1, 7) [],
        SyntaxNode ''parameters'' True (Some ''parameters'') 16 18 (1, 7) (1, 9)
          [SyntaxNode ''('' False None 16 17 (1, 7) (1, 8) [],
           SyntaxNode '')'' False None 17 18 (1, 8) (1, 9) []],
        SyntaxNode '':'' False None 18 19 (1, 9) (1, 10) [],
        SyntaxNode ''block'' True (Some ''body'') 20 24 (1, 11) (1, 15)
          [SyntaxNode ''pass_statement'' True None 20 24 (1, 11) (1, 15)
             [SyntaxNode ''pass'' False None 20 24 (1, 11) (1, 15) []]]]"

definition python_class_tree :: SyntaxNode where
  \<comment> \<open>the \<open>class_definition\<close> of the file\<close>
  "python_class_tree =
     SyntaxNode ''class_definition'' True None 0 24 (0, 0) (1, 15)
       [SyntaxNode ''class'' False None 0 5 (0, 0) (0, 5) [],
        SyntaxNode ''identifier'' True (Some ''name'') 6 7 (0, 6) (0, 7) [],
        SyntaxNode '':'' False None 7 8 (0, 7) (0, 8) [],
        SyntaxNode ''block'' True (Some ''body'') 11 24 (1, 2) (1, 15) [python_method_tree]]"

definition python_class_env :: This where
  "python_class_env = newExtractor (\<lambda>k. 0) ''a.py'' python_class_source Python"

definition python_class_scope :: Walker where
  \<comment> \<open>the state in which \<open>extractClass\<close> visits the body of the class \<open>A\<close>\<close>
  "python_class_scope =
     (let (classNode, s1) = createNode python_class_env KClass ''A'' python_class_tree initialWalker
      in pushScope (node_id classNode)
           (extractInheritance python_class_env python_class_tree (node_id classNode) s1))"

theorem function_or_method_witness:
  "this_extractor (newExtractor (\<lambda>k. 0) ''m.go'' go_method_source Go) = Some go_extractor
   \<and> nodeType go_method_tree \<in> set (methodTypes go_extractor)
   \<and> map (\<lambda>n. (kind n, name n))
        (nodes (visitNode (newExtractor (\<lambda>k. 0) ''m.go'' go_method_source Go) go_method_tree
           initialWalker)) = [(KMethod, ''M'')]
   \<and> this_extractor (newExtractor (\<lambda>k. 0) ''f.go'' go_function_source Go) = Some go_extractor
   \<and> nodeType go_function_tree \<in> set (functionTypes go_extractor)
   \<and> map (\<lambda>n. (kind n, name n))
        (nodes (visitNode (newExtractor (\<lambda>k. 0) ''f.go'' go_function_source Go) go_function_tree
           initialWalker)) = [(KFunction, ''F'')]
   \<and> this_extractor python_class_env = Some python_extractor
   \<and> nodeType python_method_tree \<in> set (functionTypes python_extractor)
   \<and> nodeType python_method_tree \<in> set (methodTypes python_extractor)
   \<and> nodeStack python_class_scope \<noteq> []
   \<and> map (\<lambda>n. (kind n, name n))
        (nodes (visitNode python_class_env python_method_tree python_class_scope))
       = [(KClass, ''A''), (KMethod, ''m'')]"
proof -
  have 1: "this_extractor (newExtractor (\<lambda>k. 0) ''m.go'' go_method_source Go) = Some go_extractor"
    by (simp add: newExtractor_def)
  have 2: "nodeType go_method_tree \<in> set (methodTypes go_extractor)"
    by (simp add: go_method_tree_def go_extractor_def)
  have 3: "this_language (newExtractor (\<lambda>k. 0) ''m.go'' go_method_source Go) = Go"
    by (simp add: newExtractor_def)
  have 4: "name (createdNode (newExtractor (\<lambda>k. 0) ''m.go'' go_method_source Go) KMethod
                  go_method_tree go_extractor initialWalker) = ''M''"
    by (simp add: createdNode_def createNode_def extractName_def go_method_tree_def
          go_method_source_def go_extractor_def newExtractor_def cst_eval Let_def)
  have 5: "this_extractor (newExtractor (\<lambda>k. 0) ''f.go'' go_function_source Go) = Some go_extractor"
    by (simp add: newExtractor_def)
  have 6: "nodeType go_function_tree \<in> set (functionTypes go_extractor)"
    by (simp add: go_function_tree_def go_extractor_def)
  have 7: "extractName go_function_tree
             (this_source (newExtractor (\<lambda>k. 0) ''f.go'' go_function_source Go)) go_extractor = ''F''"
    by (simp add: extractName_def go_function_tree_def go_function_source_def go_extractor_def
          newExtractor_def cst_eval)
  have 8: "name (createdNode (newExtractor (\<lambda>k. 0) ''f.go'' go_function_source Go) KFunction
                  go_function_tree go_extractor initialWalker) = ''F''"
    using 7 by (simp add: createdNode_def createNode_def Let_def)
  have 9: "this_extractor python_class_env = Some python_extractor"
    by (simp add: python_class_env_def newExtractor_def)
  have 10: "nodeType python_method_tree \<in> set (functionTypes python_extractor)"
    and 11: "nodeType python_method_tree \<in> set (methodTypes python_extractor)"
    by (simp_all add: python_method_tree_def python_extractor_def)
  have 12: "nodeStack python_class_scope \<noteq> []"
    by (simp add: python_class_scope_def split_def Let_def pushScope_def)
  have 13: "map (\<lambda>n. (kind n, name n)) (nodes python_class_scope) = [(KClass, ''A'')]"
    by (simp add: python_class_scope_def split_def Let_def pushScope_def nodes_createNode
          addsReferences_frame(1) [OF addsReferences_extractInheritance] createNode_def
          initialWalker_def)
  have 14: "name (createdNode python_class_env KMethod python_method_tree python_extractor
                    python_class_scope) = ''m''"
    by (simp add: createdNode_def createNode_def extractName_def python_method_tree_def
          python_class_source_def python_extractor_def python_class_env_def newExtractor_def
          cst_eval Let_def)
  have a: "map (\<lambda>n. (kind n, name n))
        (nodes (visitNode (newExtractor (\<lambda>k. 0) ''m.go'' go_method_source Go) go_method_tree
           initialWalker)) = [(KMethod, ''M'')]"
    using function_or_method [OF 1, of go_method_tree initialWalker] 1 2 3 4
    by (simp add: initialWalker_def)
  have b: "map (\<lambda>n. (kind n, name n))
        (nodes (visitNode (newExtractor (\<lambda>k. 0) ''f.go'' go_function_source Go) go_function_tree
           initialWalker)) = [(KFunction, ''F'')]"
    using function_or_method [OF 5, of go_function_tree initialWalker] 5 6 7 8
    by (simp add: initialWalker_def)
  have c: "map (\<lambda>n. (kind n, name n))
        (nodes (visitNode python_class_env python_method_tree python_class_scope))
       = [(KClass, ''A''), (KMethod, ''m'')]"
    using function_or_method [OF 9, of python_method_tree python_class_scope] 10 11 12 13 14
    by simp
  show ?thesis
    using 1 2 5 6 9 10 11 12 a b c by simp
qed

definition nested_function_source :: string where
  "nested_function_source = ''function f() { function g() {} }''"

definition nested_function_tree :: SyntaxNode where
  \<comment> \<open>the TypeScript program \<open>function f() { function g() {} }\<close>\<close>
  "nested_function_tree =
     SyntaxNode ''program'' True None 0 32 (0, 0) (0, 32)
       [SyntaxNode ''function_declaration'' True None 0 32 (0, 0) (0, 32)
          [SyntaxNode ''function'' False None 0 8 (0, 0) (0, 8) [],
           SyntaxNode ''identifier'' True (Some ''name'') 9 10 (0, 9) (0, 10) [],
           SyntaxNode ''formal_parameters'' True (Some ''parameters'') 10 12 (0, 10) (0, 12)
             [SyntaxNode ''('' False None 10 11 (0, 10) (0, 11) [],
              SyntaxNode '')'' False None 11 12 (0, 11) (0, 12) []],
           SyntaxNode ''statement_block'' True (Some ''body'') 13 32 (0, 13) (0, 32)
             [SyntaxNode ''{'' False None 13 14 (0, 13) (0, 14) [],
              SyntaxNode ''function_declaration'' True None 15 30 (0, 15) (0, 30)
                [SyntaxNode ''function'' False None 15 23 (0, 15) (0, 23) [],
                 SyntaxNode ''identifier'' True (Some ''name'') 24 25 (0, 24) (0, 25) [],
                 SyntaxNode ''formal_parameters'' True (Some ''parameters'') 25 27 (0, 25) (0, 27)
                   [SyntaxNode ''('' False None 25 26 (0, 25) (0, 26) [],
                    SyntaxNode '')'' False None 26 27 (0, 26) (0, 27) []],
                 SyntaxNode ''statement_block'' True (Some ''body'') 28 30 (0, 28) (0, 30)
                   [SyntaxNode ''{'' False None 28 29 (0, 28) (0, 29) [],
                    SyntaxNode ''}'' False None 29 30 (0, 29) (0, 30) []]],
              SyntaxNode ''}'' False None 31 32 (0, 31) (0, 32) []]]]"

definition arrow_source :: string where
  "arrow_source = ''() => 1''"

definition arrow_tree :: SyntaxNode where
  \<comment> \<open>the TypeScript program \<open>() => 1\<close>\<close>
  "arrow_tree =
     SyntaxNode ''program'' True None 0 7 (0, 0) (0, 7)
       [SyntaxNode ''expression_statement'' True None 0 7 (0, 0) (0, 7)
          [SyntaxNode ''arrow_function'' True None 0 7 (0, 0) (0, 7)
             [SyntaxNode ''formal_parameters'' True (Some ''parameters'') 0 2 (0, 0) (0, 2)
                [SyntaxNode ''('' False None 0 1 (0, 0) (0, 1) [],
                 SyntaxNode '')'' False None 1 2 (0, 1) (0, 2) []],
              SyntaxNode ''=>'' False None 3 5 (0, 3) (0, 5) [],
              SyntaxNode ''number'' True (Some ''body'') 6 7 (0, 6) (0, 7) []]]]"

text \<open>
  The claim as stated fails for a function declared inside a function: in the TypeScript
  program \<open>function f() { function g() {} }\<close> the declaration of \<open>g\<close> has a type in
  \<open>functionTypes\<close> and a name, and the only node emitted is the function \<open>f\<close>, since the body
  of \<open>f\<close> is scanned for calls only. It fails as well for a function without a name: the
  arrow function of the program \<open>() => 1\<close> has a type in \<open>functionTypes\<close>, is visited with an
  empty stack, and no node is emitted for it.
\<close>

theorem nested_function_counterexample:
  "''function_declaration'' \<in> set (functionTypes typescript_extractor)
   \<and> map (\<lambda>n. (kind n, name n))
        (nodes (TreeSitterExtractor_extract (\<lambda>l. Some (\<lambda>t. Inr nested_function_tree)) (\<lambda>k. 0)
           ''n.ts'' nested_function_source TypeScript)) = [(KFunction, ''f'')]
   \<and> ''arrow_function'' \<in> set (functionTypes typescript_extractor)
   \<and> nodes (TreeSitterExtractor_extract (\<lambda>l. Some (\<lambda>t. Inr arrow_tree)) (\<lambda>k. 0)
        ''a.ts'' arrow_source TypeScript) = []"
  by (simp add: nested_function_tree_def nested_function_source_def arrow_tree_def
        arrow_source_def typescript_extractor_def extract_eval cst_eval walker_eval)

subsection \<open>Imports (C4)\<close>





lemma generateNodeId_nonempty: "generateNodeId fp k nm ln \<noteq> []"
  by (simp add: generateNodeId_def)


























subsection \<open>Evaluating SHA-256\<close>

lemmas sha_eval = sha256hex_def utf8_def sha_pad_def be64_def hex32_def hex_char_def compress_def
  sha_K_def sha_H0_def ssig0_def ssig1_def bsig0_def bsig1_def ch_def maj_def rotr_def
  round_out_def add32_def

lemma replicate_numeral: "replicate (numeral n) x = x # replicate (pred_numeral n) x"
  by (simp add: numeral_eq_Suc)

lemma length_sha_round: "length (sha_round k w st) = length st"
  by (induction k w st rule: sha_round.induct) (simp_all add: round_out_def)

lemma length_rounds: "length (rounds ks ws st) = length st"
  by (induction ks ws st rule: rounds.induct) (simp_all add: length_sha_round)

lemma length_sha_blocks: "length (sha_blocks hs ws) = length hs"
  by (induction hs ws rule: sha_blocks.induct) (simp_all add: compress_def length_rounds)

lemma length_sha256hex: "length (sha256hex s) = 64"
proof -
  have "length (concat (map hex32 ws)) = 8 * length ws" for ws
    by (induction ws) (simp_all add: hex32_def)
  then show ?thesis
    by (simp add: sha256hex_def length_sha_blocks sha_H0_def)
qed

subsection \<open>Node identity (C1)\<close>

definition idFormula :: "Node \<Rightarrow> string" where
  \<comment> \<open>the kind, a colon, and the first 32 hexadecimal digits of the SHA-256 digest of
      \<open>filePath:kind:name:startLine\<close>\<close>
  "idFormula n =
     kind_tag (kind n) @ '':'' @
     take 32 (sha256hex (filePath n @ '':'' @ kind_tag (kind n) @ '':'' @ name n @ '':''
                         @ show_nat (startLine n)))"

lemma length_idFormula: "length (idFormula n) = length (kind_tag (kind n)) + 33"
  by (simp add: idFormula_def length_sha256hex)

lemma substring_0: "substring s 0 n = take n s"
  by (simp add: substring_def min_def)

lemma createNode_idFormula:
  "node_id (fst (createNode env k nm node s)) = idFormula (fst (createNode env k nm node s))"
  by (simp add: createNode_def Let_def idFormula_def generateNodeId_def substring_0)

lemma preserved_idFormula: "preserved env (\<lambda>s. \<forall>n \<in> set (nodes s). node_id n = idFormula n)"
  unfolding preserved_def
proof (intro conjI allI impI)
  fix k nm node and s :: Walker
  assume "\<forall>n \<in> set (nodes s). node_id n = idFormula n"
  then show "\<forall>n \<in> set (nodes (snd (createNode env k nm node s))). node_id n = idFormula n"
    using createNode_idFormula [of env k nm node s] by (simp add: nodes_createNode)
qed (simp_all add: addReference_def pushScope_def popScope_def)

lemma walker_idFormula:
  "\<forall>n \<in> set (nodes (TreeSitterExtractor_extract gp now fp src lang)). node_id n = idFormula n"
proof -
  have "\<forall>n \<in> set (nodes (visitNode env root initialWalker)). node_id n = idFormula n" for env root
    by (rule pres_visitNode [OF preserved_idFormula]) (simp add: initialWalker_def)
  then show ?thesis
    by (simp add: TreeSitterExtractor_extract_def errorResult_def finish_def initialWalker_def
          split: option.split sum.split)
qed

text \<open>
  Claim C1, as amended. The id of every node emitted by the tree-sitter extractor is the
  kind of the node, a colon, and the first 32 hexadecimal digits (128 bits) of the SHA-256
  digest of \<open>filePath:kind:name:startLine\<close>, with the 1-based start line. Hence two nodes of
  any two such extractions with the same file path, kind, name and start line have the same
  id, whatever else differs in the inputs.
\<close>

theorem walker_node_id:
  "\<forall>n \<in> set (nodes (TreeSitterExtractor_extract gp now fp src lang)).
      node_id n = idFormula n
      \<and> length (node_id n) = length (kind_tag (kind n)) + 33
      \<and> (\<forall>m \<in> set (nodes (TreeSitterExtractor_extract gp' now' fp' src' lang')).
            filePath m = filePath n \<and> kind m = kind n \<and> name m = name n
            \<and> startLine m = startLine n \<longrightarrow> node_id m = node_id n)"
proof (intro ballI conjI impI)
  fix n assume n: "n \<in> set (nodes (TreeSitterExtractor_extract gp now fp src lang))"
  then show 1: "node_id n = idFormula n"
    using walker_idFormula by blast
  then show "length (node_id n) = length (kind_tag (kind n)) + 33"
    by (simp add: length_idFormula)
  fix m assume "m \<in> set (nodes (TreeSitterExtractor_extract gp' now' fp' src' lang'))"
    and "filePath m = filePath n \<and> kind m = kind n \<and> name m = name n \<and> startLine m = startLine n"
  then show "node_id m = node_id n"
    using walker_idFormula [of gp' now' fp' src' lang'] 1 by (simp add: idFormula_def)
qed


theorem walker_node_id_witness:
  "map name (nodes (TreeSitterExtractor_extract (\<lambda>l. Some (\<lambda>t. Inr go_function_tree)) (\<lambda>k. 0)
      ''f.go'' go_function_source Go)) = [''F'']
   \<and> map node_id (nodes (TreeSitterExtractor_extract (\<lambda>l. Some (\<lambda>t. Inr go_function_tree))
        (\<lambda>k. 0) ''f.go'' go_function_source Go))
     = map idFormula (nodes (TreeSitterExtractor_extract (\<lambda>l. Some (\<lambda>t. Inr go_function_tree))
        (\<lambda>k. 0) ''f.go'' go_function_source Go))"
proof -
  let ?r = "TreeSitterExtractor_extract (\<lambda>l. Some (\<lambda>t. Inr go_function_tree)) (\<lambda>k. 0)
      ''f.go'' go_function_source Go"
  have 1: "map name (nodes ?r) = [''F'']"
    by (simp add: go_function_tree_def go_function_source_def go_extractor_def
          extract_eval cst_eval walker_eval)
  have 2: "map node_id (nodes ?r) = map idFormula (nodes ?r)"
    using walker_node_id [of "\<lambda>l. Some (\<lambda>t. Inr go_function_tree)" "\<lambda>k. 0" "''f.go''"
        go_function_source Go "\<lambda>l. Some (\<lambda>t. Inr go_function_tree)" "\<lambda>k. 0" "''f.go''"
        go_function_source Go]
    by simp
  show ?thesis using 1 2 by simp
qed

subsection \<open>Evaluating the Liquid extractor\<close>

lemmas regex_eval = lit_def optDash_def spaces0_def spaces1_def tagOpen_def quotedName_def
  matchRender_def matchSection_def tagClose_def wholeTag_def matchSchema_def matchAssign_def
  isSpace_def isWord_def isQuote_def

lemmas liquid_eval = LiquidExtractor_extract_def createFileNode_def pushContained_def
  pushReference_def snippetStep_def extractSnippetReferences_def sectionStep_def
  extractSectionReferences_def schemaStep_def extractSchema_def assignStep_def
  extractAssignments_def initialExtraction_def finish_def Let_def split_def

lemma show_nat_1: "show_nat (Suc 0) = ''1''"
  by (subst show_nat.simps) (simp add: digit_char_def)

lemma getLineNumber_0: "getLineNumber src 0 = 1"
  by (simp add: getLineNumber_def substring_def)

definition liquid_render_source :: string where
  \<comment> \<open>the template \<open>{% render 'product-card' %}\<close>\<close>
  "liquid_render_source = ''{% render '' @ [CHR 0x27] @ ''product-card'' @ [CHR 0x27] @ '' %}''"

definition liquid_render_result :: ExtractionResult where
  "liquid_render_result =
     extractFromSource \<lparr>getParser = (\<lambda>l. None), parseJsonName = (\<lambda>t. None)\<rparr> (\<lambda>k. 0)
       ''index.liquid'' liquid_render_source None"

lemma liquid_render_matches:
  "execAll matchRender 0 0 liquid_render_source = [(0, (''render'', ''product-card''), 24)]"
  "execAll matchSection 0 0 liquid_render_source = []"
  "execAll matchSchema 0 0 liquid_render_source = []"
  "execAll matchAssign 0 0 liquid_render_source = []"
  by (simp_all add: liquid_render_source_def regex_eval)

lemma liquid_render_component:
  "nodes liquid_render_result ! Suc 0
     = componentNode \<lparr>liquid_filePath = ''index.liquid'', liquid_source = liquid_render_source,
                       liquid_now = (\<lambda>k. 0), jsonName = (\<lambda>t. None)\<rparr>
         ''render'' ''product-card'' 0 24 (Suc (Suc 0))"
  by (simp add: liquid_render_result_def extractFromSource_def detectLanguage_def extension_def
        liquid_eval liquid_render_matches)

lemma sha256_render_product_card:
  "sha256hex ''index.liquid:component:render:product-card:1''
     = ''7984e494e7473f72bacf003dd0661f8ecd58fea36e58a1e423126d396e4fcc5c''"
  by (simp add: sha_eval replicate_numeral)

lemma sha256_product_card:
  "sha256hex ''index.liquid:component:product-card:1''
     = ''f41233fdf653aec701578000d93737c3c8505b480b27219c45c5ead6a0d014ce''"
  by (simp add: sha_eval replicate_numeral)

text \<open>
  The claim as stated fails for the Liquid extractor. For the template
  \<open>{% render 'product-card' %}\<close> in the file \<open>index.liquid\<close> the component node has the name
  \<open>product-card\<close> and the start line 1, and its id is made from the digest of
  \<open>index.liquid:component:render:product-card:1\<close>, with the tag before the name, not from the
  digest of \<open>index.liquid:component:product-card:1\<close>.
\<close>

theorem liquid_component_id_counterexample:
  "kind (nodes liquid_render_result ! 1) = KComponent
   \<and> name (nodes liquid_render_result ! 1) = ''product-card''
   \<and> filePath (nodes liquid_render_result ! 1) = ''index.liquid''
   \<and> startLine (nodes liquid_render_result ! 1) = 1
   \<and> node_id (nodes liquid_render_result ! 1) = ''component:7984e494e7473f72bacf003dd0661f8e''
   \<and> idFormula (nodes liquid_render_result ! 1) = ''component:f41233fdf653aec701578000d93737c3''"
  by (simp add: liquid_render_component componentNode_def getLineNumber_0 Let_def idFormula_def
        generateNodeId_def substring_0 show_nat_1
        sha256_render_product_card sha256_product_card)

subsection \<open>Containment (C8)\<close>

definition containsEdges :: "'a Output_scheme \<Rightarrow> (string \<times> string) set" where
  \<comment> \<open>the graph of the edges of kind \<open>contains\<close>, on node ids\<close>
  "containsEdges r = {(source e, target e) | e. e \<in> set (edges r) \<and> edge_kind e = Contains}"

definition containsForest :: "'a Output_scheme \<Rightarrow> bool" where
  \<comment> \<open>no cycle, and no id is the target of two edges of kind \<open>contains\<close>\<close>
  "containsForest r =
     (acyclic (containsEdges r)
      \<and> distinct (map target (filter (\<lambda>e. edge_kind e = Contains) (edges r))))"

definition edgesOrdered :: "Node list \<Rightarrow> Edge list \<Rightarrow> bool" where
  \<comment> \<open>every edge is of kind \<open>contains\<close> and leads to a node from a node emitted before it\<close>
  "edgesOrdered ns es =
     (\<forall>e \<in> set es. edge_kind e = Contains
        \<and> (\<exists>pre n post. ns = pre @ n # post \<and> target e = node_id n
              \<and> source e \<in> node_id ` set pre))"

definition containment :: "'a Output_scheme \<Rightarrow> bool" where
  \<comment> \<open>the edges are ordered, and their targets are ids of distinct positions of the node
      list, in the order of the list\<close>
  "containment r =
     (edgesOrdered (nodes r) (edges r) \<and> subseq (map target (edges r)) (map node_id (nodes r)))"

definition walkerContainment :: "Walker \<Rightarrow> bool" where
  "walkerContainment s = (set (nodeStack s) \<subseteq> node_id ` set (nodes s) \<and> containment s)"

lemma edgesOrdered_snoc_node: "edgesOrdered ns es \<Longrightarrow> edgesOrdered (ns @ [n]) es"
  unfolding edgesOrdered_def
proof (intro ballI conjI)
  fix e assume a: "\<forall>e \<in> set es. edge_kind e = Contains
        \<and> (\<exists>pre n post. ns = pre @ n # post \<and> target e = node_id n
              \<and> source e \<in> node_id ` set pre)" and e: "e \<in> set es"
  from a e show "edge_kind e = Contains" by blast
  from a e obtain pre m post where "ns = pre @ m # post" "target e = node_id m"
    "source e \<in> node_id ` set pre" by blast
  then have "ns @ [n] = pre @ m # (post @ [n]) \<and> target e = node_id m
      \<and> source e \<in> node_id ` set pre" by simp
  then show "\<exists>pre m post. ns @ [n] = pre @ m # post \<and> target e = node_id m
      \<and> source e \<in> node_id ` set pre" by blast
qed

lemma edgesOrdered_snoc_edge:
  assumes "edgesOrdered (ns @ [n]) es" "p \<in> node_id ` set ns"
  shows "edgesOrdered (ns @ [n]) (es @ [\<lparr>source = p, target = node_id n, edge_kind = Contains\<rparr>])"
proof -
  have "ns @ [n] = ns @ n # [] \<and> node_id n = node_id n \<and> p \<in> node_id ` set ns"
    using assms(2) by simp
  then have "\<exists>pre m post. ns @ [n] = pre @ m # post \<and> node_id n = node_id m
      \<and> p \<in> node_id ` set pre" by blast
  then show ?thesis
    using assms(1) by (simp add: edgesOrdered_def)
qed

lemma preserved_walkerContainment: "preserved env walkerContainment"
  unfolding preserved_def
proof (intro conjI allI impI)
  fix k nm node and s :: Walker
  assume inv: "walkerContainment s"
  let ?n = "fst (createNode env k nm node s)"
  have ns: "nodes (snd (createNode env k nm node s)) = nodes s @ [?n]"
    by (simp add: createNode_def Let_def)
  have st: "nodeStack (snd (createNode env k nm node s)) = nodeStack s"
    by (simp add: createNode_def Let_def)
  have es: "edges (snd (createNode env k nm node s))
      = (if nodeStack s \<noteq> [] \<and> last (nodeStack s) \<noteq> []
         then edges s @ [\<lparr>source = last (nodeStack s), target = node_id ?n, edge_kind = Contains\<rparr>]
         else edges s)"
    by (simp add: createNode_def Let_def)
  from inv have o: "edgesOrdered (nodes s @ [?n]) (edges s)"
    and sub: "subseq (map target (edges s)) (map node_id (nodes s))"
    and stack: "set (nodeStack s) \<subseteq> node_id ` set (nodes s)"
    by (simp_all add: walkerContainment_def containment_def edgesOrdered_snoc_node)
  have o': "edgesOrdered (nodes s @ [?n])
      (edges s @ [\<lparr>source = last (nodeStack s), target = node_id ?n, edge_kind = Contains\<rparr>])"
    if "nodeStack s \<noteq> []"
  proof (rule edgesOrdered_snoc_edge [OF o])
    from that have "last (nodeStack s) \<in> set (nodeStack s)" by simp
    with stack show "last (nodeStack s) \<in> node_id ` set (nodes s)" by blast
  qed
  have s1: "subseq (map target (edges s)) (map node_id (nodes s) @ [node_id ?n])"
    using list_emb_append_mono [OF sub, of "[]" "[node_id ?n]"] by simp
  have s2: "subseq (map target (edges s) @ [node_id ?n]) (map node_id (nodes s) @ [node_id ?n])"
    using list_emb_append_mono [OF sub, of "[node_id ?n]" "[node_id ?n]"] by simp
  show "walkerContainment (snd (createNode env k nm node s))"
    using stack o o' s1 s2
    by (auto simp: walkerContainment_def containment_def ns st es)
next
  fix r and s :: Walker
  assume "walkerContainment s"
  then show "walkerContainment (addReference r s)"
    by (simp add: walkerContainment_def containment_def addReference_def)
next
  fix n and s :: Walker
  assume "walkerContainment s" "n \<in> set (nodes s)"
  then show "walkerContainment (pushScope (node_id n) s)"
    by (simp add: walkerContainment_def containment_def pushScope_def)
next
  fix s :: Walker
  assume "walkerContainment s"
  then show "walkerContainment (popScope s)"
    by (auto simp: walkerContainment_def containment_def popScope_def dest: in_set_butlastD)
qed

lemma containment_TreeSitterExtractor:
  "containment (TreeSitterExtractor_extract gp now fp src lang)"
proof -
  have w: "walkerContainment initialWalker"
    by (simp add: walkerContainment_def containment_def edgesOrdered_def initialWalker_def)
  have "walkerContainment (visitNode env root initialWalker)" for env root
    using w by (rule pres_visitNode [OF preserved_walkerContainment])
  then have "containment (finish now (visitNode env root initialWalker))" for env root
    by (simp add: walkerContainment_def containment_def finish_def)
  moreover have "containment (finish now (initialWalker\<lparr>errors := es\<rparr>))" for es
    by (simp add: containment_def edgesOrdered_def finish_def initialWalker_def)
  moreover have "containment (errorResult msg d)" for msg d
    by (simp add: containment_def edgesOrdered_def errorResult_def)
  ultimately show ?thesis
    by (simp add: TreeSitterExtractor_extract_def split: option.split sum.split)
qed

definition liquidContainment :: "string \<Rightarrow> Extraction \<Rightarrow> bool" where
  \<comment> \<open>the first node is the file node, and the edges are the edges from it to all the others\<close>
  "liquidContainment fileNodeId s =
     (nodes s \<noteq> [] \<and> node_id (hd (nodes s)) = fileNodeId
      \<and> edges s = map (\<lambda>n. \<lparr>source = fileNodeId, target = node_id n, edge_kind = Contains\<rparr>)
                       (tl (nodes s)))"

lemma liquidContainment_pushContained:
  "liquidContainment i s \<Longrightarrow> liquidContainment i (pushContained i n s)"
  by (simp add: liquidContainment_def pushContained_def)

lemma liquidContainment_pushReference:
  "liquidContainment i s \<Longrightarrow> liquidContainment i (pushReference r s)"
  by (simp add: liquidContainment_def pushReference_def)

lemma liquidContainment_steps:
  assumes "liquidContainment i s"
  shows "liquidContainment i (snippetStep env i m s)"
    and "liquidContainment i (sectionStep env i m' s)"
    and "liquidContainment i (schemaStep env i m' s)"
    and "liquidContainment i (assignStep env i m' s)"
  using assms
  by (simp_all add: snippetStep_def sectionStep_def schemaStep_def assignStep_def Let_def
        split_def liquidContainment_pushContained liquidContainment_pushReference)

lemma liquidContainment_extract:
  assumes "liquidContainment i s"
  shows "liquidContainment i
           (extractAssignments env i (extractSchema env i
              (extractSectionReferences env i (extractSnippetReferences env i s))))"
proof -
  have 1: "liquidContainment i (extractSnippetReferences env i s)"
    unfolding extractSnippetReferences_def
    by (rule pres_fold [where P = "liquidContainment i"])
       (simp_all add: liquidContainment_steps assms)
  have 2: "liquidContainment i (extractSectionReferences env i (extractSnippetReferences env i s))"
    unfolding extractSectionReferences_def
    by (rule pres_fold [where P = "liquidContainment i"])
       (simp_all add: liquidContainment_steps 1)
  have 3: "liquidContainment i (extractSchema env i
              (extractSectionReferences env i (extractSnippetReferences env i s)))"
    unfolding extractSchema_def
    by (rule pres_fold [where P = "liquidContainment i"])
       (simp_all add: liquidContainment_steps 2)
  show ?thesis
    unfolding extractAssignments_def
    by (rule pres_fold [where P = "liquidContainment i"])
       (simp_all add: liquidContainment_steps 3)
qed

lemma liquidContainment_containment:
  assumes "liquidContainment i s"
  shows "containment (finish now s)"
proof -
  obtain f ns where ns: "nodes s = f # ns" and f: "node_id f = i"
    and es: "edges s = map (\<lambda>n. \<lparr>source = i, target = node_id n, edge_kind = Contains\<rparr>) ns"
    using assms by (cases "nodes s") (auto simp: liquidContainment_def)
  have "edgesOrdered (f # ns) (map (\<lambda>n. \<lparr>source = i, target = node_id n, edge_kind = Contains\<rparr>) ns)"
    unfolding edgesOrdered_def
  proof (intro ballI conjI)
    fix e assume e: "e \<in> set (map (\<lambda>n. \<lparr>source = i, target = node_id n, edge_kind = Contains\<rparr>) ns)"
    then show "edge_kind e = Contains" by auto
    from e obtain n where n: "n \<in> set ns"
      and e': "e = \<lparr>source = i, target = node_id n, edge_kind = Contains\<rparr>" by auto
    from n obtain a b where "ns = a @ n # b" by (auto dest: split_list)
    then have "f # ns = (f # a) @ n # b \<and> target e = node_id n \<and> source e \<in> node_id ` set (f # a)"
      using e' f by simp
    then show "\<exists>pre n post. f # ns = pre @ n # post \<and> target e = node_id n
        \<and> source e \<in> node_id ` set pre" by blast
  qed
  moreover have "map target (map (\<lambda>n. \<lparr>source = i, target = node_id n, edge_kind = Contains\<rparr>) ns)
      = map node_id ns"
    by (simp add: o_def)
  moreover have "subseq (map node_id ns) (node_id f # map node_id ns)"
    by (rule list_emb_Cons) simp
  ultimately have "edgesOrdered (nodes s) (edges s)
      \<and> subseq (map target (edges s)) (map node_id (nodes s))"
    by (simp only: ns es list.map)
  then show ?thesis
    by (simp add: containment_def finish_def)
qed

lemma containment_LiquidExtractor: "containment (LiquidExtractor_extract json now fp src)"
proof -
  let ?env = "\<lparr> liquid_filePath = fp, liquid_source = src, liquid_now = now, jsonName = json \<rparr>"
  let ?C = "createFileNode ?env initialExtraction"
  have "liquidContainment (node_id (fst ?C)) (snd ?C)"
    by (simp add: liquidContainment_def createFileNode_def Let_def initialExtraction_def)
  then have "liquidContainment (node_id (fst ?C))
      (extractAssignments ?env (node_id (fst ?C)) (extractSchema ?env (node_id (fst ?C))
         (extractSectionReferences ?env (node_id (fst ?C))
            (extractSnippetReferences ?env (node_id (fst ?C)) (snd ?C)))))"
    by (rule liquidContainment_extract)
  then have "containment (finish now
      (extractAssignments ?env (node_id (fst ?C)) (extractSchema ?env (node_id (fst ?C))
         (extractSectionReferences ?env (node_id (fst ?C))
            (extractSnippetReferences ?env (node_id (fst ?C)) (snd ?C))))))"
    by (rule liquidContainment_containment)
  then show ?thesis
    by (simp add: LiquidExtractor_extract_def Let_def split_def)
qed

lemma subseq_distinct: "subseq xs ys \<Longrightarrow> distinct ys \<Longrightarrow> distinct xs"
proof (induction rule: list_emb.induct)
  case (list_emb_Cons2 x y xs ys)
  then have "x \<notin> set xs"
    by (auto dest: list_emb_set)
  with list_emb_Cons2 show ?case by simp
qed simp_all

lemma takeWhile_before:
  assumes "x \<in> set xs"
  shows "length (takeWhile (\<lambda>y. y \<noteq> x) (xs @ ys)) < length xs"
  using assms by (induction xs) auto

lemma takeWhile_at:
  assumes "x \<notin> set xs"
  shows "length (takeWhile (\<lambda>y. y \<noteq> x) (xs @ x # ys)) = length xs"
  using assms by (induction xs) auto

lemma containment_forest:
  assumes "containment r" "distinct (map node_id (nodes r))"
  shows "containsForest r"
proof -
  let ?ids = "map node_id (nodes r)"
  let ?g = "\<lambda>x. length (takeWhile (\<lambda>y. y \<noteq> x) ?ids)"
  from assms(1) have o: "edgesOrdered (nodes r) (edges r)"
    and sub: "subseq (map target (edges r)) ?ids"
    by (simp_all add: containment_def)
  have "containsEdges r \<subseteq> inv_image less_than ?g"
  proof
    fix p assume "p \<in> containsEdges r"
    then obtain e where e: "e \<in> set (edges r)" and p: "p = (source e, target e)"
      by (auto simp: containsEdges_def)
    from o e obtain pre n post where ns: "nodes r = pre @ n # post"
      and t: "target e = node_id n" and s: "source e \<in> node_id ` set pre"
      by (auto simp: edgesOrdered_def)
    from assms(2) ns have "node_id n \<notin> set (map node_id pre)"
      by auto
    then have "?g (target e) = length pre"
      using takeWhile_at [of "node_id n" "map node_id pre" "map node_id post"]
      by (simp add: ns t)
    moreover have "?g (source e) < length pre"
      using takeWhile_before [of "source e" "map node_id pre" "map node_id (n # post)"] s
      by (simp add: ns)
    ultimately show "p \<in> inv_image less_than ?g"
      by (simp add: p)
  qed
  then have "wf (containsEdges r)"
    by (rule wf_subset [OF wf_inv_image [OF wf_less_than]])
  then have a: "acyclic (containsEdges r)"
    by (rule wf_acyclic)
  have "distinct (map target (edges r))"
    using sub assms(2) by (rule subseq_distinct)
  then have "distinct (map target (filter (\<lambda>e. edge_kind e = Contains) (edges r)))"
    by (simp add: distinct_map_filter)
  with a show ?thesis
    by (simp add: containsForest_def)
qed

text \<open>
  Claim C8, as amended. For every input whose extraction output has no two nodes with the
  same id, the edges of kind \<open>contains\<close> of the output form a forest: they have no cycle, and
  no node is the target of two of them.
\<close>

theorem contains_forest:
  assumes "distinct (map node_id (nodes (extractFromSource rt now fp src lang)))"
  shows "containsForest (extractFromSource rt now fp src lang)"
proof -
  have "containment (extractFromSource rt now fp src lang)"
    by (simp add: extractFromSource_def Let_def containment_TreeSitterExtractor
          containment_LiquidExtractor)
  then show ?thesis
    using assms by (rule containment_forest)
qed

definition python_class_module :: SyntaxNode where
  \<comment> \<open>the tree of the Python file \<open>python_class_source\<close>\<close>
  "python_class_module = SyntaxNode ''module'' True None 0 24 (0, 0) (1, 15) [python_class_tree]"

definition python_class_result :: ExtractionResult where
  "python_class_result =
     extractFromSource \<lparr>getParser = (\<lambda>l. Some (\<lambda>t. Inr python_class_module)),
                         parseJsonName = (\<lambda>t. None)\<rparr> (\<lambda>k. 0) ''a.py'' python_class_source None"

lemma python_class_result_eval:
  "map node_id (nodes python_class_result)
     = [generateNodeId ''a.py'' KClass ''A'' 1, generateNodeId ''a.py'' KMethod ''m'' 2]"
  "edges python_class_result
     = [\<lparr>source = generateNodeId ''a.py'' KClass ''A'' 1,
          target = generateNodeId ''a.py'' KMethod ''m'' 2, edge_kind = Contains\<rparr>]"
  by (simp_all add: python_class_result_def extractFromSource_def detectLanguage_def
        extension_def python_class_module_def python_class_tree_def python_method_tree_def
        python_class_source_def python_extractor_def extract_eval cst_eval walker_eval
        generateNodeId_nonempty numeral_2_eq_2)

theorem contains_forest_witness:
  "distinct (map node_id (nodes python_class_result))
   \<and> edges python_class_result
       = [\<lparr>source = generateNodeId ''a.py'' KClass ''A'' 1,
            target = generateNodeId ''a.py'' KMethod ''m'' 2, edge_kind = Contains\<rparr>]
   \<and> containsForest python_class_result"
proof -
  have d: "distinct (map node_id (nodes python_class_result))"
    by (simp add: python_class_result_eval generateNodeId_def)
  then have "distinct (map node_id (nodes (extractFromSource
      \<lparr>getParser = (\<lambda>l. Some (\<lambda>t. Inr python_class_module)), parseJsonName = (\<lambda>t. None)\<rparr>
      (\<lambda>k. 0) ''a.py'' python_class_source None)))"
    by (simp add: python_class_result_def)
  then have "containsForest python_class_result"
    unfolding python_class_result_def by (rule contains_forest)
  with d show ?thesis
    by (simp add: python_class_result_eval)
qed

definition swift_nested_source :: string where
  "swift_nested_source = ''class A { class A {} }''"

definition swift_nested_tree :: SyntaxNode where
  \<comment> \<open>the Swift file \<open>class A { class A {} }\<close>\<close>
  "swift_nested_tree =
     SyntaxNode ''source_file'' True None 0 22 (0, 0) (0, 22)
       [SyntaxNode ''class_declaration'' True None 0 22 (0, 0) (0, 22)
          [SyntaxNode ''class'' False (Some ''declaration_kind'') 0 5 (0, 0) (0, 5) [],
           SyntaxNode ''type_identifier'' True (Some ''name'') 6 7 (0, 6) (0, 7) [],
           SyntaxNode ''class_body'' True (Some ''body'') 8 22 (0, 8) (0, 22)
             [SyntaxNode ''{'' False None 8 9 (0, 8) (0, 9) [],
              SyntaxNode ''class_declaration'' True None 10 20 (0, 10) (0, 20)
                [SyntaxNode ''class'' False (Some ''declaration_kind'') 10 15 (0, 10) (0, 15) [],
                 SyntaxNode ''type_identifier'' True (Some ''name'') 16 17 (0, 16) (0, 17) [],
                 SyntaxNode ''class_body'' True (Some ''body'') 18 20 (0, 18) (0, 20)
                   [SyntaxNode ''{'' False None 18 19 (0, 18) (0, 19) [],
                    SyntaxNode ''}'' False None 19 20 (0, 19) (0, 20) []]],
              SyntaxNode ''}'' False None 21 22 (0, 21) (0, 22) []]]]"

definition swift_nested_result :: ExtractionResult where
  "swift_nested_result =
     extractFromSource \<lparr>getParser = (\<lambda>l. Some (\<lambda>t. Inr swift_nested_tree)),
                         parseJsonName = (\<lambda>t. None)\<rparr> (\<lambda>k. 0) ''a.swift'' swift_nested_source None"

lemma swift_nested_result_eval:
  "map (\<lambda>n. (node_id n, kind n, name n, startLine n)) (nodes swift_nested_result)
     = [(generateNodeId ''a.swift'' KClass ''A'' 1, KClass, ''A'', 1),
        (generateNodeId ''a.swift'' KClass ''A'' 1, KClass, ''A'', 1)]"
  "edges swift_nested_result
     = [\<lparr>source = generateNodeId ''a.swift'' KClass ''A'' 1,
          target = generateNodeId ''a.swift'' KClass ''A'' 1, edge_kind = Contains\<rparr>]"
  by (simp_all add: swift_nested_result_def extractFromSource_def detectLanguage_def
        extension_def swift_nested_tree_def swift_nested_source_def swift_extractor_def
        extract_eval cst_eval walker_eval swift_eval generateNodeId_nonempty)

text \<open>
  The claim as stated fails when two nodes get the same id. In the Swift file
  \<open>class A { class A {} }\<close> the two classes have the same file path, kind, name and start
  line, hence the same id, and the edge of kind \<open>contains\<close> from the outer class to the inner
  one is a loop from that id to itself.
\<close>

theorem nested_class_counterexample:
  "map (\<lambda>n. (node_id n, kind n, name n, startLine n)) (nodes swift_nested_result)
     = [(generateNodeId ''a.swift'' KClass ''A'' 1, KClass, ''A'', 1),
        (generateNodeId ''a.swift'' KClass ''A'' 1, KClass, ''A'', 1)]
   \<and> edges swift_nested_result
       = [\<lparr>source = generateNodeId ''a.swift'' KClass ''A'' 1,
            target = generateNodeId ''a.swift'' KClass ''A'' 1, edge_kind = Contains\<rparr>]
   \<and> \<not> containsForest swift_nested_result"
proof -
  have "(generateNodeId ''a.swift'' KClass ''A'' 1, generateNodeId ''a.swift'' KClass ''A'' 1)
      \<in> containsEdges swift_nested_result"
    by (simp add: containsEdges_def swift_nested_result_eval)
  then have "\<not> acyclic (containsEdges swift_nested_result)"
    by (auto simp: acyclic_def)
  then show ?thesis
    by (simp add: swift_nested_result_eval containsForest_def)
qed

subsection \<open>Liquid snippets (C10)\<close>

definition fileFirst :: "Extraction \<Rightarrow> bool" where
  \<comment> \<open>the first node is of kind \<open>file\<close>, and no other node is\<close>
  "fileFirst t = (nodes t \<noteq> [] \<and> kind (hd (nodes t)) = KFile
                  \<and> list_all (\<lambda>n. kind n \<noteq> KFile) (tl (nodes t)))"

definition liquidPrefix :: "(NodeKind \<times> string) list \<Rightarrow> (string \<times> string \<times> EdgeKind) list \<Rightarrow> Extraction \<Rightarrow> bool" where
  \<comment> \<open>the kinds and names of the nodes start with \<open>kns\<close>, and the references with \<open>rs\<close>\<close>
  "liquidPrefix kns rs t =
     ((\<exists>rest. map (\<lambda>n. (kind n, name n)) (nodes t) = kns @ rest)
      \<and> (\<exists>rest. map (\<lambda>r. (fromNodeId r, referenceName r, referenceKind r)) (unresolvedReferences t)
                 = rs @ rest))"

lemma fileFirst_pushContained:
  "fileFirst t \<Longrightarrow> kind n \<noteq> KFile \<Longrightarrow> fileFirst (pushContained i n t)"
  by (cases "nodes t") (simp_all add: fileFirst_def pushContained_def)

lemma fileFirst_pushReference: "fileFirst t \<Longrightarrow> fileFirst (pushReference r t)"
  by (simp add: fileFirst_def pushReference_def)

lemma fileFirst_steps:
  assumes "fileFirst t"
  shows "fileFirst (snippetStep env i m t)"
    and "fileFirst (sectionStep env i m' t)"
    and "fileFirst (schemaStep env i m' t)"
    and "fileFirst (assignStep env i m' t)"
  using assms
  by (simp_all add: snippetStep_def sectionStep_def schemaStep_def assignStep_def Let_def
        split_def componentNode_def fileFirst_pushContained fileFirst_pushReference)

lemma liquidPrefix_pushContained: "liquidPrefix kns rs t \<Longrightarrow> liquidPrefix kns rs (pushContained i n t)"
  by (auto simp: liquidPrefix_def pushContained_def)

lemma liquidPrefix_pushReference: "liquidPrefix kns rs t \<Longrightarrow> liquidPrefix kns rs (pushReference r t)"
  by (auto simp: liquidPrefix_def pushReference_def)

lemma liquidPrefix_steps:
  assumes "liquidPrefix kns rs t"
  shows "liquidPrefix kns rs (sectionStep env i m' t)"
    and "liquidPrefix kns rs (schemaStep env i m' t)"
    and "liquidPrefix kns rs (assignStep env i m' t)"
  using assms
  by (simp_all add: sectionStep_def schemaStep_def assignStep_def Let_def split_def
        liquidPrefix_pushContained liquidPrefix_pushReference)

lemma snippet_fold:
  "map (\<lambda>n. (kind n, name n)) (nodes (fold (snippetStep env i) ms s))
     = map (\<lambda>n. (kind n, name n)) (nodes s)
       @ map (\<lambda>(idx, (tagType, X), len). (KComponent, X)) ms
   \<and> map (\<lambda>r. (fromNodeId r, referenceName r, referenceKind r))
        (unresolvedReferences (fold (snippetStep env i) ms s))
     = map (\<lambda>r. (fromNodeId r, referenceName r, referenceKind r)) (unresolvedReferences s)
       @ map (\<lambda>(idx, (tagType, X), len). (i, ''snippets/'' @ X @ ''.liquid'', References)) ms"
  by (induction ms arbitrary: s)
     (simp_all add: snippetStep_def pushReference_def pushContained_def componentNode_def
        referenceFrom_def Let_def split_def)

lemma liquid_phases:
  assumes "fileFirst s" "liquidPrefix kns rs (extractSnippetReferences env i s)"
  shows "fileFirst (extractAssignments env i (extractSchema env i
           (extractSectionReferences env i (extractSnippetReferences env i s))))"
    and "liquidPrefix kns rs (extractAssignments env i (extractSchema env i
           (extractSectionReferences env i (extractSnippetReferences env i s))))"
proof -
  have f1: "fileFirst (extractSnippetReferences env i s)"
    unfolding extractSnippetReferences_def
    by (rule pres_fold [where P = fileFirst]) (simp_all add: fileFirst_steps assms)
  have f2: "fileFirst (extractSectionReferences env i (extractSnippetReferences env i s))"
    unfolding extractSectionReferences_def
    by (rule pres_fold [where P = fileFirst]) (simp_all add: fileFirst_steps f1)
  have f3: "fileFirst (extractSchema env i
              (extractSectionReferences env i (extractSnippetReferences env i s)))"
    unfolding extractSchema_def
    by (rule pres_fold [where P = fileFirst]) (simp_all add: fileFirst_steps f2)
  show "fileFirst (extractAssignments env i (extractSchema env i
           (extractSectionReferences env i (extractSnippetReferences env i s))))"
    unfolding extractAssignments_def
    by (rule pres_fold [where P = fileFirst]) (simp_all add: fileFirst_steps f3)
  have p2: "liquidPrefix kns rs (extractSectionReferences env i (extractSnippetReferences env i s))"
    unfolding extractSectionReferences_def
    by (rule pres_fold [where P = "liquidPrefix kns rs"]) (simp_all add: liquidPrefix_steps assms)
  have p3: "liquidPrefix kns rs (extractSchema env i
              (extractSectionReferences env i (extractSnippetReferences env i s)))"
    unfolding extractSchema_def
    by (rule pres_fold [where P = "liquidPrefix kns rs"]) (simp_all add: liquidPrefix_steps p2)
  show "liquidPrefix kns rs (extractAssignments env i (extractSchema env i
           (extractSectionReferences env i (extractSnippetReferences env i s))))"
    unfolding extractAssignments_def
    by (rule pres_fold [where P = "liquidPrefix kns rs"]) (simp_all add: liquidPrefix_steps p3)
qed

text \<open>
  Where the matches of a global regular expression are: a match at a position is found by the
  loop, unless the position lies inside an earlier match.
\<close>

lemma execAll_covers:
  assumes "m (drop i s) = Some (g, rest)" "i < length s" "skip \<le> i"
  shows "(idx + i, g, length s - i - length rest) \<in> set (execAll m skip idx s)
       \<or> (\<exists>(j, g', l) \<in> set (execAll m skip idx s). j < idx + i \<and> idx + i < j + l)"
  using assms
proof (induction s arbitrary: i skip idx)
  case Nil
  then show ?case by simp
next
  case (Cons c cs)
  show ?case
  proof (cases "skip > 0")
    case True
    with Cons.prems obtain i' where i: "i = Suc i'" by (cases i) auto
    from Cons.IH [of i' "skip - 1" "idx + 1"] Cons.prems True i show ?thesis
      by (auto simp: split_def)
  next
    case False
    then have skip: "skip = 0" by simp
    show ?thesis
    proof (cases "m (c # cs)")
      case None
      with Cons.prems obtain i' where i: "i = Suc i'" by (cases i) auto
      from Cons.IH [of i' 0 "idx + 1"] Cons.prems None skip i show ?thesis
        by (auto simp: split_def)
    next
      case (Some a)
      obtain g0 rest0 where a: "a = (g0, rest0)" by (cases a)
      let ?len = "length (c # cs) - length rest0"
      show ?thesis
      proof (cases i)
        case 0
        with Cons.prems Some a skip show ?thesis by (simp add: Let_def)
      next
        case (Suc i')
        show ?thesis
        proof (cases "?len - 1 \<le> i'")
          case True
          from Cons.IH [of i' "?len - 1" "idx + 1"] Cons.prems True Suc
          have "(idx + 1 + i', g, length cs - i' - length rest)
                  \<in> set (execAll m (?len - 1) (idx + 1) cs)
              \<or> (\<exists>(j, g', l) \<in> set (execAll m (?len - 1) (idx + 1) cs).
                    j < idx + 1 + i' \<and> idx + 1 + i' < j + l)"
            by simp
          then show ?thesis
            using Some a skip Suc by (auto simp: Let_def split_def)
        next
          case False
          then have "idx < idx + i \<and> idx + i < idx + ?len"
            using Suc by simp
          then show ?thesis
            using Some a skip by (auto simp: Let_def)
        qed
      qed
    qed
  qed
qed

lemma matchRender_tag:
  assumes "tagType = ''render'' \<or> tagType = ''include''" "X \<noteq> []" "\<forall>c \<in> set X. \<not> isQuote c"
    and "isQuote q" "isQuote q'"
  shows "matchRender (''{% '' @ tagType @ '' '' @ [q] @ X @ [q'] @ post) = Some ((tagType, X), post)"
proof -
  have tw: "takeWhile (\<lambda>c. \<not> isQuote c) (X @ q' # post) = X"
    and dw: "dropWhile (\<lambda>c. \<not> isQuote c) (X @ q' # post) = q' # post"
    using assms(3,5) by (simp_all add: takeWhile_append2 dropWhile_append2 takeWhile_append1)
  have q: "quotedName (q # X @ q' # post) = Some (X, post)"
    using assms(2,4,5) by (simp add: quotedName_def tw dw Let_def)
  have nq: "\<not> isSpace q"
    using assms(4) by (auto simp: isQuote_def isSpace_def)
  have spc: "isSpace (CHR '' '')"
    by (simp add: isSpace_def)
  have sp: "spaces1 (CHR '' '' # q # X @ q' # post) = Some (q # X @ q' # post)"
    by (simp add: spaces1_def nq spc)
  from assms(1) show ?thesis
  proof
    assume "tagType = ''render''"
    then show ?thesis
      using q sp by (simp add: matchRender_def tagOpen_def lit_def optDash_def spaces0_def isSpace_def)
  next
    assume "tagType = ''include''"
    then show ?thesis
      using q sp by (simp add: matchRender_def tagOpen_def lit_def optDash_def spaces0_def isSpace_def)
  qed
qed

text \<open>
  Claim C10, as amended. The extraction of a Liquid template emits exactly one node of kind
  \<open>file\<close>, the first one. For each match of the regular expression of
  \<open>extractSnippetReferences\<close> in the template, taken from left to right, each search starting
  where the previous match ended, with the tag \<open>render\<close> or \<open>include\<close> and the name \<open>X\<close> as its
  groups, it emits, in this order and before anything else, a node of kind \<open>component\<close> named
  \<open>X\<close> and an unresolved reference of kind \<open>references\<close> from the file node to
  \<open>snippets/X.liquid\<close>. The edges are exactly the edges of kind \<open>contains\<close> from the file node
  to every other node, in the order of the nodes. An occurrence of \<open>{% render 'X' %}\<close> or
  \<open>{% include 'X' %}\<close>, with \<open>X\<close> non-empty and free of quotes, is such a match unless it
  starts inside an earlier match.
\<close>

theorem liquid_render_include:
  "filter (\<lambda>n. kind n = KFile) (nodes (LiquidExtractor_extract json now fp src))
     = [hd (nodes (LiquidExtractor_extract json now fp src))]
   \<and> node_id (hd (nodes (LiquidExtractor_extract json now fp src))) = generateNodeId fp KFile fp 1
   \<and> (\<exists>rest. map (\<lambda>n. (kind n, name n)) (nodes (LiquidExtractor_extract json now fp src))
               = (KFile, lastSegment fp)
                 # map (\<lambda>(idx, (tagType, X), len). (KComponent, X)) (execAll matchRender 0 0 src)
                 @ rest)
   \<and> (\<exists>rest. map (\<lambda>r. (fromNodeId r, referenceName r, referenceKind r))
                 (unresolvedReferences (LiquidExtractor_extract json now fp src))
               = map (\<lambda>(idx, (tagType, X), len).
                        (generateNodeId fp KFile fp 1, ''snippets/'' @ X @ ''.liquid'', References))
                   (execAll matchRender 0 0 src)
                 @ rest)
   \<and> edges (LiquidExtractor_extract json now fp src)
       = map (\<lambda>n. \<lparr>source = generateNodeId fp KFile fp 1, target = node_id n,
                    edge_kind = Contains\<rparr>)
           (tl (nodes (LiquidExtractor_extract json now fp src)))
   \<and> (src = pre @ ''{% '' @ tagType @ '' '' @ [CHR 0x27] @ X @ [CHR 0x27] @ '' %}'' @ post
        \<and> (tagType = ''render'' \<or> tagType = ''include'')
        \<and> X \<noteq> [] \<and> (\<forall>c \<in> set X. \<not> isQuote c) \<longrightarrow>
        (length pre, (tagType, X), length tagType + length X + 6) \<in> set (execAll matchRender 0 0 src)
        \<or> (\<exists>(j, g, l) \<in> set (execAll matchRender 0 0 src). j < length pre \<and> length pre < j + l))"
proof -
  let ?env = "\<lparr> liquid_filePath = fp, liquid_source = src, liquid_now = now, jsonName = json \<rparr>"
  let ?i = "generateNodeId fp KFile fp 1"
  let ?s1 = "snd (createFileNode ?env initialExtraction)"
  let ?s5 = "extractAssignments ?env ?i (extractSchema ?env ?i
               (extractSectionReferences ?env ?i (extractSnippetReferences ?env ?i ?s1)))"
  let ?kns = "(KFile, lastSegment fp)
                # map (\<lambda>(idx, (tagType, X), len). (KComponent, X)) (execAll matchRender 0 0 src)"
  let ?rs = "map (\<lambda>(idx, (tagType, X), len). (?i, ''snippets/'' @ X @ ''.liquid'', References))
               (execAll matchRender 0 0 src)"
  have i: "node_id (fst (createFileNode ?env initialExtraction)) = ?i"
    by (simp add: createFileNode_def Let_def)
  have R: "LiquidExtractor_extract json now fp src = finish now ?s5"
    by (simp add: LiquidExtractor_extract_def Let_def split_def i)
  have ff: "fileFirst ?s1"
    by (simp add: fileFirst_def createFileNode_def Let_def initialExtraction_def)
  have lc: "liquidContainment ?i ?s1"
    by (simp add: liquidContainment_def createFileNode_def Let_def initialExtraction_def)
  have "liquidPrefix ?kns ?rs (extractSnippetReferences ?env ?i ?s1)"
    using snippet_fold [of ?env ?i "execAll matchRender 0 0 src" ?s1]
    by (simp add: liquidPrefix_def extractSnippetReferences_def createFileNode_def Let_def
          initialExtraction_def)
  with ff have f5: "fileFirst ?s5" and p5: "liquidPrefix ?kns ?rs ?s5"
    by (rule liquid_phases)+
  from lc have c5: "liquidContainment ?i ?s5"
    by (rule liquidContainment_extract)
  have 1: "filter (\<lambda>n. kind n = KFile) (nodes ?s5) = [hd (nodes ?s5)]"
  proof (cases "nodes ?s5")
    case Nil
    with f5 show ?thesis by (simp add: fileFirst_def)
  next
    case (Cons h t)
    with f5 have "kind h = KFile" "list_all (\<lambda>n. kind n \<noteq> KFile) t"
      by (simp_all add: fileFirst_def)
    then have "filter (\<lambda>n. kind n = KFile) t = []"
      by (simp add: list_all_iff filter_empty_conv)
    with Cons \<open>kind h = KFile\<close> show ?thesis by simp
  qed
  have 6: "(length pre, (tagType, X), length tagType + length X + 6) \<in> set (execAll matchRender 0 0 src)
        \<or> (\<exists>(j, g, l) \<in> set (execAll matchRender 0 0 src). j < length pre \<and> length pre < j + l)"
    if src: "src = pre @ ''{% '' @ tagType @ '' '' @ [CHR 0x27] @ X @ [CHR 0x27] @ '' %}'' @ post"
      and t: "tagType = ''render'' \<or> tagType = ''include''"
      and X: "X \<noteq> []" "\<forall>c \<in> set X. \<not> isQuote c"
  proof -
    have "matchRender (drop (length pre) src) = Some ((tagType, X), '' %}'' @ post)"
      using matchRender_tag [OF t X, of "CHR 0x27" "CHR 0x27" "'' %}'' @ post"]
      by (simp add: src isQuote_def)
    from execAll_covers [where m = matchRender and i = "length pre" and s = src and skip = 0
        and idx = 0, OF this]
    show ?thesis
      by (simp add: src ac_simps)
  qed
  show ?thesis
    using 1 c5 p5 6
    by (simp add: R finish_def liquidContainment_def liquidPrefix_def)
qed

theorem liquid_render_include_witness:
  "liquid_render_source = [] @ ''{% '' @ ''render'' @ '' '' @ [CHR 0x27] @ ''product-card'' @ [CHR 0x27]
      @ '' %}'' @ []
   \<and> ''product-card'' \<noteq> [] \<and> (\<forall>c \<in> set ''product-card''. \<not> isQuote c)
   \<and> execAll matchRender 0 0 liquid_render_source = [(0, (''render'', ''product-card''), 24)]
   \<and> (\<exists>rest. map (\<lambda>n. (kind n, name n))
                 (nodes (LiquidExtractor_extract (\<lambda>t. None) (\<lambda>k. 0) ''index.liquid''
                    liquid_render_source))
               = [(KFile, ''index.liquid''), (KComponent, ''product-card'')] @ rest)
   \<and> (\<exists>rest. map (\<lambda>r. (fromNodeId r, referenceName r, referenceKind r))
                 (unresolvedReferences (LiquidExtractor_extract (\<lambda>t. None) (\<lambda>k. 0) ''index.liquid''
                    liquid_render_source))
               = [(generateNodeId ''index.liquid'' KFile ''index.liquid'' 1,
                   ''snippets/product-card.liquid'', References)] @ rest)"
proof -
  have a: "liquid_render_source = [] @ ''{% '' @ ''render'' @ '' '' @ [CHR 0x27] @ ''product-card''
      @ [CHR 0x27] @ '' %}'' @ []"
    by (simp add: liquid_render_source_def)
  have b: "''product-card'' \<noteq> [] \<and> (\<forall>c \<in> set ''product-card''. \<not> isQuote c)"
    by (simp add: isQuote_def)
  have c: "lastSegment ''index.liquid'' = ''index.liquid''"
    by (simp add: lastSegment_def)
  note t = liquid_render_include [of "\<lambda>t. None" "\<lambda>k. 0" "''index.liquid''" liquid_render_source
      "[]" "''render''" "''product-card''" "[]"]
  have m: "execAll matchRender 0 0 liquid_render_source = [(0, (''render'', ''product-card''), 24)]"
    using t a b by (cases "execAll matchRender 0 0 liquid_render_source")
                   (auto simp: liquid_render_matches(1))
  show ?thesis
    using t a b c m by simp
qed

definition liquid_overlap_source :: string where
  \<comment> \<open>the template \<open>{% render '{% render 'X' %}\<close>\<close>
  "liquid_overlap_source =
     ''{% render '' @ [CHR 0x27] @ ''{% render '' @ [CHR 0x27] @ ''X'' @ [CHR 0x27] @ '' %}''"

lemma liquid_overlap_matches:
  "execAll matchRender 0 0 liquid_overlap_source = [(0, (''render'', ''{% render ''), 22)]"
  "execAll matchSection 0 0 liquid_overlap_source = []"
  "execAll matchSchema 0 0 liquid_overlap_source = []"
  "execAll matchAssign 0 0 liquid_overlap_source = []"
  by (simp_all add: liquid_overlap_source_def regex_eval)

text \<open>
  The claim as stated fails for an occurrence that lies inside an earlier match. The template
  \<open>{% render '{% render 'X' %}\<close> contains \<open>{% render 'X' %}\<close>, from index 11 on; the regular
  expression matches once, at index 0, with the name \<open>{% render \<close> up to the second quote, and
  the search goes on after that quote. The extraction emits the file node and a component
  named \<open>{% render \<close>, and no component named \<open>X\<close>.
\<close>

theorem liquid_overlap_counterexample:
  "drop 11 liquid_overlap_source = ''{% render '' @ [CHR 0x27] @ ''X'' @ [CHR 0x27] @ '' %}''
   \<and> map (\<lambda>n. (kind n, name n))
        (nodes (extractFromSource \<lparr>getParser = (\<lambda>l. None), parseJsonName = (\<lambda>t. None)\<rparr> (\<lambda>k. 0)
           ''index.liquid'' liquid_overlap_source None))
       = [(KFile, ''index.liquid''), (KComponent, ''{% render '')]
   \<and> map referenceName
        (unresolvedReferences (extractFromSource \<lparr>getParser = (\<lambda>l. None), parseJsonName = (\<lambda>t. None)\<rparr>
           (\<lambda>k. 0) ''index.liquid'' liquid_overlap_source None))
       = [''snippets/{% render .liquid'']"
proof -
  have "drop 11 liquid_overlap_source = ''{% render '' @ [CHR 0x27] @ ''X'' @ [CHR 0x27] @ '' %}''"
    by (simp add: liquid_overlap_source_def)
  moreover have "lastSegment ''index.liquid'' = ''index.liquid''"
    by (simp add: lastSegment_def)
  ultimately show ?thesis
    by (simp add: extractFromSource_def detectLanguage_def extension_def liquid_eval
          liquid_overlap_matches componentNode_def referenceFrom_def)
qed

end
